theory Spec2Isabelle
  imports Main "HOL-Library.Sublist" "HOL-Library.AList"
begin

section \<open>Registry types and helper functions (bedrock-registries/types.ts)\<close>

text \<open>
  \<^verbatim>\<open>export type EndpointType = 'regional' | 'cross-region' | 'global-cross-region';\<close>
  The string-literal union is a three-valued enumeration; \<open>endpointType_str\<close> gives the
  literal each value is written as (it appears in messages).
\<close>

datatype EndpointType = Regional | CrossRegion | GlobalCrossRegion

fun endpointType_str :: "EndpointType \<Rightarrow> string" where
  "endpointType_str Regional = ''regional''"
| "endpointType_str CrossRegion = ''cross-region''"
| "endpointType_str GlobalCrossRegion = ''global-cross-region''"

text \<open>
  \<^verbatim>\<open>interface QuotaCodes { readonly tokenQuotaCode?: string; readonly requestQuotaCode?: string; }\<close>
  An optional property is an \<open>option\<close>.
\<close>

record QuotaCodes =
  tokenQuotaCode :: "string option"
  requestQuotaCode :: "string option"

text \<open>
  \<open>ModelConfig<T>\<close> is \<open>EnhancedModelConfig<T> & QuotaProperties<T>\<close>: the three base
  fields and one optional \<open>QuotaCodes\<close> property per endpoint kind. The burndown rate is a
  JavaScript number; every registry value is a small natural number, and the model keeps
  it a \<open>nat\<close>.
\<close>

record ModelConfig =
  modelId :: string
  outputTokenBurndownRate :: nat
  supportedEndpoints :: "EndpointType list"
  regional :: "QuotaCodes option"
  crossRegion :: "QuotaCodes option"
  globalCrossRegion :: "QuotaCodes option"

text \<open>JavaScript truthiness of an optional string: \<open>undefined\<close> and \<open>''\<close> are falsy.\<close>

fun truthy :: "string option \<Rightarrow> bool" where
  "truthy None = False"
| "truthy (Some s) = (s \<noteq> [])"

text \<open>\<open>validateQuotaCodes\<close>: the warnings for an incomplete pair of quota codes.\<close>

definition validateQuotaCodes :: "QuotaCodes \<Rightarrow> string \<Rightarrow> string list" where
  "validateQuotaCodes quotaCodes mid =
     (if \<not> truthy (tokenQuotaCode quotaCodes) \<and> \<not> truthy (requestQuotaCode quotaCodes) then
        [''Model '' @ mid @ '': No quota codes provided. Consider adding both tokenQuotaCode and requestQuotaCode for complete monitoring.'']
      else if \<not> truthy (tokenQuotaCode quotaCodes) then
        [''Model '' @ mid @ '': Missing tokenQuotaCode. Consider adding for complete token usage monitoring.'']
      else if \<not> truthy (requestQuotaCode quotaCodes) then
        [''Model '' @ mid @ '': Missing requestQuotaCode. Consider adding for complete request monitoring.'']
      else [])"

text \<open>
  \<open>getQuotaCodes\<close>: a \<open>switch\<close> on the endpoint type that reads the matching property;
  \<open>x || null\<close> turns a missing property into \<open>null\<close> (an object is always truthy). The
  \<open>default\<close> branch of the source is outside the declared type.
\<close>

fun getQuotaCodes :: "ModelConfig \<Rightarrow> EndpointType \<Rightarrow> QuotaCodes option" where
  "getQuotaCodes modelConfig Regional = regional modelConfig"
| "getQuotaCodes modelConfig CrossRegion = crossRegion modelConfig"
| "getQuotaCodes modelConfig GlobalCrossRegion = globalCrossRegion modelConfig"

text \<open>\<open>quotaCodes?.tokenQuotaCode || null\<close> and its sibling.\<close>

definition getTokenQuotaCode :: "ModelConfig \<Rightarrow> EndpointType \<Rightarrow> string option" where
  "getTokenQuotaCode modelConfig endpointType =
     (case getQuotaCodes modelConfig endpointType of
        None \<Rightarrow> None
      | Some qc \<Rightarrow> (if truthy (tokenQuotaCode qc) then tokenQuotaCode qc else None))"

definition getRequestQuotaCode :: "ModelConfig \<Rightarrow> EndpointType \<Rightarrow> string option" where
  "getRequestQuotaCode modelConfig endpointType =
     (case getQuotaCodes modelConfig endpointType of
        None \<Rightarrow> None
      | Some qc \<Rightarrow> (if truthy (requestQuotaCode qc) then requestQuotaCode qc else None))"

text \<open>\<open>modelConfig.supportedEndpoints.includes(endpointType)\<close>.\<close>

definition validateModelEndpointSupport :: "ModelConfig \<Rightarrow> EndpointType \<Rightarrow> bool" where
  "validateModelEndpointSupport modelConfig endpointType =
     (endpointType \<in> set (supportedEndpoints modelConfig))"

definition getSupportedEndpointTypes :: "ModelConfig \<Rightarrow> EndpointType list" where
  "getSupportedEndpointTypes modelConfig = supportedEndpoints modelConfig"

text \<open>
  \<open>createModelConfig\<close> returns its argument unchanged; its only effect is the console
  warnings, one per incomplete pair of a supported endpoint.
\<close>

definition createModelConfig_warnings :: "ModelConfig \<Rightarrow> string list" where
  "createModelConfig_warnings config =
     concat (map (\<lambda>endpointType.
        case getQuotaCodes config endpointType of
          None \<Rightarrow> []
        | Some quotaCodes \<Rightarrow>
            map (\<lambda>w. ''[Quota Config Warning] '' @ w) (validateQuotaCodes quotaCodes (modelId config)))
       (supportedEndpoints config))"

definition createModelConfig :: "ModelConfig \<Rightarrow> ModelConfig" where
  "createModelConfig config = config"

text \<open>
  A quota-code pair that holds at least one identifier: the case in which
  \<open>validateQuotaCodes\<close> does not take its first branch.
\<close>

definition has_identifier :: "QuotaCodes \<Rightarrow> bool" where
  "has_identifier qc = (truthy (tokenQuotaCode qc) \<or> truthy (requestQuotaCode qc))"

section \<open>The region tables (bedrock-registries/us-west-2.ts and us-east-1.ts)\<close>

named_theorems registry_defs

subsection \<open>us-west-2\<close>

definition usw2_AMAZON_NOVA_MICRO_V1 :: ModelConfig where [registry_defs]:
  "usw2_AMAZON_NOVA_MICRO_V1 = \<lparr>modelId = ''amazon.nova-micro-v1:0'', outputTokenBurndownRate = 1,
     supportedEndpoints = [CrossRegion],
     regional = None,
     crossRegion = Some \<lparr>tokenQuotaCode = Some ''L-DC7FF66C'', requestQuotaCode = Some ''L-3F110E0F''\<rparr>,
     globalCrossRegion = None\<rparr>"

definition usw2_AMAZON_NOVA_LITE_V1 :: ModelConfig where [registry_defs]:
  "usw2_AMAZON_NOVA_LITE_V1 = \<lparr>modelId = ''amazon.nova-lite-v1:0'', outputTokenBurndownRate = 1,
     supportedEndpoints = [CrossRegion],
     regional = None,
     crossRegion = Some \<lparr>tokenQuotaCode = Some ''L-7C42E72A'', requestQuotaCode = Some ''L-89F8391A''\<rparr>,
     globalCrossRegion = None\<rparr>"

definition usw2_AMAZON_NOVA_PRO_V1 :: ModelConfig where [registry_defs]:
  "usw2_AMAZON_NOVA_PRO_V1 = \<lparr>modelId = ''amazon.nova-pro-v1:0'', outputTokenBurndownRate = 1,
     supportedEndpoints = [CrossRegion],
     regional = None,
     crossRegion = Some \<lparr>tokenQuotaCode = Some ''L-C0326783'', requestQuotaCode = Some ''L-ED46B8C5''\<rparr>,
     globalCrossRegion = None\<rparr>"

definition usw2_AMAZON_NOVA_PREMIER_V1 :: ModelConfig where [registry_defs]:
  "usw2_AMAZON_NOVA_PREMIER_V1 = \<lparr>modelId = ''amazon.nova-premier-v1:0'', outputTokenBurndownRate = 1,
     supportedEndpoints = [CrossRegion],
     regional = None,
     crossRegion = Some \<lparr>tokenQuotaCode = Some ''L-AA7FE948'', requestQuotaCode = Some ''L-9AD981E7''\<rparr>,
     globalCrossRegion = None\<rparr>"

definition usw2_AMAZON_NOVA_2_LITE_V1 :: ModelConfig where [registry_defs]:
  "usw2_AMAZON_NOVA_2_LITE_V1 = \<lparr>modelId = ''amazon.nova-2-lite-v1:0'', outputTokenBurndownRate = 1,
     supportedEndpoints = [CrossRegion, GlobalCrossRegion],
     regional = None,
     crossRegion = Some \<lparr>tokenQuotaCode = Some ''L-C6F5908D'', requestQuotaCode = Some ''L-F06F1187''\<rparr>,
     globalCrossRegion = Some \<lparr>tokenQuotaCode = Some ''L-71C69B70'', requestQuotaCode = Some ''L-D5F39C2F''\<rparr>\<rparr>"

definition usw2_ANTHROPIC_CLAUDE_3_HAIKU :: ModelConfig where [registry_defs]:
  "usw2_ANTHROPIC_CLAUDE_3_HAIKU = \<lparr>modelId = ''anthropic.claude-3-haiku-20240307-v1:0'', outputTokenBurndownRate = 1,
     supportedEndpoints = [Regional, CrossRegion],
     regional = Some \<lparr>tokenQuotaCode = Some ''L-8CE99163'', requestQuotaCode = Some ''L-2DC80978''\<rparr>,
     crossRegion = Some \<lparr>tokenQuotaCode = Some ''L-DCADBC78'', requestQuotaCode = Some ''L-616A3F5B''\<rparr>,
     globalCrossRegion = None\<rparr>"

definition usw2_ANTHROPIC_CLAUDE_3_5_SONNET_20240620 :: ModelConfig where [registry_defs]:
  "usw2_ANTHROPIC_CLAUDE_3_5_SONNET_20240620 = \<lparr>modelId = ''anthropic.claude-3-5-sonnet-20240620-v1:0'', outputTokenBurndownRate = 1,
     supportedEndpoints = [Regional, CrossRegion],
     regional = Some \<lparr>tokenQuotaCode = Some ''L-A50569E5'', requestQuotaCode = Some ''L-254CACF4''\<rparr>,
     crossRegion = Some \<lparr>tokenQuotaCode = Some ''L-479B647F'', requestQuotaCode = Some ''L-F457545D''\<rparr>,
     globalCrossRegion = None\<rparr>"

definition usw2_ANTHROPIC_CLAUDE_3_5_HAIKU :: ModelConfig where [registry_defs]:
  "usw2_ANTHROPIC_CLAUDE_3_5_HAIKU = \<lparr>modelId = ''anthropic.claude-3-5-haiku-20241022-v1:0'', outputTokenBurndownRate = 1,
     supportedEndpoints = [Regional, CrossRegion],
     regional = Some \<lparr>tokenQuotaCode = Some ''L-7AB4ABDD'', requestQuotaCode = Some ''L-C7438F8F''\<rparr>,
     crossRegion = Some \<lparr>tokenQuotaCode = Some ''L-4BF37C17'', requestQuotaCode = Some ''L-252DF594''\<rparr>,
     globalCrossRegion = None\<rparr>"

definition usw2_ANTHROPIC_CLAUDE_3_7_SONNET :: ModelConfig where [registry_defs]:
  "usw2_ANTHROPIC_CLAUDE_3_7_SONNET = \<lparr>modelId = ''anthropic.claude-3-7-sonnet-20250219-v1:0'', outputTokenBurndownRate = 5,
     supportedEndpoints = [CrossRegion],
     regional = None,
     crossRegion = Some \<lparr>tokenQuotaCode = Some ''L-6E888CC2'', requestQuotaCode = Some ''L-3D8CC480''\<rparr>,
     globalCrossRegion = None\<rparr>"

definition usw2_ANTHROPIC_CLAUDE_HAIKU_4_5 :: ModelConfig where [registry_defs]:
  "usw2_ANTHROPIC_CLAUDE_HAIKU_4_5 = \<lparr>modelId = ''anthropic.claude-haiku-4-5-20251001-v1:0'', outputTokenBurndownRate = 5,
     supportedEndpoints = [CrossRegion, GlobalCrossRegion],
     regional = None,
     crossRegion = Some \<lparr>tokenQuotaCode = Some ''L-58BE175A'', requestQuotaCode = Some ''L-CCA5DF70''\<rparr>,
     globalCrossRegion = Some \<lparr>tokenQuotaCode = Some ''L-9A11C666'', requestQuotaCode = Some ''L-E5084BBA''\<rparr>\<rparr>"

definition usw2_ANTHROPIC_CLAUDE_SONNET_4 :: ModelConfig where [registry_defs]:
  "usw2_ANTHROPIC_CLAUDE_SONNET_4 = \<lparr>modelId = ''anthropic.claude-sonnet-4-20250514-v1:0'', outputTokenBurndownRate = 5,
     supportedEndpoints = [CrossRegion, GlobalCrossRegion],
     regional = None,
     crossRegion = Some \<lparr>tokenQuotaCode = Some ''L-59759B4A'', requestQuotaCode = Some ''L-559DCC33''\<rparr>,
     globalCrossRegion = Some \<lparr>tokenQuotaCode = Some ''L-97E41E39'', requestQuotaCode = Some ''L-C63AA5DA''\<rparr>\<rparr>"

definition usw2_ANTHROPIC_CLAUDE_SONNET_4_5 :: ModelConfig where [registry_defs]:
  "usw2_ANTHROPIC_CLAUDE_SONNET_4_5 = \<lparr>modelId = ''anthropic.claude-sonnet-4-5-20250929-v1:0'', outputTokenBurndownRate = 5,
     supportedEndpoints = [CrossRegion, GlobalCrossRegion],
     regional = None,
     crossRegion = Some \<lparr>tokenQuotaCode = Some ''L-F4DDD3EB'', requestQuotaCode = Some ''L-4A6BFAB1''\<rparr>,
     globalCrossRegion = Some \<lparr>tokenQuotaCode = Some ''L-27C57EE8'', requestQuotaCode = Some ''L-DB84CE56''\<rparr>\<rparr>"

definition usw2_ANTHROPIC_CLAUDE_OPUS_4 :: ModelConfig where [registry_defs]:
  "usw2_ANTHROPIC_CLAUDE_OPUS_4 = \<lparr>modelId = ''anthropic.claude-opus-4-20250514-v1:0'', outputTokenBurndownRate = 5,
     supportedEndpoints = [CrossRegion],
     regional = None,
     crossRegion = Some \<lparr>tokenQuotaCode = Some ''L-29C2B0A3'', requestQuotaCode = Some ''L-C99C7EF6''\<rparr>,
     globalCrossRegion = None\<rparr>"

definition usw2_ANTHROPIC_CLAUDE_OPUS_4_1 :: ModelConfig where [registry_defs]:
  "usw2_ANTHROPIC_CLAUDE_OPUS_4_1 = \<lparr>modelId = ''anthropic.claude-opus-4-1-20250805-v1:0'', outputTokenBurndownRate = 5,
     supportedEndpoints = [CrossRegion],
     regional = None,
     crossRegion = Some \<lparr>tokenQuotaCode = Some ''L-BD85BFCD'', requestQuotaCode = Some ''L-7EC72A47''\<rparr>,
     globalCrossRegion = None\<rparr>"

definition usw2_ANTHROPIC_CLAUDE_OPUS_4_5 :: ModelConfig where [registry_defs]:
  "usw2_ANTHROPIC_CLAUDE_OPUS_4_5 = \<lparr>modelId = ''anthropic.claude-opus-4-5-20251101-v1:0'', outputTokenBurndownRate = 5,
     supportedEndpoints = [CrossRegion, GlobalCrossRegion],
     regional = None,
     crossRegion = Some \<lparr>tokenQuotaCode = Some ''L-7007E9C9'', requestQuotaCode = Some ''L-27989F42''\<rparr>,
     globalCrossRegion = Some \<lparr>tokenQuotaCode = Some ''L-3ABF6ACC'', requestQuotaCode = Some ''L-58424D95''\<rparr>\<rparr>"

definition BEDROCK_MODELS_us_west_2 :: "ModelConfig list" where
  "BEDROCK_MODELS_us_west_2 =
    [usw2_AMAZON_NOVA_MICRO_V1,
     usw2_AMAZON_NOVA_LITE_V1,
     usw2_AMAZON_NOVA_PRO_V1,
     usw2_AMAZON_NOVA_PREMIER_V1,
     usw2_AMAZON_NOVA_2_LITE_V1,
     usw2_ANTHROPIC_CLAUDE_3_HAIKU,
     usw2_ANTHROPIC_CLAUDE_3_5_SONNET_20240620,
     usw2_ANTHROPIC_CLAUDE_3_5_HAIKU,
     usw2_ANTHROPIC_CLAUDE_3_7_SONNET,
     usw2_ANTHROPIC_CLAUDE_HAIKU_4_5,
     usw2_ANTHROPIC_CLAUDE_SONNET_4,
     usw2_ANTHROPIC_CLAUDE_SONNET_4_5,
     usw2_ANTHROPIC_CLAUDE_OPUS_4,
     usw2_ANTHROPIC_CLAUDE_OPUS_4_1,
     usw2_ANTHROPIC_CLAUDE_OPUS_4_5]"

subsection \<open>us-east-1\<close>

definition use1_AMAZON_NOVA_MICRO_V1 :: ModelConfig where [registry_defs]:
  "use1_AMAZON_NOVA_MICRO_V1 = \<lparr>modelId = ''amazon.nova-micro-v1:0'', outputTokenBurndownRate = 1,
     supportedEndpoints = [Regional, CrossRegion],
     regional = Some \<lparr>tokenQuotaCode = Some ''L-CFA4FA0D'', requestQuotaCode = Some ''L-E118F160''\<rparr>,
     crossRegion = Some \<lparr>tokenQuotaCode = Some ''L-DC7FF66C'', requestQuotaCode = Some ''L-3F110E0F''\<rparr>,
     globalCrossRegion = None\<rparr>"

definition use1_AMAZON_NOVA_LITE_V1 :: ModelConfig where [registry_defs]:
  "use1_AMAZON_NOVA_LITE_V1 = \<lparr>modelId = ''amazon.nova-lite-v1:0'', outputTokenBurndownRate = 1,
     supportedEndpoints = [Regional, CrossRegion],
     regional = Some \<lparr>tokenQuotaCode = Some ''L-70423BF8'', requestQuotaCode = Some ''L-E386A278''\<rparr>,
     crossRegion = Some \<lparr>tokenQuotaCode = Some ''L-7C42E72A'', requestQuotaCode = Some ''L-89F8391A''\<rparr>,
     globalCrossRegion = None\<rparr>"

definition use1_AMAZON_NOVA_PRO_V1 :: ModelConfig where [registry_defs]:
  "use1_AMAZON_NOVA_PRO_V1 = \<lparr>modelId = ''amazon.nova-pro-v1:0'', outputTokenBurndownRate = 1,
     supportedEndpoints = [Regional, CrossRegion],
     regional = Some \<lparr>tokenQuotaCode = Some ''L-CE33604C'', requestQuotaCode = Some ''L-F2717A44''\<rparr>,
     crossRegion = Some \<lparr>tokenQuotaCode = Some ''L-C0326783'', requestQuotaCode = Some ''L-ED46B8C5''\<rparr>,
     globalCrossRegion = None\<rparr>"

definition use1_AMAZON_NOVA_PREMIER_V1 :: ModelConfig where [registry_defs]:
  "use1_AMAZON_NOVA_PREMIER_V1 = \<lparr>modelId = ''amazon.nova-premier-v1:0'', outputTokenBurndownRate = 1,
     supportedEndpoints = [CrossRegion],
     regional = None,
     crossRegion = Some \<lparr>tokenQuotaCode = Some ''L-AA7FE948'', requestQuotaCode = Some ''L-9AD981E7''\<rparr>,
     globalCrossRegion = None\<rparr>"

definition use1_AMAZON_NOVA_2_LITE_V1 :: ModelConfig where [registry_defs]:
  "use1_AMAZON_NOVA_2_LITE_V1 = \<lparr>modelId = ''amazon.nova-2-lite-v1:0'', outputTokenBurndownRate = 1,
     supportedEndpoints = [CrossRegion, GlobalCrossRegion],
     regional = None,
     crossRegion = Some \<lparr>tokenQuotaCode = Some ''L-C6F5908D'', requestQuotaCode = Some ''L-F06F1187''\<rparr>,
     globalCrossRegion = Some \<lparr>tokenQuotaCode = Some ''L-71C69B70'', requestQuotaCode = Some ''L-D5F39C2F''\<rparr>\<rparr>"

definition use1_AMAZON_NOVA_CANVAS_V1 :: ModelConfig where [registry_defs]:
  "use1_AMAZON_NOVA_CANVAS_V1 = \<lparr>modelId = ''amazon.nova-canvas-v1:0'', outputTokenBurndownRate = 1,
     supportedEndpoints = [Regional],
     regional = Some \<lparr>tokenQuotaCode = None, requestQuotaCode = Some ''L-3F26CE29''\<rparr>,
     crossRegion = None,
     globalCrossRegion = None\<rparr>"

definition use1_ANTHROPIC_CLAUDE_3_HAIKU :: ModelConfig where [registry_defs]:
  "use1_ANTHROPIC_CLAUDE_3_HAIKU = \<lparr>modelId = ''anthropic.claude-3-haiku-20240307-v1:0'', outputTokenBurndownRate = 1,
     supportedEndpoints = [Regional, CrossRegion],
     regional = Some \<lparr>tokenQuotaCode = Some ''L-8CE99163'', requestQuotaCode = Some ''L-2DC80978''\<rparr>,
     crossRegion = Some \<lparr>tokenQuotaCode = Some ''L-DCADBC78'', requestQuotaCode = Some ''L-616A3F5B''\<rparr>,
     globalCrossRegion = None\<rparr>"

definition use1_ANTHROPIC_CLAUDE_3_SONNET :: ModelConfig where [registry_defs]:
  "use1_ANTHROPIC_CLAUDE_3_SONNET = \<lparr>modelId = ''anthropic.claude-3-sonnet-20240229-v1:0'', outputTokenBurndownRate = 1,
     supportedEndpoints = [Regional, CrossRegion],
     regional = Some \<lparr>tokenQuotaCode = Some ''L-4C35BB2A'', requestQuotaCode = Some ''L-F406804E''\<rparr>,
     crossRegion = Some \<lparr>tokenQuotaCode = Some ''L-5DF13F64'', requestQuotaCode = Some ''L-46591118''\<rparr>,
     globalCrossRegion = None\<rparr>"

definition use1_ANTHROPIC_CLAUDE_3_OPUS :: ModelConfig where [registry_defs]:
  "use1_ANTHROPIC_CLAUDE_3_OPUS = \<lparr>modelId = ''anthropic.claude-3-opus-20240229-v1:0'', outputTokenBurndownRate = 1,
     supportedEndpoints = [Regional, CrossRegion],
     regional = Some \<lparr>tokenQuotaCode = Some ''L-27477D78'', requestQuotaCode = Some ''L-8050DFC8''\<rparr>,
     crossRegion = Some \<lparr>tokenQuotaCode = Some ''L-6C86825E'', requestQuotaCode = Some ''L-EB15245D''\<rparr>,
     globalCrossRegion = None\<rparr>"

definition use1_ANTHROPIC_CLAUDE_3_5_SONNET_20240620 :: ModelConfig where [registry_defs]:
  "use1_ANTHROPIC_CLAUDE_3_5_SONNET_20240620 = \<lparr>modelId = ''anthropic.claude-3-5-sonnet-20240620-v1:0'', outputTokenBurndownRate = 1,
     supportedEndpoints = [Regional, CrossRegion],
     regional = Some \<lparr>tokenQuotaCode = Some ''L-A50569E5'', requestQuotaCode = Some ''L-254CACF4''\<rparr>,
     crossRegion = Some \<lparr>tokenQuotaCode = Some ''L-479B647F'', requestQuotaCode = Some ''L-F457545D''\<rparr>,
     globalCrossRegion = None\<rparr>"

definition use1_ANTHROPIC_CLAUDE_3_5_SONNET_20241022 :: ModelConfig where [registry_defs]:
  "use1_ANTHROPIC_CLAUDE_3_5_SONNET_20241022 = \<lparr>modelId = ''anthropic.claude-3-5-sonnet-20241022-v2:0'', outputTokenBurndownRate = 1,
     supportedEndpoints = [Regional, CrossRegion],
     regional = Some \<lparr>tokenQuotaCode = Some ''L-AD41C330'', requestQuotaCode = Some ''L-79E773B3''\<rparr>,
     crossRegion = Some \<lparr>tokenQuotaCode = Some ''L-FF8B4E28'', requestQuotaCode = Some ''L-1D3E59A3''\<rparr>,
     globalCrossRegion = None\<rparr>"

definition use1_ANTHROPIC_CLAUDE_3_5_HAIKU :: ModelConfig where [registry_defs]:
  "use1_ANTHROPIC_CLAUDE_3_5_HAIKU = \<lparr>modelId = ''anthropic.claude-3-5-haiku-20241022-v1:0'', outputTokenBurndownRate = 1,
     supportedEndpoints = [Regional, CrossRegion],
     regional = Some \<lparr>tokenQuotaCode = Some ''L-7AB4ABDD'', requestQuotaCode = Some ''L-C7438F8F''\<rparr>,
     crossRegion = Some \<lparr>tokenQuotaCode = Some ''L-4BF37C17'', requestQuotaCode = Some ''L-252DF594''\<rparr>,
     globalCrossRegion = None\<rparr>"

definition use1_ANTHROPIC_CLAUDE_3_7_SONNET :: ModelConfig where [registry_defs]:
  "use1_ANTHROPIC_CLAUDE_3_7_SONNET = \<lparr>modelId = ''anthropic.claude-3-7-sonnet-20250219-v1:0'', outputTokenBurndownRate = 5,
     supportedEndpoints = [CrossRegion],
     regional = None,
     crossRegion = Some \<lparr>tokenQuotaCode = Some ''L-6E888CC2'', requestQuotaCode = Some ''L-3D8CC480''\<rparr>,
     globalCrossRegion = None\<rparr>"

definition use1_ANTHROPIC_CLAUDE_HAIKU_4_5 :: ModelConfig where [registry_defs]:
  "use1_ANTHROPIC_CLAUDE_HAIKU_4_5 = \<lparr>modelId = ''anthropic.claude-haiku-4-5-20251001-v1:0'', outputTokenBurndownRate = 5,
     supportedEndpoints = [CrossRegion, GlobalCrossRegion],
     regional = None,
     crossRegion = Some \<lparr>tokenQuotaCode = Some ''L-58BE175A'', requestQuotaCode = Some ''L-CCA5DF70''\<rparr>,
     globalCrossRegion = Some \<lparr>tokenQuotaCode = Some ''L-9A11C666'', requestQuotaCode = Some ''L-E5084BBA''\<rparr>\<rparr>"

definition use1_ANTHROPIC_CLAUDE_SONNET_4 :: ModelConfig where [registry_defs]:
  "use1_ANTHROPIC_CLAUDE_SONNET_4 = \<lparr>modelId = ''anthropic.claude-sonnet-4-20250514-v1:0'', outputTokenBurndownRate = 5,
     supportedEndpoints = [CrossRegion, GlobalCrossRegion],
     regional = None,
     crossRegion = Some \<lparr>tokenQuotaCode = Some ''L-59759B4A'', requestQuotaCode = Some ''L-559DCC33''\<rparr>,
     globalCrossRegion = Some \<lparr>tokenQuotaCode = Some ''L-97E41E39'', requestQuotaCode = Some ''L-C63AA5DA''\<rparr>\<rparr>"

definition use1_ANTHROPIC_CLAUDE_SONNET_4_5 :: ModelConfig where [registry_defs]:
  "use1_ANTHROPIC_CLAUDE_SONNET_4_5 = \<lparr>modelId = ''anthropic.claude-sonnet-4-5-20250929-v1:0'', outputTokenBurndownRate = 5,
     supportedEndpoints = [CrossRegion, GlobalCrossRegion],
     regional = None,
     crossRegion = Some \<lparr>tokenQuotaCode = Some ''L-F4DDD3EB'', requestQuotaCode = Some ''L-4A6BFAB1''\<rparr>,
     globalCrossRegion = Some \<lparr>tokenQuotaCode = Some ''L-27C57EE8'', requestQuotaCode = Some ''L-DB84CE56''\<rparr>\<rparr>"

definition use1_ANTHROPIC_CLAUDE_SONNET_4_6 :: ModelConfig where [registry_defs]:
  "use1_ANTHROPIC_CLAUDE_SONNET_4_6 = \<lparr>modelId = ''anthropic.claude-sonnet-4-6'', outputTokenBurndownRate = 5,
     supportedEndpoints = [CrossRegion, GlobalCrossRegion],
     regional = None,
     crossRegion = Some \<lparr>tokenQuotaCode = Some ''L-15B8E632'', requestQuotaCode = Some ''L-00FF3314''\<rparr>,
     globalCrossRegion = Some \<lparr>tokenQuotaCode = Some ''L-7BEE40FB'', requestQuotaCode = Some ''L-F6E116D7''\<rparr>\<rparr>"

definition use1_ANTHROPIC_CLAUDE_SONNET_4_6_1M :: ModelConfig where [registry_defs]:
  "use1_ANTHROPIC_CLAUDE_SONNET_4_6_1M = \<lparr>modelId = ''anthropic.claude-sonnet-4-6'', outputTokenBurndownRate = 5,
     supportedEndpoints = [CrossRegion, GlobalCrossRegion],
     regional = None,
     crossRegion = Some \<lparr>tokenQuotaCode = Some ''L-CE512C9A'', requestQuotaCode = Some ''L-47DE5258''\<rparr>,
     globalCrossRegion = Some \<lparr>tokenQuotaCode = Some ''L-6955C77B'', requestQuotaCode = Some ''L-B117CDDA''\<rparr>\<rparr>"

definition use1_ANTHROPIC_CLAUDE_OPUS_4 :: ModelConfig where [registry_defs]:
  "use1_ANTHROPIC_CLAUDE_OPUS_4 = \<lparr>modelId = ''anthropic.claude-opus-4-20250514-v1:0'', outputTokenBurndownRate = 5,
     supportedEndpoints = [CrossRegion],
     regional = None,
     crossRegion = Some \<lparr>tokenQuotaCode = Some ''L-29C2B0A3'', requestQuotaCode = Some ''L-C99C7EF6''\<rparr>,
     globalCrossRegion = None\<rparr>"

definition use1_ANTHROPIC_CLAUDE_OPUS_4_1 :: ModelConfig where [registry_defs]:
  "use1_ANTHROPIC_CLAUDE_OPUS_4_1 = \<lparr>modelId = ''anthropic.claude-opus-4-1-20250805-v1:0'', outputTokenBurndownRate = 5,
     supportedEndpoints = [CrossRegion],
     regional = None,
     crossRegion = Some \<lparr>tokenQuotaCode = Some ''L-BD85BFCD'', requestQuotaCode = Some ''L-7EC72A47''\<rparr>,
     globalCrossRegion = None\<rparr>"

definition use1_ANTHROPIC_CLAUDE_OPUS_4_5 :: ModelConfig where [registry_defs]:
  "use1_ANTHROPIC_CLAUDE_OPUS_4_5 = \<lparr>modelId = ''anthropic.claude-opus-4-5-20251101-v1:0'', outputTokenBurndownRate = 5,
     supportedEndpoints = [CrossRegion, GlobalCrossRegion],
     regional = None,
     crossRegion = Some \<lparr>tokenQuotaCode = Some ''L-7007E9C9'', requestQuotaCode = Some ''L-27989F42''\<rparr>,
     globalCrossRegion = Some \<lparr>tokenQuotaCode = Some ''L-3ABF6ACC'', requestQuotaCode = Some ''L-58424D95''\<rparr>\<rparr>"

definition use1_ANTHROPIC_CLAUDE_OPUS_4_6 :: ModelConfig where [registry_defs]:
  "use1_ANTHROPIC_CLAUDE_OPUS_4_6 = \<lparr>modelId = ''anthropic.claude-opus-4-6-v1'', outputTokenBurndownRate = 5,
     supportedEndpoints = [CrossRegion, GlobalCrossRegion],
     regional = None,
     crossRegion = Some \<lparr>tokenQuotaCode = Some ''L-0AD9BBE8'', requestQuotaCode = Some ''L-11DFF789''\<rparr>,
     globalCrossRegion = Some \<lparr>tokenQuotaCode = Some ''L-3DCCFAA4'', requestQuotaCode = Some ''L-3DD46812''\<rparr>\<rparr>"

definition use1_ANTHROPIC_CLAUDE_OPUS_4_6_1M :: ModelConfig where [registry_defs]:
  "use1_ANTHROPIC_CLAUDE_OPUS_4_6_1M = \<lparr>modelId = ''anthropic.claude-opus-4-6-v1'', outputTokenBurndownRate = 5,
     supportedEndpoints = [CrossRegion, GlobalCrossRegion],
     regional = None,
     crossRegion = Some \<lparr>tokenQuotaCode = Some ''L-7DBBE6A1'', requestQuotaCode = Some ''L-410BCACA''\<rparr>,
     globalCrossRegion = Some \<lparr>tokenQuotaCode = Some ''L-4C59C1F4'', requestQuotaCode = Some ''L-CDA5906C''\<rparr>\<rparr>"

definition use1_META_LLAMA3_8B_INSTRUCT :: ModelConfig where [registry_defs]:
  "use1_META_LLAMA3_8B_INSTRUCT = \<lparr>modelId = ''meta.llama3-8b-instruct-v1:0'', outputTokenBurndownRate = 1,
     supportedEndpoints = [Regional],
     regional = Some \<lparr>tokenQuotaCode = Some ''L-03A9B835'', requestQuotaCode = Some ''L-320BEFEB''\<rparr>,
     crossRegion = None,
     globalCrossRegion = None\<rparr>"

definition use1_META_LLAMA3_70B_INSTRUCT :: ModelConfig where [registry_defs]:
  "use1_META_LLAMA3_70B_INSTRUCT = \<lparr>modelId = ''meta.llama3-70b-instruct-v1:0'', outputTokenBurndownRate = 1,
     supportedEndpoints = [Regional],
     regional = Some \<lparr>tokenQuotaCode = Some ''L-609E24B0'', requestQuotaCode = Some ''L-46D383AF''\<rparr>,
     crossRegion = None,
     globalCrossRegion = None\<rparr>"

definition use1_META_LLAMA3_2_1B_INSTRUCT :: ModelConfig where [registry_defs]:
  "use1_META_LLAMA3_2_1B_INSTRUCT = \<lparr>modelId = ''meta.llama3-2-1b-instruct-v1:0'', outputTokenBurndownRate = 1,
     supportedEndpoints = [Regional, CrossRegion],
     regional = Some \<lparr>tokenQuotaCode = Some ''L-6F14193C'', requestQuotaCode = Some ''L-20CFCD61''\<rparr>,
     crossRegion = Some \<lparr>tokenQuotaCode = Some ''L-BD9FDA6F'', requestQuotaCode = Some ''L-A31D2B40''\<rparr>,
     globalCrossRegion = None\<rparr>"

definition use1_META_LLAMA3_2_3B_INSTRUCT :: ModelConfig where [registry_defs]:
  "use1_META_LLAMA3_2_3B_INSTRUCT = \<lparr>modelId = ''meta.llama3-2-3b-instruct-v1:0'', outputTokenBurndownRate = 1,
     supportedEndpoints = [Regional, CrossRegion],
     regional = Some \<lparr>tokenQuotaCode = Some ''L-A7EDC29B'', requestQuotaCode = Some ''L-2F9B4FC2''\<rparr>,
     crossRegion = Some \<lparr>tokenQuotaCode = Some ''L-0B2687F4'', requestQuotaCode = Some ''L-6B0A9FAD''\<rparr>,
     globalCrossRegion = None\<rparr>"

definition use1_META_LLAMA3_2_11B_INSTRUCT :: ModelConfig where [registry_defs]:
  "use1_META_LLAMA3_2_11B_INSTRUCT = \<lparr>modelId = ''meta.llama3-2-11b-instruct-v1:0'', outputTokenBurndownRate = 1,
     supportedEndpoints = [Regional],
     regional = Some \<lparr>tokenQuotaCode = Some ''L-E2D0B19E'', requestQuotaCode = Some ''L-53CCF898''\<rparr>,
     crossRegion = None,
     globalCrossRegion = None\<rparr>"

definition use1_META_LLAMA3_2_90B_INSTRUCT :: ModelConfig where [registry_defs]:
  "use1_META_LLAMA3_2_90B_INSTRUCT = \<lparr>modelId = ''meta.llama3-2-90b-instruct-v1:0'', outputTokenBurndownRate = 1,
     supportedEndpoints = [Regional],
     regional = Some \<lparr>tokenQuotaCode = Some ''L-41C63FF8'', requestQuotaCode = Some ''L-EBDED838''\<rparr>,
     crossRegion = None,
     globalCrossRegion = None\<rparr>"

definition use1_META_LLAMA3_1_8B_INSTRUCT :: ModelConfig where [registry_defs]:
  "use1_META_LLAMA3_1_8B_INSTRUCT = \<lparr>modelId = ''meta.llama3-1-8b-instruct-v1:0'', outputTokenBurndownRate = 1,
     supportedEndpoints = [Regional, CrossRegion],
     regional = Some \<lparr>tokenQuotaCode = Some ''L-9E79C230'', requestQuotaCode = Some ''L-19A2ED6C''\<rparr>,
     crossRegion = Some \<lparr>tokenQuotaCode = Some ''L-9782749C'', requestQuotaCode = Some ''L-396C5302''\<rparr>,
     globalCrossRegion = None\<rparr>"

definition use1_META_LLAMA3_1_70B_INSTRUCT :: ModelConfig where [registry_defs]:
  "use1_META_LLAMA3_1_70B_INSTRUCT = \<lparr>modelId = ''meta.llama3-1-70b-instruct-v1:0'', outputTokenBurndownRate = 1,
     supportedEndpoints = [Regional, CrossRegion],
     regional = Some \<lparr>tokenQuotaCode = Some ''L-48E55E59'', requestQuotaCode = Some ''L-ECA5B974''\<rparr>,
     crossRegion = Some \<lparr>tokenQuotaCode = Some ''L-92E68994'', requestQuotaCode = Some ''L-29644EB3''\<rparr>,
     globalCrossRegion = None\<rparr>"

definition use1_META_LLAMA3_3_70B_INSTRUCT :: ModelConfig where [registry_defs]:
  "use1_META_LLAMA3_3_70B_INSTRUCT = \<lparr>modelId = ''meta.llama3-3-70b-instruct-v1:0'', outputTokenBurndownRate = 1,
     supportedEndpoints = [CrossRegion],
     regional = None,
     crossRegion = Some \<lparr>tokenQuotaCode = Some ''L-0E7AA8B7'', requestQuotaCode = Some ''L-DEDE703C''\<rparr>,
     globalCrossRegion = None\<rparr>"

definition use1_META_LLAMA4_SCOUT_17B_INSTRUCT :: ModelConfig where [registry_defs]:
  "use1_META_LLAMA4_SCOUT_17B_INSTRUCT = \<lparr>modelId = ''meta.llama4-scout-17b-instruct-v1:0'', outputTokenBurndownRate = 1,
     supportedEndpoints = [CrossRegion],
     regional = None,
     crossRegion = Some \<lparr>tokenQuotaCode = Some ''L-532E6630'', requestQuotaCode = Some ''L-751B753A''\<rparr>,
     globalCrossRegion = None\<rparr>"

definition use1_META_LLAMA4_MAVERICK_17B_INSTRUCT :: ModelConfig where [registry_defs]:
  "use1_META_LLAMA4_MAVERICK_17B_INSTRUCT = \<lparr>modelId = ''meta.llama4-maverick-17b-instruct-v1:0'', outputTokenBurndownRate = 1,
     supportedEndpoints = [CrossRegion],
     regional = None,
     crossRegion = Some \<lparr>tokenQuotaCode = Some ''L-DE3FBBF4'', requestQuotaCode = Some ''L-4F18EF2F''\<rparr>,
     globalCrossRegion = None\<rparr>"

definition use1_MISTRAL_MISTRAL_7B_INSTRUCT :: ModelConfig where [registry_defs]:
  "use1_MISTRAL_MISTRAL_7B_INSTRUCT = \<lparr>modelId = ''mistral.mistral-7b-instruct-v0:2'', outputTokenBurndownRate = 1,
     supportedEndpoints = [Regional],
     regional = Some \<lparr>tokenQuotaCode = Some ''L-02D831F1'', requestQuotaCode = Some ''L-D9A35062''\<rparr>,
     crossRegion = None,
     globalCrossRegion = None\<rparr>"

definition use1_MISTRAL_MISTRAL_SMALL_2402 :: ModelConfig where [registry_defs]:
  "use1_MISTRAL_MISTRAL_SMALL_2402 = \<lparr>modelId = ''mistral.mistral-small-2402-v1:0'', outputTokenBurndownRate = 1,
     supportedEndpoints = [Regional],
     regional = Some \<lparr>tokenQuotaCode = Some ''L-82C15FA8'', requestQuotaCode = Some ''L-1CBB0490''\<rparr>,
     crossRegion = None,
     globalCrossRegion = None\<rparr>"

definition use1_MISTRAL_MISTRAL_LARGE_2402 :: ModelConfig where [registry_defs]:
  "use1_MISTRAL_MISTRAL_LARGE_2402 = \<lparr>modelId = ''mistral.mistral-large-2402-v1:0'', outputTokenBurndownRate = 1,
     supportedEndpoints = [Regional],
     regional = Some \<lparr>tokenQuotaCode = Some ''L-01447289'', requestQuotaCode = Some ''L-3AF844DB''\<rparr>,
     crossRegion = None,
     globalCrossRegion = None\<rparr>"

definition use1_MISTRAL_MISTRAL_LARGE_2407 :: ModelConfig where [registry_defs]:
  "use1_MISTRAL_MISTRAL_LARGE_2407 = \<lparr>modelId = ''mistral.mistral-large-2407-v1:0'', outputTokenBurndownRate = 1,
     supportedEndpoints = [Regional],
     regional = Some \<lparr>tokenQuotaCode = Some ''L-01447289'', requestQuotaCode = Some ''L-3AF844DB''\<rparr>,
     crossRegion = None,
     globalCrossRegion = None\<rparr>"

definition use1_MISTRAL_MISTRAL_LARGE_3 :: ModelConfig where [registry_defs]:
  "use1_MISTRAL_MISTRAL_LARGE_3 = \<lparr>modelId = ''mistral.mistral-large-3-675b-instruct'', outputTokenBurndownRate = 1,
     supportedEndpoints = [Regional],
     regional = Some \<lparr>tokenQuotaCode = Some ''L-C709F563'', requestQuotaCode = Some ''L-5B274E24''\<rparr>,
     crossRegion = None,
     globalCrossRegion = None\<rparr>"

definition use1_MISTRAL_MINISTRAL_3B :: ModelConfig where [registry_defs]:
  "use1_MISTRAL_MINISTRAL_3B = \<lparr>modelId = ''mistral.ministral-3-3b-instruct'', outputTokenBurndownRate = 1,
     supportedEndpoints = [Regional],
     regional = Some \<lparr>tokenQuotaCode = Some ''L-8A4BEE90'', requestQuotaCode = Some ''L-DCA37E91''\<rparr>,
     crossRegion = None,
     globalCrossRegion = None\<rparr>"

definition use1_MISTRAL_MINISTRAL_8B :: ModelConfig where [registry_defs]:
  "use1_MISTRAL_MINISTRAL_8B = \<lparr>modelId = ''mistral.ministral-3-8b-instruct'', outputTokenBurndownRate = 1,
     supportedEndpoints = [Regional],
     regional = Some \<lparr>tokenQuotaCode = Some ''L-3B98F300'', requestQuotaCode = Some ''L-2BDF9A55''\<rparr>,
     crossRegion = None,
     globalCrossRegion = None\<rparr>"

definition use1_MISTRAL_MINISTRAL_14B :: ModelConfig where [registry_defs]:
  "use1_MISTRAL_MINISTRAL_14B = \<lparr>modelId = ''mistral.ministral-3-14b-instruct'', outputTokenBurndownRate = 1,
     supportedEndpoints = [Regional],
     regional = Some \<lparr>tokenQuotaCode = Some ''L-334E5409'', requestQuotaCode = Some ''L-99F7BDBC''\<rparr>,
     crossRegion = None,
     globalCrossRegion = None\<rparr>"

definition use1_MISTRAL_VOXTRAL_MINI :: ModelConfig where [registry_defs]:
  "use1_MISTRAL_VOXTRAL_MINI = \<lparr>modelId = ''mistral.voxtral-mini-3b-2507'', outputTokenBurndownRate = 1,
     supportedEndpoints = [Regional],
     regional = Some \<lparr>tokenQuotaCode = Some ''L-0B767044'', requestQuotaCode = Some ''L-17AE85BD''\<rparr>,
     crossRegion = None,
     globalCrossRegion = None\<rparr>"

definition use1_MISTRAL_VOXTRAL_SMALL :: ModelConfig where [registry_defs]:
  "use1_MISTRAL_VOXTRAL_SMALL = \<lparr>modelId = ''mistral.voxtral-small-24b-2507'', outputTokenBurndownRate = 1,
     supportedEndpoints = [Regional],
     regional = Some \<lparr>tokenQuotaCode = Some ''L-930E2896'', requestQuotaCode = Some ''L-ACB2FB6A''\<rparr>,
     crossRegion = None,
     globalCrossRegion = None\<rparr>"

definition use1_COHERE_COMMAND_R :: ModelConfig where [registry_defs]:
  "use1_COHERE_COMMAND_R = \<lparr>modelId = ''cohere.command-r-v1:0'', outputTokenBurndownRate = 1,
     supportedEndpoints = [Regional],
     regional = Some \<lparr>tokenQuotaCode = Some ''L-17F95AA4'', requestQuotaCode = Some ''L-A49CA90F''\<rparr>,
     crossRegion = None,
     globalCrossRegion = None\<rparr>"

definition use1_COHERE_COMMAND_R_PLUS :: ModelConfig where [registry_defs]:
  "use1_COHERE_COMMAND_R_PLUS = \<lparr>modelId = ''cohere.command-r-plus-v1:0'', outputTokenBurndownRate = 1,
     supportedEndpoints = [Regional],
     regional = Some \<lparr>tokenQuotaCode = Some ''L-FEE1DCB6'', requestQuotaCode = Some ''L-ADB4B3D7''\<rparr>,
     crossRegion = None,
     globalCrossRegion = None\<rparr>"

definition use1_COHERE_EMBED_ENGLISH_V3 :: ModelConfig where [registry_defs]:
  "use1_COHERE_EMBED_ENGLISH_V3 = \<lparr>modelId = ''cohere.embed-english-v3'', outputTokenBurndownRate = 1,
     supportedEndpoints = [Regional],
     regional = Some \<lparr>tokenQuotaCode = Some ''L-A2BE277A'', requestQuotaCode = Some ''L-FF8E7864''\<rparr>,
     crossRegion = None,
     globalCrossRegion = None\<rparr>"

definition use1_COHERE_EMBED_MULTILINGUAL_V3 :: ModelConfig where [registry_defs]:
  "use1_COHERE_EMBED_MULTILINGUAL_V3 = \<lparr>modelId = ''cohere.embed-multilingual-v3'', outputTokenBurndownRate = 1,
     supportedEndpoints = [Regional],
     regional = Some \<lparr>tokenQuotaCode = Some ''L-C2F86908'', requestQuotaCode = Some ''L-9E5BD0C6''\<rparr>,
     crossRegion = None,
     globalCrossRegion = None\<rparr>"

definition use1_COHERE_EMBED_V4 :: ModelConfig where [registry_defs]:
  "use1_COHERE_EMBED_V4 = \<lparr>modelId = ''cohere.embed-v4:0'', outputTokenBurndownRate = 1,
     supportedEndpoints = [Regional, CrossRegion, GlobalCrossRegion],
     regional = Some \<lparr>tokenQuotaCode = Some ''L-C47B85D5'', requestQuotaCode = Some ''L-BE5FD99B''\<rparr>,
     crossRegion = Some \<lparr>tokenQuotaCode = Some ''L-4C3F0FE6'', requestQuotaCode = Some ''L-EB8C1F30''\<rparr>,
     globalCrossRegion = Some \<lparr>tokenQuotaCode = Some ''L-02DFBB76'', requestQuotaCode = Some ''L-7089DC7D''\<rparr>\<rparr>"

definition use1_AI21_JAMBA_1_5_LARGE :: ModelConfig where [registry_defs]:
  "use1_AI21_JAMBA_1_5_LARGE = \<lparr>modelId = ''ai21.jamba-1-5-large-v1:0'', outputTokenBurndownRate = 1,
     supportedEndpoints = [Regional],
     regional = Some \<lparr>tokenQuotaCode = Some ''L-CFAB19FF'', requestQuotaCode = Some ''L-F4CAA0FD''\<rparr>,
     crossRegion = None,
     globalCrossRegion = None\<rparr>"

definition use1_AI21_JAMBA_1_5_MINI :: ModelConfig where [registry_defs]:
  "use1_AI21_JAMBA_1_5_MINI = \<lparr>modelId = ''ai21.jamba-1-5-mini-v1:0'', outputTokenBurndownRate = 1,
     supportedEndpoints = [Regional],
     regional = Some \<lparr>tokenQuotaCode = Some ''L-5A778346'', requestQuotaCode = Some ''L-0449ADC5''\<rparr>,
     crossRegion = None,
     globalCrossRegion = None\<rparr>"

definition use1_DEEPSEEK_DEEPSEEK_R1 :: ModelConfig where [registry_defs]:
  "use1_DEEPSEEK_DEEPSEEK_R1 = \<lparr>modelId = ''deepseek.r1-v1:0'', outputTokenBurndownRate = 1,
     supportedEndpoints = [CrossRegion],
     regional = None,
     crossRegion = Some \<lparr>tokenQuotaCode = Some ''L-06B03968'', requestQuotaCode = Some ''L-F52323AB''\<rparr>,
     globalCrossRegion = None\<rparr>"

definition use1_QWEN_QWEN3_NEXT_80B :: ModelConfig where [registry_defs]:
  "use1_QWEN_QWEN3_NEXT_80B = \<lparr>modelId = ''qwen.qwen3-next-80b-a3b'', outputTokenBurndownRate = 1,
     supportedEndpoints = [Regional],
     regional = Some \<lparr>tokenQuotaCode = Some ''L-37AB702E'', requestQuotaCode = Some ''L-07B3CEEA''\<rparr>,
     crossRegion = None,
     globalCrossRegion = None\<rparr>"

definition use1_QWEN_QWEN3_32B :: ModelConfig where [registry_defs]:
  "use1_QWEN_QWEN3_32B = \<lparr>modelId = ''qwen.qwen3-32b-v1:0'', outputTokenBurndownRate = 1,
     supportedEndpoints = [Regional],
     regional = Some \<lparr>tokenQuotaCode = Some ''L-B7C52139'', requestQuotaCode = Some ''L-E880C759''\<rparr>,
     crossRegion = None,
     globalCrossRegion = None\<rparr>"

definition use1_QWEN_QWEN3_CODER_30B :: ModelConfig where [registry_defs]:
  "use1_QWEN_QWEN3_CODER_30B = \<lparr>modelId = ''qwen.qwen3-coder-480b-a35b-v1:0'', outputTokenBurndownRate = 1,
     supportedEndpoints = [Regional],
     regional = Some \<lparr>tokenQuotaCode = Some ''L-92F81E14'', requestQuotaCode = Some ''L-66EE6E0B''\<rparr>,
     crossRegion = None,
     globalCrossRegion = None\<rparr>"

definition use1_QWEN_QWEN3_VL_235B :: ModelConfig where [registry_defs]:
  "use1_QWEN_QWEN3_VL_235B = \<lparr>modelId = ''qwen.qwen3-235b-a22b-2507-v1:0'', outputTokenBurndownRate = 1,
     supportedEndpoints = [Regional],
     regional = Some \<lparr>tokenQuotaCode = Some ''L-46063925'', requestQuotaCode = Some ''L-11B56FB0''\<rparr>,
     crossRegion = None,
     globalCrossRegion = None\<rparr>"

definition use1_GOOGLE_GEMMA_3_4B :: ModelConfig where [registry_defs]:
  "use1_GOOGLE_GEMMA_3_4B = \<lparr>modelId = ''google.gemma-3-4b-it'', outputTokenBurndownRate = 1,
     supportedEndpoints = [Regional],
     regional = Some \<lparr>tokenQuotaCode = Some ''L-73FB8466'', requestQuotaCode = Some ''L-3056DF33''\<rparr>,
     crossRegion = None,
     globalCrossRegion = None\<rparr>"

definition use1_GOOGLE_GEMMA_3_12B :: ModelConfig where [registry_defs]:
  "use1_GOOGLE_GEMMA_3_12B = \<lparr>modelId = ''google.gemma-3-12b-it'', outputTokenBurndownRate = 1,
     supportedEndpoints = [Regional],
     regional = Some \<lparr>tokenQuotaCode = Some ''L-3FD4A73E'', requestQuotaCode = Some ''L-999037CA''\<rparr>,
     crossRegion = None,
     globalCrossRegion = None\<rparr>"

definition use1_GOOGLE_GEMMA_3_27B :: ModelConfig where [registry_defs]:
  "use1_GOOGLE_GEMMA_3_27B = \<lparr>modelId = ''google.gemma-3-27b-it'', outputTokenBurndownRate = 1,
     supportedEndpoints = [Regional],
     regional = Some \<lparr>tokenQuotaCode = Some ''L-F8729E94'', requestQuotaCode = Some ''L-5D46C7AF''\<rparr>,
     crossRegion = None,
     globalCrossRegion = None\<rparr>"

definition use1_NVIDIA_NEMOTRON_NANO_2 :: ModelConfig where [registry_defs]:
  "use1_NVIDIA_NEMOTRON_NANO_2 = \<lparr>modelId = ''nvidia.nemotron-nano-9b-v2'', outputTokenBurndownRate = 1,
     supportedEndpoints = [Regional],
     regional = Some \<lparr>tokenQuotaCode = Some ''L-33D3627D'', requestQuotaCode = Some ''L-AC7B3FB9''\<rparr>,
     crossRegion = None,
     globalCrossRegion = None\<rparr>"

definition use1_NVIDIA_NEMOTRON_NANO_2_VL :: ModelConfig where [registry_defs]:
  "use1_NVIDIA_NEMOTRON_NANO_2_VL = \<lparr>modelId = ''nvidia.nemotron-nano-12b-v2'', outputTokenBurndownRate = 1,
     supportedEndpoints = [Regional],
     regional = Some \<lparr>tokenQuotaCode = Some ''L-A05A5476'', requestQuotaCode = Some ''L-30B384EA''\<rparr>,
     crossRegion = None,
     globalCrossRegion = None\<rparr>"

definition use1_OPENAI_GPT_OSS_20B :: ModelConfig where [registry_defs]:
  "use1_OPENAI_GPT_OSS_20B = \<lparr>modelId = ''openai.gpt-oss-20b-1:0'', outputTokenBurndownRate = 1,
     supportedEndpoints = [Regional],
     regional = Some \<lparr>tokenQuotaCode = Some ''L-036E14D8'', requestQuotaCode = Some ''L-AF7F0545''\<rparr>,
     crossRegion = None,
     globalCrossRegion = None\<rparr>"

definition use1_OPENAI_GPT_OSS_120B :: ModelConfig where [registry_defs]:
  "use1_OPENAI_GPT_OSS_120B = \<lparr>modelId = ''openai.gpt-oss-120b-1:0'', outputTokenBurndownRate = 1,
     supportedEndpoints = [Regional],
     regional = Some \<lparr>tokenQuotaCode = Some ''L-9DC5F595'', requestQuotaCode = Some ''L-25B50707''\<rparr>,
     crossRegion = None,
     globalCrossRegion = None\<rparr>"

definition use1_OPENAI_GPT_OSS_SAFEGUARD_20B :: ModelConfig where [registry_defs]:
  "use1_OPENAI_GPT_OSS_SAFEGUARD_20B = \<lparr>modelId = ''openai.gpt-oss-safeguard-20b'', outputTokenBurndownRate = 1,
     supportedEndpoints = [Regional],
     regional = Some \<lparr>tokenQuotaCode = Some ''L-5D8F2F54'', requestQuotaCode = Some ''L-65833D55''\<rparr>,
     crossRegion = None,
     globalCrossRegion = None\<rparr>"

definition use1_OPENAI_GPT_OSS_SAFEGUARD_120B :: ModelConfig where [registry_defs]:
  "use1_OPENAI_GPT_OSS_SAFEGUARD_120B = \<lparr>modelId = ''openai.gpt-oss-safeguard-120b'', outputTokenBurndownRate = 1,
     supportedEndpoints = [Regional],
     regional = Some \<lparr>tokenQuotaCode = Some ''L-594C7AC9'', requestQuotaCode = Some ''L-C4E013EF''\<rparr>,
     crossRegion = None,
     globalCrossRegion = None\<rparr>"

definition use1_KIMI_K2_THINKING :: ModelConfig where [registry_defs]:
  "use1_KIMI_K2_THINKING = \<lparr>modelId = ''moonshot.kimi-k2-thinking'', outputTokenBurndownRate = 1,
     supportedEndpoints = [Regional],
     regional = Some \<lparr>tokenQuotaCode = Some ''L-03579AC2'', requestQuotaCode = Some ''L-02572418''\<rparr>,
     crossRegion = None,
     globalCrossRegion = None\<rparr>"

definition use1_MINIMAX_M2 :: ModelConfig where [registry_defs]:
  "use1_MINIMAX_M2 = \<lparr>modelId = ''minimax.minimax-m2'', outputTokenBurndownRate = 1,
     supportedEndpoints = [Regional],
     regional = Some \<lparr>tokenQuotaCode = Some ''L-A81B7C40'', requestQuotaCode = Some ''L-828C986E''\<rparr>,
     crossRegion = None,
     globalCrossRegion = None\<rparr>"

definition BEDROCK_MODELS_us_east_1 :: "ModelConfig list" where
  "BEDROCK_MODELS_us_east_1 =
    [use1_AMAZON_NOVA_MICRO_V1,
     use1_AMAZON_NOVA_LITE_V1,
     use1_AMAZON_NOVA_PRO_V1,
     use1_AMAZON_NOVA_PREMIER_V1,
     use1_AMAZON_NOVA_2_LITE_V1,
     use1_AMAZON_NOVA_CANVAS_V1,
     use1_ANTHROPIC_CLAUDE_3_HAIKU,
     use1_ANTHROPIC_CLAUDE_3_SONNET,
     use1_ANTHROPIC_CLAUDE_3_OPUS,
     use1_ANTHROPIC_CLAUDE_3_5_SONNET_20240620,
     use1_ANTHROPIC_CLAUDE_3_5_SONNET_20241022,
     use1_ANTHROPIC_CLAUDE_3_5_HAIKU,
     use1_ANTHROPIC_CLAUDE_3_7_SONNET,
     use1_ANTHROPIC_CLAUDE_HAIKU_4_5,
     use1_ANTHROPIC_CLAUDE_SONNET_4,
     use1_ANTHROPIC_CLAUDE_SONNET_4_5,
     use1_ANTHROPIC_CLAUDE_SONNET_4_6,
     use1_ANTHROPIC_CLAUDE_SONNET_4_6_1M,
     use1_ANTHROPIC_CLAUDE_OPUS_4,
     use1_ANTHROPIC_CLAUDE_OPUS_4_1,
     use1_ANTHROPIC_CLAUDE_OPUS_4_5,
     use1_ANTHROPIC_CLAUDE_OPUS_4_6,
     use1_ANTHROPIC_CLAUDE_OPUS_4_6_1M,
     use1_META_LLAMA3_8B_INSTRUCT,
     use1_META_LLAMA3_70B_INSTRUCT,
     use1_META_LLAMA3_2_1B_INSTRUCT,
     use1_META_LLAMA3_2_3B_INSTRUCT,
     use1_META_LLAMA3_2_11B_INSTRUCT,
     use1_META_LLAMA3_2_90B_INSTRUCT,
     use1_META_LLAMA3_1_8B_INSTRUCT,
     use1_META_LLAMA3_1_70B_INSTRUCT,
     use1_META_LLAMA3_3_70B_INSTRUCT,
     use1_META_LLAMA4_SCOUT_17B_INSTRUCT,
     use1_META_LLAMA4_MAVERICK_17B_INSTRUCT,
     use1_MISTRAL_MISTRAL_7B_INSTRUCT,
     use1_MISTRAL_MISTRAL_SMALL_2402,
     use1_MISTRAL_MISTRAL_LARGE_2402,
     use1_MISTRAL_MISTRAL_LARGE_2407,
     use1_MISTRAL_MISTRAL_LARGE_3,
     use1_MISTRAL_MINISTRAL_3B,
     use1_MISTRAL_MINISTRAL_8B,
     use1_MISTRAL_MINISTRAL_14B,
     use1_MISTRAL_VOXTRAL_MINI,
     use1_MISTRAL_VOXTRAL_SMALL,
     use1_COHERE_COMMAND_R,
     use1_COHERE_COMMAND_R_PLUS,
     use1_COHERE_EMBED_ENGLISH_V3,
     use1_COHERE_EMBED_MULTILINGUAL_V3,
     use1_COHERE_EMBED_V4,
     use1_AI21_JAMBA_1_5_LARGE,
     use1_AI21_JAMBA_1_5_MINI,
     use1_DEEPSEEK_DEEPSEEK_R1,
     use1_QWEN_QWEN3_NEXT_80B,
     use1_QWEN_QWEN3_32B,
     use1_QWEN_QWEN3_CODER_30B,
     use1_QWEN_QWEN3_VL_235B,
     use1_GOOGLE_GEMMA_3_4B,
     use1_GOOGLE_GEMMA_3_12B,
     use1_GOOGLE_GEMMA_3_27B,
     use1_NVIDIA_NEMOTRON_NANO_2,
     use1_NVIDIA_NEMOTRON_NANO_2_VL,
     use1_OPENAI_GPT_OSS_20B,
     use1_OPENAI_GPT_OSS_120B,
     use1_OPENAI_GPT_OSS_SAFEGUARD_20B,
     use1_OPENAI_GPT_OSS_SAFEGUARD_120B,
     use1_KIMI_K2_THINKING,
     use1_MINIMAX_M2]"

text \<open>
  \<open>lib/bedrock-registries.ts\<close> re-exports one region file; the line that is not commented
  out is \<^verbatim>\<open>export * from './bedrock-registries/us-east-1';\<close>.
\<close>

definition BEDROCK_MODELS :: "ModelConfig list" where
  "BEDROCK_MODELS = BEDROCK_MODELS_us_east_1"

section \<open>String helpers\<close>

text \<open>
  Template literals render a non-negative integer in decimal (\<open>`${index}`\<close>), and
  \<open>Array.prototype.join\<close> puts a separator between the elements.
\<close>

definition digit_char :: "nat \<Rightarrow> char" where
  "digit_char d = ''0123456789'' ! d"

function show_nat :: "nat \<Rightarrow> string" where
  "show_nat n =
     (if n < 10 then [digit_char n] else show_nat (n div 10) @ [digit_char (n mod 10)])"
  by pat_completeness auto
termination
  by (relation "measure id") auto

declare show_nat.simps [simp del]

fun join :: "string \<Rightarrow> string list \<Rightarrow> string" where
  "join sep [] = []"
| "join sep [x] = x"
| "join sep (x # y # ys) = x @ sep @ join sep (y # ys)"

definition apostrophe :: string where
  "apostrophe = [CHR 0x27]"

definition newline :: string where
  "newline = [CHR 0x0A]"

section \<open>The stack (cdk-quota-dashboards-stack.ts)\<close>

subsection \<open>Dashboard configurations and their validation\<close>

record DashboardConfig =
  modelConfig :: ModelConfig
  endpointType :: EndpointType
  applicationProfileIds :: "string list option"

text \<open>The message pushed for the entry at \<open>index\<close> when its endpoint type is not supported.\<close>

definition config_error :: "nat \<Rightarrow> DashboardConfig \<Rightarrow> string" where
  "config_error index config =
     (let supported = getSupportedEndpointTypes (modelConfig config) in
      if length supported = 0 then
        ''Config '' @ show_nat index @ '': Model '' @ apostrophe @ modelId (modelConfig config)
          @ apostrophe @ '' not found in quota registry''
      else
        ''Config '' @ show_nat index @ '': Model '' @ apostrophe @ modelId (modelConfig config)
          @ apostrophe @ '' does not support endpoint type '' @ apostrophe
          @ endpointType_str (endpointType config) @ apostrophe @ ''. Supported types: ''
          @ join '', '' (map endpointType_str supported))"

text \<open>The \<open>forEach((config, index) => ...)\<close> loop that fills \<open>errors\<close>.\<close>

fun collect_errors :: "nat \<Rightarrow> DashboardConfig list \<Rightarrow> string list \<Rightarrow> string list" where
  "collect_errors index [] errors = errors"
| "collect_errors index (config # configs) errors =
     collect_errors (Suc index) configs
       (if \<not> validateModelEndpointSupport (modelConfig config) (endpointType config)
        then errors @ [config_error index config] else errors)"

definition invalid_configurations_message :: "string list \<Rightarrow> string" where
  "invalid_configurations_message errors =
     ''Invalid dashboard configurations found:'' @ newline @ join newline errors @ newline @ newline
       @ ''Please check the quota mappings in the region-specific registry file for valid model/endpoint combinations.''"

text \<open>\<open>validateAllDashboardConfigs\<close>: \<open>Inl\<close> is the thrown \<open>Error\<close> with its message.\<close>

definition validateAllDashboardConfigs :: "DashboardConfig list \<Rightarrow> string + unit" where
  "validateAllDashboardConfigs configs =
     (let errors = collect_errors 0 configs [] in
      if length errors > 0 then Inl (invalid_configurations_message errors) else Inr ())"

text \<open>\<open>getFullModelId\<close>; the \<open>default\<close> branch is outside the declared type.\<close>

fun getFullModelId :: "ModelConfig \<Rightarrow> EndpointType \<Rightarrow> string" where
  "getFullModelId mc Regional = modelId mc"
| "getFullModelId mc CrossRegion = ''us.'' @ modelId mc"
| "getFullModelId mc GlobalCrossRegion = ''global.'' @ modelId mc"

text \<open>The list literal \<open>allDashboardConfigs\<close> of the constructor, over the active registry.\<close>

definition allDashboardConfigs :: "DashboardConfig list" where
  "allDashboardConfigs =
    [\<lparr>modelConfig = use1_AMAZON_NOVA_2_LITE_V1, endpointType = CrossRegion, applicationProfileIds = None\<rparr>,
     \<lparr>modelConfig = use1_ANTHROPIC_CLAUDE_HAIKU_4_5, endpointType = CrossRegion, applicationProfileIds = None\<rparr>,
     \<lparr>modelConfig = use1_ANTHROPIC_CLAUDE_SONNET_4_5, endpointType = GlobalCrossRegion, applicationProfileIds = None\<rparr>,
     \<lparr>modelConfig = use1_ANTHROPIC_CLAUDE_SONNET_4_6, endpointType = GlobalCrossRegion, applicationProfileIds = None\<rparr>,
     \<lparr>modelConfig = use1_ANTHROPIC_CLAUDE_SONNET_4_6_1M, endpointType = GlobalCrossRegion, applicationProfileIds = None\<rparr>,
     \<lparr>modelConfig = use1_ANTHROPIC_CLAUDE_OPUS_4_5, endpointType = GlobalCrossRegion, applicationProfileIds = None\<rparr>,
     \<lparr>modelConfig = use1_ANTHROPIC_CLAUDE_OPUS_4_6, endpointType = GlobalCrossRegion, applicationProfileIds = None\<rparr>,
     \<lparr>modelConfig = use1_ANTHROPIC_CLAUDE_OPUS_4_6_1M, endpointType = GlobalCrossRegion, applicationProfileIds = None\<rparr>]"

subsection \<open>The model lists handed to the quota fetcher\<close>

record QuotaFetchModel =
  fetch_modelId :: string
  fetch_tokenQuotaCode :: "string option"
  fetch_requestQuotaCode :: "string option"

text \<open>
  \<open>dashboardConfigs.map(...).filter(Boolean)\<close> for the EventBridge rule, with the
  \<open>console.warn\<close> of each excluded entry.
\<close>

definition eventBridge_entry :: "DashboardConfig \<Rightarrow> QuotaFetchModel option \<times> string list" where
  "eventBridge_entry config =
     (let quotaCodes = getQuotaCodes (modelConfig config) (endpointType config);
          fullModelId = getFullModelId (modelConfig config) (endpointType config) in
      case quotaCodes of
        None \<Rightarrow> (None, [''[EVENTBRIDGE_WARNING] Excluding model '' @ apostrophe @ modelId (modelConfig config)
                   @ apostrophe @ '' ('' @ endpointType_str (endpointType config)
                   @ '') from scheduled quota refresh - missing quota codes''])
      | Some qc \<Rightarrow> (Some \<lparr>fetch_modelId = fullModelId,
                         fetch_tokenQuotaCode = tokenQuotaCode qc,
                         fetch_requestQuotaCode = requestQuotaCode qc\<rparr>, []))"

definition eventBridgeModels :: "DashboardConfig list \<Rightarrow> QuotaFetchModel list" where
  "eventBridgeModels dashboardConfigs =
     map the (filter (\<lambda>x. x \<noteq> None) (map (\<lambda>config. fst (eventBridge_entry config)) dashboardConfigs))"

definition eventBridge_console :: "DashboardConfig list \<Rightarrow> string list" where
  "eventBridge_console dashboardConfigs =
     concat (map (\<lambda>config. snd (eventBridge_entry config)) dashboardConfigs)
     @ (if length (eventBridgeModels dashboardConfigs) = 0
        then [''[EVENTBRIDGE_ERROR] No models available for scheduled quota refresh due to missing quota codes'']
        else [''[EVENTBRIDGE_SUCCESS] Configured scheduled quota refresh for ''
                @ show_nat (length (eventBridgeModels dashboardConfigs)) @ '' models''])"

text \<open>The same preparation for the custom resource that triggers the initial fetch.\<close>

definition customResource_entry :: "DashboardConfig \<Rightarrow> QuotaFetchModel option \<times> string list" where
  "customResource_entry config =
     (let quotaCodes = getQuotaCodes (modelConfig config) (endpointType config);
          fullModelId = getFullModelId (modelConfig config) (endpointType config) in
      case quotaCodes of
        None \<Rightarrow> (None, [''[CUSTOM_RESOURCE_WARNING] Excluding model '' @ apostrophe @ modelId (modelConfig config)
                   @ apostrophe @ '' ('' @ endpointType_str (endpointType config)
                   @ '') from initial quota fetch - missing quota codes''])
      | Some qc \<Rightarrow> (Some \<lparr>fetch_modelId = fullModelId,
                         fetch_tokenQuotaCode = tokenQuotaCode qc,
                         fetch_requestQuotaCode = requestQuotaCode qc\<rparr>, []))"

definition customResourceModels :: "DashboardConfig list \<Rightarrow> QuotaFetchModel list" where
  "customResourceModels dashboardConfigs =
     map the (filter (\<lambda>x. x \<noteq> None) (map (\<lambda>config. fst (customResource_entry config)) dashboardConfigs))"

definition customResource_console :: "DashboardConfig list \<Rightarrow> string list" where
  "customResource_console dashboardConfigs =
     concat (map (\<lambda>config. snd (customResource_entry config)) dashboardConfigs)
     @ (if length (customResourceModels dashboardConfigs) = 0
        then [''[CUSTOM_RESOURCE_ERROR] No models available for initial quota fetch due to missing quota codes'']
        else [''[CUSTOM_RESOURCE_SUCCESS] Configured initial quota fetch for ''
                @ show_nat (length (customResourceModels dashboardConfigs)) @ '' models''])"

subsection \<open>Model families\<close>

text \<open>\<open>getModelFamily\<close>: a chain of \<open>startsWith\<close> tests on the model id.\<close>

definition getModelFamily :: "string \<Rightarrow> string" where
  "getModelFamily mid =
     (if prefix ''amazon.nova-'' mid then ''Amazon Nova''
      else if prefix ''amazon.titan-'' mid then ''Amazon Titan''
      else if prefix ''anthropic.claude'' mid then ''Anthropic Claude''
      else if prefix ''meta'' mid then ''Meta''
      else if prefix ''mistral.'' mid then ''Mistral AI''
      else if prefix ''cohere.'' mid then ''Cohere''
      else if prefix ''ai21.'' mid then ''AI21 Labs''
      else if prefix ''deepseek.'' mid then ''DeepSeek''
      else if prefix ''google.'' mid then ''Google''
      else if prefix ''nvidia.'' mid then ''NVIDIA''
      else if prefix ''openai.'' mid then ''OpenAI''
      else if prefix ''qwen.'' mid then ''Qwen''
      else if prefix ''kimi.'' mid then ''Kimi''
      else if prefix ''minimax.'' mid then ''Minimax''
      else if prefix ''magistral.'' mid then ''Magistral''
      else ''Other Models'')"

subsection \<open>CloudWatch metrics, expressions and widgets\<close>

text \<open>
  The properties passed to \<open>new cloudwatch.Metric\<close>: the dimension map has the single key
  \<open>ModelId\<close>, the period is in minutes.
\<close>

record Metric =
  namespace :: string
  metricName :: string
  dimensionsMap_ModelId :: string
  statistic :: string
  metric_period :: nat
  metric_label :: "string option"
  metric_color :: "string option"

text \<open>
  The properties passed to \<open>new cloudwatch.MathExpression\<close>; \<open>usingMetrics\<close> is an object
  from variable names to metrics, kept as an association list in insertion order.
\<close>

record MathExpression =
  expression :: string
  usingMetrics :: "(string \<times> Metric) list"
  expr_label :: string
  expr_color :: "string option"
  expr_period :: nat

datatype IMetric = PlainMetric Metric | Expr MathExpression

record GraphWidget =
  title :: string
  left :: "IMetric list"
  width :: nat
  height :: nat
  leftYAxis_label :: string
  leftYAxis_min :: nat
  widget_period :: nat

datatype Widget = TextWidget string nat nat | Graph GraphWidget

record ProfileMetrics =
  inputTokens :: Metric
  cacheWriteTokens :: Metric
  outputTokens :: Metric
  maxTokens :: Metric
  invocations :: Metric

definition usage_metric :: "string \<Rightarrow> string \<Rightarrow> string \<Rightarrow> Metric" where
  "usage_metric ns name profileId =
     \<lparr>namespace = ns, metricName = name, dimensionsMap_ModelId = profileId,
      statistic = ''Sum'', metric_period = 1, metric_label = None, metric_color = None\<rparr>"

text \<open>\<open>createProfileMetrics\<close>: the five metrics of one profile id.\<close>

definition createProfileMetrics :: "string \<Rightarrow> ProfileMetrics" where
  "createProfileMetrics profileId =
     \<lparr>inputTokens = usage_metric ''AWS/Bedrock'' ''InputTokenCount'' profileId,
      cacheWriteTokens = usage_metric ''AWS/Bedrock'' ''CacheWriteInputTokenCount'' profileId,
      outputTokens = usage_metric ''AWS/Bedrock'' ''OutputTokenCount'' profileId,
      maxTokens = usage_metric ''Bedrock/Quotas'' ''MaxTokens'' profileId,
      invocations = usage_metric ''AWS/Bedrock'' ''Invocations'' profileId\<rparr>"

definition quota_metric :: "string \<Rightarrow> string \<Rightarrow> Metric" where
  "quota_metric name fullModelId =
     \<lparr>namespace = ''Bedrock/Quotas'', metricName = name, dimensionsMap_ModelId = fullModelId,
      statistic = ''Maximum'', metric_period = 1, metric_label = Some ''Quota Limit'',
      metric_color = Some ''RED''\<rparr>"

definition tokenQuotaMetric :: "string \<Rightarrow> Metric" where
  "tokenQuotaMetric fullModelId = quota_metric ''TokenQuota'' fullModelId"

definition requestQuotaMetric :: "string \<Rightarrow> Metric" where
  "requestQuotaMetric fullModelId = quota_metric ''RequestQuota'' fullModelId"

subsection \<open>The profiles of an entry\<close>

text \<open>
  \<open>config.applicationProfileIds && config.applicationProfileIds.length > 0\<close>, and the list
  \<open>[fullModelId, ...applicationProfileIds]\<close> or \<open>[fullModelId]\<close>.
\<close>

definition hasApplicationProfiles :: "DashboardConfig \<Rightarrow> bool" where
  "hasApplicationProfiles config =
     (case applicationProfileIds config of None \<Rightarrow> False | Some ids \<Rightarrow> length ids > 0)"

definition allProfileIds :: "string \<Rightarrow> DashboardConfig \<Rightarrow> string list" where
  "allProfileIds fullModelId config =
     (if hasApplicationProfiles config then fullModelId # the (applicationProfileIds config)
      else [fullModelId])"

record ProfileEntry =
  profile_id :: string
  metrics :: ProfileMetrics
  suffix' :: string

text \<open>\<open>allProfileIds.map((id, index) => ...)\<close>: the suffix is empty for index 0.\<close>

definition allProfileMetrics :: "string list \<Rightarrow> ProfileEntry list" where
  "allProfileMetrics ids =
     map (\<lambda>(index, pid).
            \<lparr>profile_id = pid, metrics = createProfileMetrics pid,
             suffix' = (if index = 0 then [] else ''_'' @ show_nat index)\<rparr>)
         (enumerate 0 ids)"

subsection \<open>The three series of an entry\<close>

text \<open>
  The aggregating branch fills one \<open>usingMetrics\<close> object and five lists of variable names
  in a \<open>forEach\<close> over the profiles. Assigning \<open>usingMetrics[key] = metric\<close> overwrites
  an existing key and appends a new one.
\<close>

record AggState =
  agg_usingMetrics :: "(string \<times> Metric) list"
  inputParts :: "string list"
  cacheParts :: "string list"
  outputParts :: "string list"
  maxTokensParts :: "string list"
  invocationParts :: "string list"

definition agg_init :: AggState where
  "agg_init = \<lparr>agg_usingMetrics = [], inputParts = [], cacheParts = [], outputParts = [],
                maxTokensParts = [], invocationParts = []\<rparr>"

definition agg_step :: "ProfileEntry \<Rightarrow> AggState \<Rightarrow> AggState" where
  "agg_step pe st =
     (let inputKey = ''inputTokens'' @ suffix' pe;
          cacheKey = ''cacheWriteTokens'' @ suffix' pe;
          outputKey = ''outputTokens'' @ suffix' pe;
          maxKey = ''maxTokens'' @ suffix' pe;
          invKey = ''invocations'' @ suffix' pe in
      \<lparr>agg_usingMetrics =
         AList.update invKey (invocations (metrics pe))
          (AList.update maxKey (maxTokens (metrics pe))
            (AList.update outputKey (outputTokens (metrics pe))
              (AList.update cacheKey (cacheWriteTokens (metrics pe))
                (AList.update inputKey (inputTokens (metrics pe)) (agg_usingMetrics st))))),
       inputParts = inputParts st @ [inputKey],
       cacheParts = cacheParts st @ [cacheKey],
       outputParts = outputParts st @ [outputKey],
       maxTokensParts = maxTokensParts st @ [maxKey],
       invocationParts = invocationParts st @ [invKey]\<rparr>)"

definition aggregate :: "ProfileEntry list \<Rightarrow> AggState" where
  "aggregate pes = fold agg_step pes agg_init"

record EntrySeries =
  actualConsumption :: IMetric
  initialReservation :: IMetric
  totalInvocations :: IMetric

definition aggregated_series :: "nat \<Rightarrow> string list \<Rightarrow> EntrySeries" where
  "aggregated_series burndownRate ids =
     (let agg = aggregate (allProfileMetrics ids);
          inputSum = join '' + '' (inputParts agg);
          cacheSum = join '' + '' (cacheParts agg);
          outputSum = join '' + '' (outputParts agg);
          maxTokensSum = join '' + '' (maxTokensParts agg);
          invocationSum = join '' + '' (invocationParts agg) in
      \<lparr>actualConsumption = Expr
         \<lparr>expression = ''('' @ inputSum @ '') + ('' @ cacheSum @ '') + (('' @ outputSum @ '') * ''
                         @ show_nat burndownRate @ '')'',
          usingMetrics = agg_usingMetrics agg,
          expr_label = ''Actual Consumption ('' @ show_nat (length ids) @ '' profiles)'',
          expr_color = None, expr_period = 1\<rparr>,
       initialReservation = Expr
         \<lparr>expression = ''('' @ inputSum @ '') + ('' @ cacheSum @ '') + ('' @ maxTokensSum @ '')'',
          usingMetrics = agg_usingMetrics agg,
          expr_label = ''Initial Reservation ('' @ show_nat (length ids) @ '' profiles)'',
          expr_color = None, expr_period = 1\<rparr>,
       totalInvocations = Expr
         \<lparr>expression = invocationSum,
          usingMetrics = agg_usingMetrics agg,
          expr_label = ''Total Invocations ('' @ show_nat (length ids) @ '' profiles)'',
          expr_color = None, expr_period = 1\<rparr>\<rparr>)"

text \<open>The single-profile branch reads \<open>allProfileMetrics[0]\<close>, which always exists.\<close>

definition single_series :: "nat \<Rightarrow> ProfileMetrics \<Rightarrow> EntrySeries" where
  "single_series burndownRate pm =
     \<lparr>actualConsumption = Expr
        \<lparr>expression = ''inputTokens + cacheWriteTokens + (outputTokens * '' @ show_nat burndownRate @ '')'',
         usingMetrics = [(''inputTokens'', inputTokens pm),
                         (''cacheWriteTokens'', cacheWriteTokens pm),
                         (''outputTokens'', outputTokens pm)],
         expr_label = ''Actual Consumption'', expr_color = None, expr_period = 1\<rparr>,
      initialReservation = Expr
        \<lparr>expression = ''inputTokens + cacheWriteTokens + maxTokens'',
         usingMetrics = [(''inputTokens'', inputTokens pm),
                         (''cacheWriteTokens'', cacheWriteTokens pm),
                         (''maxTokens'', maxTokens pm)],
         expr_label = ''Initial Reservation'', expr_color = None, expr_period = 1\<rparr>,
      totalInvocations = PlainMetric (invocations pm)\<rparr>"

definition entry_series :: "DashboardConfig \<Rightarrow> EntrySeries" where
  "entry_series config =
     (let fullModelId = getFullModelId (modelConfig config) (endpointType config);
          burndownRate = outputTokenBurndownRate (modelConfig config);
          ids = allProfileIds fullModelId config in
      if hasApplicationProfiles config then aggregated_series burndownRate ids
      else single_series burndownRate (metrics (hd (allProfileMetrics ids))))"

subsection \<open>The widgets of an entry\<close>

definition tokenQuotaLine :: "string \<Rightarrow> IMetric" where
  "tokenQuotaLine fullModelId = Expr
     \<lparr>expression = ''FILL(tokenQuota, REPEAT)'',
      usingMetrics = [(''tokenQuota'', tokenQuotaMetric fullModelId)],
      expr_label = ''Quota Limit (Tokens)'', expr_color = Some ''RED'', expr_period = 1\<rparr>"

definition requestQuotaLine :: "string \<Rightarrow> IMetric" where
  "requestQuotaLine fullModelId = Expr
     \<lparr>expression = ''FILL(requestQuota, REPEAT)'',
      usingMetrics = [(''requestQuota'', requestQuotaMetric fullModelId)],
      expr_label = ''Quota Limit (Requests)'', expr_color = Some ''RED'', expr_period = 1\<rparr>"

definition entry_widgets :: "DashboardConfig \<Rightarrow> Widget list" where
  "entry_widgets config =
     (let fullModelId = getFullModelId (modelConfig config) (endpointType config);
          series = entry_series config;
          titleSuffix = (if hasApplicationProfiles config
                         then '' ('' @ show_nat (length (allProfileIds fullModelId config)) @ '' profiles aggregated)''
                         else []) in
      [Graph \<lparr>title = fullModelId @ '' - Initial Reservation'' @ titleSuffix,
              left = [initialReservation series, tokenQuotaLine fullModelId],
              width = 8, height = 6, leftYAxis_label = ''Quota Units (Tokens/min)'',
              leftYAxis_min = 0, widget_period = 1\<rparr>,
       Graph \<lparr>title = fullModelId @ '' - Actual Consumption'' @ titleSuffix,
              left = [actualConsumption series, tokenQuotaLine fullModelId],
              width = 8, height = 6,
              leftYAxis_label = ''Quota Units (Tokens/min) - Does not include ongoing requests'',
              leftYAxis_min = 0, widget_period = 1\<rparr>,
       Graph \<lparr>title = fullModelId @ '' - Request Quota Consumption'' @ titleSuffix,
              left = [totalInvocations series, requestQuotaLine fullModelId],
              width = 8, height = 6, leftYAxis_label = ''Quota Units (Requests/min)'',
              leftYAxis_min = 0, widget_period = 1\<rparr>])"

definition family_banner :: "string \<Rightarrow> Widget" where
  "family_banner modelFamily = TextWidget (''# '' @ modelFamily) 24 1"

subsection \<open>The rendering loop and the constructor\<close>

text \<open>
  The state the \<open>dashboardConfigs.forEach\<close> loop mutates: the tracked family, the list of
  skipped models, the rows added to the dashboard (one per \<open>addWidgets\<close> call) and the
  console.
\<close>

record RenderState =
  currentFamily :: "string option"
  modelsWithMissingQuotas :: "string list"
  dashboard :: "Widget list list"
  console :: "string list"

definition render_init :: RenderState where
  "render_init = \<lparr>currentFamily = None, modelsWithMissingQuotas = [], dashboard = [], console = []\<rparr>"

definition render_config :: "RenderState \<Rightarrow> DashboardConfig \<Rightarrow> RenderState" where
  "render_config st config =
     (let fullModelId = getFullModelId (modelConfig config) (endpointType config);
          quotaCodes = getQuotaCodes (modelConfig config) (endpointType config);
          modelFamily = getModelFamily (modelId (modelConfig config)) in
      case quotaCodes of
        None \<Rightarrow>
          st\<lparr>modelsWithMissingQuotas := modelsWithMissingQuotas st
                  @ [modelId (modelConfig config) @ '' ('' @ endpointType_str (endpointType config) @ '')''],
             console := console st
                  @ [''[QUOTA_ERROR] Model '' @ apostrophe @ modelId (modelConfig config) @ apostrophe
                     @ '' does not support endpoint type '' @ apostrophe
                     @ endpointType_str (endpointType config) @ apostrophe
                     @ '' or quota codes are missing'']\<rparr>
      | Some qc \<Rightarrow>
          (let st1 = (if Some modelFamily \<noteq> currentFamily st
                      then st\<lparr>currentFamily := Some modelFamily,
                              dashboard := dashboard st @ [[family_banner modelFamily]]\<rparr>
                      else st);
               st2 = (if hasApplicationProfiles config
                      then st1\<lparr>console := console st1
                             @ [''[PROFILE_AGGREGATION] '' @ fullModelId @ '': Aggregating ''
                                @ show_nat (length (allProfileIds fullModelId config))
                                @ '' profiles (1 system + ''
                                @ show_nat (length (the (applicationProfileIds config)))
                                @ '' application)'']\<rparr>
                      else st1) in
           st2\<lparr>dashboard := dashboard st2 @ [entry_widgets config]\<rparr>))"

definition render_all :: "DashboardConfig list \<Rightarrow> RenderState" where
  "render_all dashboardConfigs = foldl render_config render_init dashboardConfigs"

text \<open>
  What the constructor produces once validation has passed: the two model lists handed to
  the fetcher and the dashboard rows.
\<close>

record StackOutput =
  scheduled_models :: "QuotaFetchModel list"
  initial_models :: "QuotaFetchModel list"
  dashboard_rows :: "Widget list list"

text \<open>
  The constructor body with the entry list as a parameter: validation comes first, and a
  thrown error leaves the constructor before anything else is built.
\<close>

definition build_stack :: "DashboardConfig list \<Rightarrow> string + StackOutput" where
  "build_stack configs =
     (case validateAllDashboardConfigs configs of
        Inl err \<Rightarrow> Inl err
      | Inr _ \<Rightarrow>
          Inr \<lparr>scheduled_models = eventBridgeModels configs,
               initial_models = customResourceModels configs,
               dashboard_rows = dashboard (render_all configs)\<rparr>)"

definition CdkQuotaDashboardsStack :: "string + StackOutput" where
  "CdkQuotaDashboardsStack = build_stack allDashboardConfigs"

section \<open>The metrics store and metric math\<close>

text \<open>
  The stack hands CloudWatch metric definitions and expression strings; CloudWatch
  evaluates them against the published data points. CloudWatch is a service outside the
  repository: this section is a model of the environment the stack's output is read in,
  not of code of the stack. It covers the part the usage expressions use: identifiers,
  decimal numbers, \<open>+\<close>, \<open>*\<close> and parentheses, with \<open>*\<close> binding tighter than \<open>+\<close> and both
  associating to the left. The \<open>FILL\<close> function of the two quota lines is outside this
  part; such an expression has no value here.
\<close>

subsection \<open>Published points and statistics\<close>

record Datapoint =
  dp_namespace :: string
  dp_metricName :: string
  dp_ModelId :: string
  dp_minute :: nat
  dp_value :: int

type_synonym MetricsStore = "Datapoint list"

text \<open>
  The values published for one metric identity in bucket \<open>t\<close> of width \<open>p\<close> minutes.
\<close>

definition points_of :: "MetricsStore \<Rightarrow> string \<Rightarrow> string \<Rightarrow> string \<Rightarrow> nat \<Rightarrow> nat \<Rightarrow> int list" where
  "points_of store ns name mid p t =
     map dp_value (filter (\<lambda>dp. dp_namespace dp = ns \<and> dp_metricName dp = name
                              \<and> dp_ModelId dp = mid \<and> dp_minute dp div p = t) store)"

definition bucket_sum :: "MetricsStore \<Rightarrow> string \<Rightarrow> string \<Rightarrow> string \<Rightarrow> nat \<Rightarrow> int" where
  "bucket_sum store ns name mid t = sum_list (points_of store ns name mid 1 t)"

text \<open>
  Modelled from the spec: the read operation of the metrics store. The store is the
  CloudWatch service; no code of it is in the repository, which only hands it metric
  definitions. The spec's metrics store interface gives a read a series name, a
  dimension filter, a statistic (\<open>Sum\<close> or \<open>Maximum\<close>), a bucket width and a bucket. Under
  \<open>Sum\<close> a bucket with points reads as the sum of its points. What a \<open>Sum\<close> reads on a
  bucket without points is fixed neither by that interface nor by the stack (which sets
  no fill and no default on its usage metrics), so it is the parameter \<open>missing\<close>: \<open>None\<close>
  when the store has no value for such a bucket, \<open>Some 0\<close> when it reads it as zero.
  \<open>Maximum\<close> of a bucket without points has no value.
\<close>

definition read_metric :: "int option \<Rightarrow> MetricsStore \<Rightarrow> Metric \<Rightarrow> nat \<Rightarrow> int option" where
  "read_metric missing store m t =
     (let vs = points_of store (namespace m) (metricName m) (dimensionsMap_ModelId m)
                 (metric_period m) t in
      if statistic m = ''Sum'' then
        (case vs of [] \<Rightarrow> missing | v # rest \<Rightarrow> Some (sum_list vs))
      else if statistic m = ''Maximum'' then
        (case vs of [] \<Rightarrow> None | v # rest \<Rightarrow> Some (fold max rest v))
      else None)"

subsection \<open>Tokens\<close>

datatype token = LP | RP | PLUS | STAR | ID string | NUM nat

definition is_digit :: "char \<Rightarrow> bool" where
  "is_digit c = (48 \<le> (of_char c :: nat) \<and> (of_char c :: nat) \<le> 57)"

definition is_letter :: "char \<Rightarrow> bool" where
  "is_letter c = ((65 \<le> (of_char c :: nat) \<and> (of_char c :: nat) \<le> 90)
                \<or> (97 \<le> (of_char c :: nat) \<and> (of_char c :: nat) \<le> 122))"

definition is_ident_char :: "char \<Rightarrow> bool" where
  "is_ident_char c = (is_letter c \<or> is_digit c \<or> c = CHR ''_'')"

definition digit_val :: "char \<Rightarrow> nat" where
  "digit_val c = of_char c - 48"

text \<open>The tokenizer reads the string once, carrying the lexeme it is inside of.\<close>

datatype lexstate = Idle | InIdent string | InNumber nat

fun flush :: "lexstate \<Rightarrow> token list" where
  "flush Idle = []"
| "flush (InIdent s) = [ID s]"
| "flush (InNumber n) = [NUM n]"

fun continues :: "lexstate \<Rightarrow> char \<Rightarrow> bool" where
  "continues Idle c = False"
| "continues (InIdent s) c = is_ident_char c"
| "continues (InNumber n) c = is_digit c"

fun extend :: "lexstate \<Rightarrow> char \<Rightarrow> lexstate" where
  "extend Idle c = Idle"
| "extend (InIdent s) c = InIdent (s @ [c])"
| "extend (InNumber n) c = InNumber (10 * n + digit_val c)"

text \<open>A character that does not continue a lexeme: the tokens it gives and the next state.\<close>

definition start :: "char \<Rightarrow> (token list \<times> lexstate) option" where
  "start c =
     (if c = CHR '' '' then Some ([], Idle)
      else if c = CHR ''('' then Some ([LP], Idle)
      else if c = CHR '')'' then Some ([RP], Idle)
      else if c = CHR ''+'' then Some ([PLUS], Idle)
      else if c = CHR ''*'' then Some ([STAR], Idle)
      else if is_letter c then Some ([], InIdent [c])
      else if is_digit c then Some ([], InNumber (digit_val c))
      else None)"

fun tokenize_from :: "lexstate \<Rightarrow> string \<Rightarrow> token list option" where
  "tokenize_from st [] = Some (flush st)"
| "tokenize_from st (c # cs) =
     (if continues st c then tokenize_from (extend st c) cs
      else case start c of
             None \<Rightarrow> None
           | Some (toks, st') \<Rightarrow>
               (case tokenize_from st' cs of
                  None \<Rightarrow> None
                | Some rest \<Rightarrow> Some (flush st @ toks @ rest)))"

definition tokenize :: "string \<Rightarrow> token list option" where
  "tokenize s = tokenize_from Idle s"

subsection \<open>Parsing by operator precedence\<close>

datatype mexpr = Var string | Lit nat | Add mexpr mexpr | Mul mexpr mexpr

datatype stackop = SAdd | SMul | SParen

fun reduce_top :: "stackop \<Rightarrow> mexpr list \<Rightarrow> mexpr list option" where
  "reduce_top SAdd (b # a # out) = Some (Add a b # out)"
| "reduce_top SMul (b # a # out) = Some (Mul a b # out)"
| "reduce_top _ _ = None"

text \<open>
  Before an operator is pushed, the operators on the stack that bind at least as tightly
  are applied: all of them for \<open>+\<close>, the multiplications for \<open>*\<close>.
\<close>

fun pop_ops :: "bool \<Rightarrow> stackop list \<Rightarrow> mexpr list \<Rightarrow> (stackop list \<times> mexpr list) option" where
  "pop_ops mul_only [] out = Some ([], out)"
| "pop_ops mul_only (SParen # ops) out = Some (SParen # ops, out)"
| "pop_ops mul_only (SAdd # ops) out =
     (if mul_only then Some (SAdd # ops, out)
      else case reduce_top SAdd out of
             None \<Rightarrow> None
           | Some out' \<Rightarrow> pop_ops mul_only ops out')"
| "pop_ops mul_only (SMul # ops) out =
     (case reduce_top SMul out of
        None \<Rightarrow> None
      | Some out' \<Rightarrow> pop_ops mul_only ops out')"

fun close_paren :: "stackop list \<Rightarrow> mexpr list \<Rightarrow> (stackop list \<times> mexpr list) option" where
  "close_paren [] out = None"
| "close_paren (SParen # ops) out = Some (ops, out)"
| "close_paren (opr # ops) out =
     (case reduce_top opr out of
        None \<Rightarrow> None
      | Some out' \<Rightarrow> close_paren ops out')"

fun finish :: "stackop list \<Rightarrow> mexpr list \<Rightarrow> mexpr option" where
  "finish [] [e] = Some e"
| "finish [] out = None"
| "finish (SParen # ops) out = None"
| "finish (opr # ops) out =
     (case reduce_top opr out of
        None \<Rightarrow> None
      | Some out' \<Rightarrow> finish ops out')"

text \<open>\<open>operand\<close> says whether the next token has to start an operand.\<close>

fun shunt :: "bool \<Rightarrow> stackop list \<Rightarrow> mexpr list \<Rightarrow> token list \<Rightarrow> mexpr option" where
  "shunt operand ops out [] = (if operand then None else finish ops out)"
| "shunt operand ops out (ID x # ts) =
     (if operand then shunt False ops (Var x # out) ts else None)"
| "shunt operand ops out (NUM n # ts) =
     (if operand then shunt False ops (Lit n # out) ts else None)"
| "shunt operand ops out (LP # ts) =
     (if operand then shunt True (SParen # ops) out ts else None)"
| "shunt operand ops out (RP # ts) =
     (if operand then None
      else case close_paren ops out of
             None \<Rightarrow> None
           | Some (ops', out') \<Rightarrow> shunt False ops' out' ts)"
| "shunt operand ops out (PLUS # ts) =
     (if operand then None
      else case pop_ops False ops out of
             None \<Rightarrow> None
           | Some (ops', out') \<Rightarrow> shunt True (SAdd # ops') out' ts)"
| "shunt operand ops out (STAR # ts) =
     (if operand then None
      else case pop_ops True ops out of
             None \<Rightarrow> None
           | Some (ops', out') \<Rightarrow> shunt True (SMul # ops') out' ts)"

definition parse_expression :: "string \<Rightarrow> mexpr option" where
  "parse_expression s = (case tokenize s of None \<Rightarrow> None | Some ts \<Rightarrow> shunt True [] [] ts)"

subsection \<open>Evaluation\<close>

fun eval_mexpr :: "(string \<Rightarrow> int option) \<Rightarrow> mexpr \<Rightarrow> int option" where
  "eval_mexpr env (Var x) = env x"
| "eval_mexpr env (Lit n) = Some (int n)"
| "eval_mexpr env (Add a b) =
     (case (eval_mexpr env a, eval_mexpr env b) of
        (Some x, Some y) \<Rightarrow> Some (x + y)
      | _ \<Rightarrow> None)"
| "eval_mexpr env (Mul a b) =
     (case (eval_mexpr env a, eval_mexpr env b) of
        (Some x, Some y) \<Rightarrow> Some (x * y)
      | _ \<Rightarrow> None)"

text \<open>
  A variable of an expression is the metric \<open>usingMetrics\<close> binds it to, read at the
  bucket; an expression that does not parse, names an unbound variable or reads a metric
  that has no value in the bucket has no value.
\<close>

definition variable_value :: "int option \<Rightarrow> MetricsStore \<Rightarrow> (string \<times> Metric) list \<Rightarrow> nat \<Rightarrow> string \<Rightarrow> int option" where
  "variable_value missing store bindings t x =
     (case map_of bindings x of None \<Rightarrow> None | Some m \<Rightarrow> read_metric missing store m t)"

definition eval_expression :: "int option \<Rightarrow> MetricsStore \<Rightarrow> MathExpression \<Rightarrow> nat \<Rightarrow> int option" where
  "eval_expression missing store me t =
     (case parse_expression (expression me) of
        None \<Rightarrow> None
      | Some e \<Rightarrow> eval_mexpr (variable_value missing store (usingMetrics me) t) e)"

fun series_value :: "int option \<Rightarrow> MetricsStore \<Rightarrow> IMetric \<Rightarrow> nat \<Rightarrow> int option" where
  "series_value missing store (PlainMetric m) t = read_metric missing store m t"
| "series_value missing store (Expr me) t = eval_expression missing store me t"
section \<open>The quota limit fetcher\<close>

text \<open>
  Modelled from the spec: the fetcher's \<open>refresh\<close> operation. The stack deploys it as the
  Lambda handler \<open>quota-fetcher-lambda.handler\<close> from \<open>lib/lambda\<close>, which is not among
  the sources; the definitions below follow the specification of the Quota Limit Fetcher
  (its operation and its failure semantics).

  The limits service answers a query for a limit identifier with the current value or
  with a failure. For each tuple with a defined token identifier the fetcher queries the
  service and publishes a point of kind \<open>TokenQuota\<close> scoped to the model identity, and
  the same for the request identifier with kind \<open>RequestQuota\<close>. A failed query is
  logged with the model identity and the identifier, and the batch goes on.
\<close>

type_synonym LimitsService = "string \<Rightarrow> string + int"

record LimitPoint =
  limit_kind :: string
  limit_ModelId :: string
  limit_value :: int

record RefreshResult =
  published :: "LimitPoint list"
  failures :: "string list"

definition refresh_empty :: RefreshResult where
  "refresh_empty = \<lparr>published = [], failures = []\<rparr>"

text \<open>
  Modelled from the spec: one identifier of a tuple (the fetcher's code is not among the
  sources). An undefined identifier is passed over.
\<close>

definition refresh_identifier ::
  "LimitsService \<Rightarrow> string \<Rightarrow> string \<Rightarrow> string option \<Rightarrow> RefreshResult \<Rightarrow> RefreshResult" where
  "refresh_identifier service kind mid code res =
     (case code of
        None \<Rightarrow> res
      | Some c \<Rightarrow>
          (case service c of
             Inl err \<Rightarrow>
               res\<lparr>failures := failures res
                     @ [''Failed to fetch '' @ kind @ '' '' @ c @ '' for '' @ mid @ '': '' @ err]\<rparr>
           | Inr v \<Rightarrow>
               res\<lparr>published := published res
                     @ [\<lparr>limit_kind = kind, limit_ModelId = mid, limit_value = v\<rparr>]\<rparr>))"

text \<open>
  Modelled from the spec: one tuple of the batch, token identifier first (the fetcher's
  code is not among the sources).
\<close>

definition refresh_tuple :: "LimitsService \<Rightarrow> RefreshResult \<Rightarrow> QuotaFetchModel \<Rightarrow> RefreshResult" where
  "refresh_tuple service res m =
     refresh_identifier service ''RequestQuota'' (fetch_modelId m) (fetch_requestQuotaCode m)
       (refresh_identifier service ''TokenQuota'' (fetch_modelId m) (fetch_tokenQuotaCode m) res)"

text \<open>
  Modelled from the spec: \<open>refresh(modelList)\<close>, the tuples in order (the fetcher's code
  is not among the sources).
\<close>

definition refresh :: "LimitsService \<Rightarrow> QuotaFetchModel list \<Rightarrow> RefreshResult" where
  "refresh service modelList = foldl (refresh_tuple service) refresh_empty modelList"

section \<open>Helper predicates and example inputs\<close>

text \<open>The registry check of one model at one endpoint kind, as a computable test.\<close>

definition entry_consistent :: "ModelConfig \<Rightarrow> EndpointType \<Rightarrow> bool" where
  "entry_consistent m k =
     (validateModelEndpointSupport m k =
        (case getQuotaCodes m k of None \<Rightarrow> False | Some qc \<Rightarrow> has_identifier qc))"

text \<open>
  A descriptor that is in no region table: built like a registry entry (a test fixture,
  or a model not yet added to the table), with its own regional quota codes.
\<close>

definition unregistered_model :: ModelConfig where
  "unregistered_model =
     \<lparr>modelId = ''example.fixture-v1:0'', outputTokenBurndownRate = 1,
      supportedEndpoints = [Regional],
      regional = Some \<lparr>tokenQuotaCode = Some ''L-00000001'', requestQuotaCode = Some ''L-00000002''\<rparr>,
      crossRegion = None,
      globalCrossRegion = None\<rparr>"

text \<open>A descriptor whose regional entry is present but holds neither identifier.\<close>

definition empty_pair_model :: ModelConfig where
  "empty_pair_model =
     \<lparr>modelId = ''example.empty-pair-v1:0'', outputTokenBurndownRate = 1,
      supportedEndpoints = [Regional],
      regional = Some \<lparr>tokenQuotaCode = None, requestQuotaCode = None\<rparr>,
      crossRegion = None,
      globalCrossRegion = None\<rparr>"

text \<open>An entry list with two unsupported endpoint kinds (entries 0 and 2) around a valid one.\<close>

definition two_violations :: "DashboardConfig list" where
  "two_violations =
    [\<lparr>modelConfig = use1_AMAZON_NOVA_PREMIER_V1, endpointType = Regional, applicationProfileIds = None\<rparr>,
     \<lparr>modelConfig = use1_ANTHROPIC_CLAUDE_HAIKU_4_5, endpointType = CrossRegion, applicationProfileIds = None\<rparr>,
     \<lparr>modelConfig = use1_ANTHROPIC_CLAUDE_OPUS_4_1, endpointType = GlobalCrossRegion, applicationProfileIds = None\<rparr>]"

definition entry_valid :: "DashboardConfig \<Rightarrow> bool" where
  "entry_valid config = validateModelEndpointSupport (modelConfig config) (endpointType config)"

text \<open>The model ids that the metrics of a series are read for.\<close>

fun series_dimensions :: "IMetric \<Rightarrow> string list" where
  "series_dimensions (PlainMetric m) = [dimensionsMap_ModelId m]"
| "series_dimensions (Expr me) = map (\<lambda>(x, m). dimensionsMap_ModelId m) (usingMetrics me)"

text \<open>The series a widget plots, in order.\<close>

fun widget_series :: "Widget \<Rightarrow> IMetric list" where
  "widget_series (TextWidget md w h) = []"
| "widget_series (Graph g) = left g"

text \<open>Identifiers of metric math, and the tokens and the syntax tree of a sum of variables.\<close>

definition ident :: "string \<Rightarrow> bool" where
  "ident s = (case s of [] \<Rightarrow> False | c # cs \<Rightarrow> is_letter c \<and> list_all is_ident_char cs)"

definition plus_tail :: "string list \<Rightarrow> token list" where
  "plus_tail ys = concat (map (\<lambda>y. [PLUS, ID y]) ys)"

fun sum_tokens :: "string list \<Rightarrow> token list" where
  "sum_tokens [] = []"
| "sum_tokens (x # ys) = ID x # plus_tail ys"

definition add_vars :: "mexpr \<Rightarrow> string list \<Rightarrow> mexpr" where
  "add_vars e ys = foldl (\<lambda>a y. Add a (Var y)) e ys"

fun sum_expr :: "string list \<Rightarrow> mexpr" where
  "sum_expr [] = Lit 0"
| "sum_expr (x # ys) = add_vars (Var x) ys"

text \<open>Reading a decimal numeral back.\<close>

definition read_digits :: "nat \<Rightarrow> string \<Rightarrow> nat" where
  "read_digits n ds = foldl (\<lambda>a d. 10 * a + digit_val d) n ds"

text \<open>What may follow an identifier, and a numeral, for the lexeme to end there.\<close>

definition ident_boundary :: "string \<Rightarrow> bool" where
  "ident_boundary rest = (case rest of [] \<Rightarrow> True | c # cs \<Rightarrow> \<not> is_ident_char c)"

definition digit_boundary :: "string \<Rightarrow> bool" where
  "digit_boundary rest = (case rest of [] \<Rightarrow> True | c # cs \<Rightarrow> \<not> is_digit c)"

text \<open>
  The suffix of the profile at an index, and a counter summed over a list of profile ids
  in one bucket under \<open>Sum\<close>.
\<close>

definition profile_suffix :: "nat \<Rightarrow> string" where
  "profile_suffix index = (if index = 0 then [] else ''_'' @ show_nat index)"

definition profile_sum :: "MetricsStore \<Rightarrow> string \<Rightarrow> string \<Rightarrow> string list \<Rightarrow> nat \<Rightarrow> int" where
  "profile_sum store ns name ids t = sum_list (map (\<lambda>pid. bucket_sum store ns name pid t) ids)"

text \<open>A counter has at least one point in the bucket for every one of the profile ids.\<close>

definition has_points :: "MetricsStore \<Rightarrow> string \<Rightarrow> string \<Rightarrow> string list \<Rightarrow> nat \<Rightarrow> bool" where
  "has_points store ns name ids t = list_all (\<lambda>pid. points_of store ns name pid 1 t \<noteq> []) ids"

text \<open>The variable name of a counter for a profile: the counter's base name and the profile's suffix.\<close>

definition var_name :: "string \<Rightarrow> ProfileEntry \<Rightarrow> string" where
  "var_name base pe = base @ suffix' pe"

text \<open>The full model id, the profile ids and the burndown rate of an entry.\<close>

abbreviation entry_fullModelId :: "DashboardConfig \<Rightarrow> string" where
  "entry_fullModelId config \<equiv> getFullModelId (modelConfig config) (endpointType config)"

abbreviation entry_profile_ids :: "DashboardConfig \<Rightarrow> string list" where
  "entry_profile_ids config \<equiv> allProfileIds (entry_fullModelId config) config"

abbreviation entry_burndownRate :: "DashboardConfig \<Rightarrow> nat" where
  "entry_burndownRate config \<equiv> outputTokenBurndownRate (modelConfig config)"

text \<open>Example entries: one without application profiles (burndown rate 5), one with one (rate 1).\<close>

definition single_entry :: DashboardConfig where
  "single_entry = \<lparr>modelConfig = use1_ANTHROPIC_CLAUDE_SONNET_4_5, endpointType = GlobalCrossRegion,
                    applicationProfileIds = None\<rparr>"

definition aggregated_entry :: DashboardConfig where
  "aggregated_entry = \<lparr>modelConfig = use1_AMAZON_NOVA_LITE_V1, endpointType = CrossRegion,
                        applicationProfileIds = Some [''grjihoh0los8'']\<rparr>"

definition point :: "string \<Rightarrow> string \<Rightarrow> string \<Rightarrow> nat \<Rightarrow> int \<Rightarrow> Datapoint" where
  "point ns name mid minute v =
     \<lparr>dp_namespace = ns, dp_metricName = name, dp_ModelId = mid, dp_minute = minute, dp_value = v\<rparr>"

text \<open>
  Points for the single entry. In minute 7: input 600 + 400, cache write 0, output 100, no
  requested maximum. In minute 8: the same usage and a requested maximum of 4000.
\<close>

definition single_store :: MetricsStore where
  "single_store =
    [point ''AWS/Bedrock'' ''InputTokenCount'' ''global.anthropic.claude-sonnet-4-5-20250929-v1:0'' 7 600,
     point ''AWS/Bedrock'' ''InputTokenCount'' ''global.anthropic.claude-sonnet-4-5-20250929-v1:0'' 7 400,
     point ''AWS/Bedrock'' ''CacheWriteInputTokenCount'' ''global.anthropic.claude-sonnet-4-5-20250929-v1:0'' 7 0,
     point ''AWS/Bedrock'' ''OutputTokenCount'' ''global.anthropic.claude-sonnet-4-5-20250929-v1:0'' 7 100,
     point ''AWS/Bedrock'' ''InputTokenCount'' ''global.anthropic.claude-sonnet-4-5-20250929-v1:0'' 8 1000,
     point ''AWS/Bedrock'' ''OutputTokenCount'' ''global.anthropic.claude-sonnet-4-5-20250929-v1:0'' 8 100,
     point ''Bedrock/Quotas'' ''MaxTokens'' ''global.anthropic.claude-sonnet-4-5-20250929-v1:0'' 8 4000]"

text \<open>
  Points for the aggregated entry in minute 3: the system profile with (500, 0, 50), the
  application profile with (300, 0, 20), two invocations each, and requested maxima of
  1000 and 500.
\<close>

definition aggregated_store :: MetricsStore where
  "aggregated_store =
    [point ''AWS/Bedrock'' ''InputTokenCount'' ''us.amazon.nova-lite-v1:0'' 3 500,
     point ''AWS/Bedrock'' ''CacheWriteInputTokenCount'' ''us.amazon.nova-lite-v1:0'' 3 0,
     point ''AWS/Bedrock'' ''OutputTokenCount'' ''us.amazon.nova-lite-v1:0'' 3 50,
     point ''AWS/Bedrock'' ''Invocations'' ''us.amazon.nova-lite-v1:0'' 3 2,
     point ''Bedrock/Quotas'' ''MaxTokens'' ''us.amazon.nova-lite-v1:0'' 3 1000,
     point ''AWS/Bedrock'' ''InputTokenCount'' ''grjihoh0los8'' 3 300,
     point ''AWS/Bedrock'' ''CacheWriteInputTokenCount'' ''grjihoh0los8'' 3 0,
     point ''AWS/Bedrock'' ''OutputTokenCount'' ''grjihoh0los8'' 3 20,
     point ''AWS/Bedrock'' ''Invocations'' ''grjihoh0los8'' 3 2,
     point ''Bedrock/Quotas'' ''MaxTokens'' ''grjihoh0los8'' 3 500]"

text \<open>
  The family classification in the words of the specification: an ordered list of
  (prefix, label) pairs with a catch-all, the label being that of the longest prefix of
  the model id among them.
\<close>

definition family_rules :: "(string \<times> string) list" where
  "family_rules =
    [(''amazon.nova-'', ''Amazon Nova''), (''amazon.titan-'', ''Amazon Titan''),
     (''anthropic.claude'', ''Anthropic Claude''), (''meta'', ''Meta''),
     (''mistral.'', ''Mistral AI''), (''cohere.'', ''Cohere''), (''ai21.'', ''AI21 Labs''),
     (''deepseek.'', ''DeepSeek''), (''google.'', ''Google''), (''nvidia.'', ''NVIDIA''),
     (''openai.'', ''OpenAI''), (''qwen.'', ''Qwen''), (''kimi.'', ''Kimi''),
     (''minimax.'', ''Minimax''), (''magistral.'', ''Magistral'')]"

definition longer :: "string \<times> string \<Rightarrow> string \<times> string \<Rightarrow> string \<times> string" where
  "longer r best = (if length (fst r) > length (fst best) then r else best)"

definition longest_prefix_family :: "string \<Rightarrow> string" where
  "longest_prefix_family mid =
     (case filter (\<lambda>(p, l). prefix p mid) family_rules of
        [] \<Rightarrow> ''Other Models''
      | r # rs \<Rightarrow> snd (fold longer rs r))"

text \<open>
  The layout in the words of the specification: the entries in declaration order, each
  one's row of widgets preceded by a family banner when its family differs from the
  family before it.
\<close>

fun banner_layout :: "string option \<Rightarrow> DashboardConfig list \<Rightarrow> Widget list list" where
  "banner_layout prev [] = []"
| "banner_layout prev (config # configs) =
     (if Some (longest_prefix_family (modelId (modelConfig config))) \<noteq> prev
      then [[family_banner (longest_prefix_family (modelId (modelConfig config)))], entry_widgets config]
      else [entry_widgets config])
     @ banner_layout (Some (longest_prefix_family (modelId (modelConfig config)))) configs"

definition has_quota_codes :: "DashboardConfig \<Rightarrow> bool" where
  "has_quota_codes config = (getQuotaCodes (modelConfig config) (endpointType config) \<noteq> None)"

text \<open>
  A descriptor that lists the regional endpoint as supported and defines no quota codes
  for it, and an entry list that has it between two Amazon Nova entries.
\<close>

definition no_codes_model :: ModelConfig where
  "no_codes_model =
     \<lparr>modelId = ''anthropic.claude-example-v1:0'', outputTokenBurndownRate = 1,
      supportedEndpoints = [Regional],
      regional = None, crossRegion = None, globalCrossRegion = None\<rparr>"

definition nova_lite_entry :: DashboardConfig where
  "nova_lite_entry = \<lparr>modelConfig = use1_AMAZON_NOVA_LITE_V1, endpointType = CrossRegion,
                       applicationProfileIds = None\<rparr>"

definition no_codes_entry :: DashboardConfig where
  "no_codes_entry = \<lparr>modelConfig = no_codes_model, endpointType = Regional,
                      applicationProfileIds = None\<rparr>"

definition nova_pro_entry :: DashboardConfig where
  "nova_pro_entry = \<lparr>modelConfig = use1_AMAZON_NOVA_PRO_V1, endpointType = CrossRegion,
                      applicationProfileIds = None\<rparr>"

definition skipped_between :: "DashboardConfig list" where
  "skipped_between = [nova_lite_entry, no_codes_entry, nova_pro_entry]"

text \<open>No prefix of one family rule is a prefix of another rule's.\<close>

definition incomparable_rules :: "(string \<times> string) list \<Rightarrow> bool" where
  "incomparable_rules rules =
     list_all (\<lambda>(p, l). list_all (\<lambda>(q, m). p = q \<or> (\<not> prefix p q \<and> \<not> prefix q p)) rules) rules"

text \<open>
  A batch of three tuples and a limits service whose query for the second tuple's token
  identifier fails.
\<close>

definition example_batch :: "QuotaFetchModel list" where
  "example_batch =
    [\<lparr>fetch_modelId = ''us.amazon.nova-lite-v1:0'', fetch_tokenQuotaCode = Some ''L-7C42E72A'',
      fetch_requestQuotaCode = Some ''L-89F8391A''\<rparr>,
     \<lparr>fetch_modelId = ''us.amazon.nova-pro-v1:0'', fetch_tokenQuotaCode = Some ''L-C0326783'',
      fetch_requestQuotaCode = Some ''L-ED46B8C5''\<rparr>,
     \<lparr>fetch_modelId = ''us.amazon.nova-premier-v1:0'', fetch_tokenQuotaCode = Some ''L-AA7FE948'',
      fetch_requestQuotaCode = Some ''L-9AD981E7''\<rparr>]"

definition example_service :: LimitsService where
  "example_service code =
     (if code = ''L-C0326783'' then Inl ''ServiceException''
      else if code \<in> set [''L-7C42E72A'', ''L-AA7FE948''] then Inr 100000
      else Inr 200)"

section \<open>Registry self-consistency\<close>

lemma us_east_1_consistent:
  "list_all (\<lambda>m. entry_consistent m Regional \<and> entry_consistent m CrossRegion
                 \<and> entry_consistent m GlobalCrossRegion) BEDROCK_MODELS_us_east_1"
  unfolding BEDROCK_MODELS_us_east_1_def
  by (simp add: registry_defs entry_consistent_def validateModelEndpointSupport_def has_identifier_def)

lemma us_west_2_consistent:
  "list_all (\<lambda>m. entry_consistent m Regional \<and> entry_consistent m CrossRegion
                 \<and> entry_consistent m GlobalCrossRegion) BEDROCK_MODELS_us_west_2"
  unfolding BEDROCK_MODELS_us_west_2_def
  by (simp add: registry_defs entry_consistent_def validateModelEndpointSupport_def has_identifier_def)

lemma entry_consistent_iff:
  "entry_consistent m k \<longleftrightarrow>
     (validateModelEndpointSupport m k \<longleftrightarrow> (\<exists>qc. getQuotaCodes m k = Some qc \<and> has_identifier qc))"
  by (auto simp: entry_consistent_def split: option.splits)

text \<open>
  C4. For every model descriptor of the active region's table (us-east-1, the region
  file that \<open>bedrock-registries.ts\<close> exports) and of the us-west-2 table, and for every
  endpoint kind \<open>k\<close>: the model supports \<open>k\<close> if and only if the lookup returns a present
  quota-code pair that holds at least one of the two identifiers.
\<close>

theorem registry_self_consistency:
  "\<forall>m \<in> set BEDROCK_MODELS \<union> set BEDROCK_MODELS_us_west_2. \<forall>k.
     validateModelEndpointSupport m k \<longleftrightarrow> (\<exists>qc. getQuotaCodes m k = Some qc \<and> has_identifier qc)"
proof (intro ballI allI)
  fix m k
  assume "m \<in> set BEDROCK_MODELS \<union> set BEDROCK_MODELS_us_west_2"
  then have "entry_consistent m Regional \<and> entry_consistent m CrossRegion
               \<and> entry_consistent m GlobalCrossRegion"
    using us_east_1_consistent us_west_2_consistent
    by (auto simp: BEDROCK_MODELS_def list_all_iff)
  then have "entry_consistent m k"
    by (cases k) simp_all
  then show "validateModelEndpointSupport m k \<longleftrightarrow> (\<exists>qc. getQuotaCodes m k = Some qc \<and> has_identifier qc)"
    by (simp only: entry_consistent_iff)
qed

text \<open>
  The image-generation model of us-east-1, which has a request quota code only: its
  regional endpoint is supported and resolves, its cross-region endpoint neither.
\<close>

theorem registry_self_consistency_witness:
  "validateModelEndpointSupport use1_AMAZON_NOVA_CANVAS_V1 Regional
   \<and> (\<exists>qc. getQuotaCodes use1_AMAZON_NOVA_CANVAS_V1 Regional = Some qc \<and> has_identifier qc)
   \<and> \<not> validateModelEndpointSupport use1_AMAZON_NOVA_CANVAS_V1 CrossRegion
   \<and> \<not> (\<exists>qc. getQuotaCodes use1_AMAZON_NOVA_CANVAS_V1 CrossRegion = Some qc \<and> has_identifier qc)"
proof -
  have mem: "use1_AMAZON_NOVA_CANVAS_V1 \<in> set BEDROCK_MODELS \<union> set BEDROCK_MODELS_us_west_2"
    by (simp add: BEDROCK_MODELS_def BEDROCK_MODELS_us_east_1_def)
  have s: "validateModelEndpointSupport use1_AMAZON_NOVA_CANVAS_V1 Regional"
    and n: "\<not> validateModelEndpointSupport use1_AMAZON_NOVA_CANVAS_V1 CrossRegion"
    by (simp_all add: validateModelEndpointSupport_def use1_AMAZON_NOVA_CANVAS_V1_def)
  from registry_self_consistency [rule_format, OF mem, of Regional]
       registry_self_consistency [rule_format, OF mem, of CrossRegion] s n
  show ?thesis by blast
qed

section \<open>The lookup\<close>

text \<open>
  C5 as stated fails: the lookup does not consult the registry table. A descriptor that
  is in neither region table but carries regional quota codes gets them back, so "absent
  when the model is unknown to the registry" does not hold.
\<close>

theorem getQuotaCodes_unregistered_counterexample:
  "unregistered_model \<notin> set BEDROCK_MODELS \<and> unregistered_model \<notin> set BEDROCK_MODELS_us_west_2
   \<and> getQuotaCodes unregistered_model Regional
       = Some \<lparr>tokenQuotaCode = Some ''L-00000001'', requestQuotaCode = Some ''L-00000002''\<rparr>"
  by (simp add: BEDROCK_MODELS_def BEDROCK_MODELS_us_east_1_def BEDROCK_MODELS_us_west_2_def
        registry_defs unregistered_model_def)

text \<open>
  C5, amended. The lookup is a total function of the descriptor it is given (it has no
  failing branch, so it never throws), and it returns the absent result exactly when that
  descriptor has no quota-code entry for the endpoint kind, whether or not the descriptor
  is in a registry table.
\<close>

theorem getQuotaCodes_absent_iff:
  "(getQuotaCodes m k = None) =
     ((k = Regional \<and> regional m = None) \<or> (k = CrossRegion \<and> crossRegion m = None)
      \<or> (k = GlobalCrossRegion \<and> globalCrossRegion m = None))"
  by (cases k) simp_all

text \<open>
  The descriptor outside the tables: absent for the kind it has no entry for, present for
  the kind it has one for; and an entry that holds neither identifier is still present.
\<close>

theorem getQuotaCodes_absent_iff_witness:
  "getQuotaCodes unregistered_model CrossRegion = None
   \<and> getQuotaCodes unregistered_model Regional \<noteq> None
   \<and> getQuotaCodes empty_pair_model Regional \<noteq> None"
  using getQuotaCodes_absent_iff [of unregistered_model CrossRegion]
        getQuotaCodes_absent_iff [of unregistered_model Regional]
        getQuotaCodes_absent_iff [of empty_pair_model Regional]
  by (simp add: unregistered_model_def empty_pair_model_def)

section \<open>Validation of the dashboard configurations\<close>

lemma collect_errors_eq:
  "collect_errors i cs errs =
     errs @ map (\<lambda>(j, c). config_error j c) (filter (\<lambda>(j, c). \<not> entry_valid c) (enumerate i cs))"
  by (induction cs arbitrary: i errs) (auto simp: entry_valid_def)

lemma collect_errors_empty_iff:
  "collect_errors 0 cs [] = [] \<longleftrightarrow> (\<forall>c \<in> set cs. entry_valid c)"
proof -
  have "collect_errors 0 cs [] = [] \<longleftrightarrow> (\<forall>p \<in> set (enumerate 0 cs). entry_valid (snd p))"
    by (auto simp: collect_errors_eq filter_empty_conv)
  also have "\<dots> \<longleftrightarrow> (\<forall>c \<in> snd ` set (enumerate 0 cs). entry_valid c)"
    by blast
  also have "snd ` set (enumerate 0 cs) = set cs"
    by (metis map_snd_enumerate set_map)
  finally show ?thesis .
qed

lemma collect_errors_member:
  assumes "i < length cs" and "\<not> entry_valid (cs ! i)"
  shows "config_error i (cs ! i) \<in> set (collect_errors 0 cs [])"
proof -
  have "(i, cs ! i) \<in> set (enumerate 0 cs)"
    using assms(1) by (simp add: in_set_enumerate_eq)
  then have "(i, cs ! i) \<in> set (filter (\<lambda>(j, c). \<not> entry_valid c) (enumerate 0 cs))"
    using assms(2) by simp
  then show ?thesis
    by (auto simp: collect_errors_eq intro!: image_eqI [where x = "(i, cs ! i)"])
qed

lemma sublist_join: "x \<in> set xs \<Longrightarrow> sublist x (join sep xs)"
proof (induction sep xs rule: join.induct)
  case (1 sep)
  then show ?case by simp
next
  case (2 sep y)
  then show ?case by simp
next
  case (3 sep y z zs)
  show ?case
  proof (cases "x = y")
    case True
    then show ?thesis by simp
  next
    case False
    with 3 have "sublist x (join sep (z # zs))" by simp
    then obtain ps ss where "join sep (z # zs) = ps @ x @ ss"
      by (auto simp: sublist_def)
    then have "join sep (y # z # zs) = (y @ sep @ ps) @ x @ ss" by simp
    then show ?thesis unfolding sublist_def by blast
  qed
qed

lemma sublist_message: "x \<in> set errors \<Longrightarrow> sublist x (invalid_configurations_message errors)"
proof -
  assume "x \<in> set errors"
  then obtain ps ss where j: "join newline errors = ps @ x @ ss"
    using sublist_join [of x errors newline] by (auto simp: sublist_def)
  show ?thesis
    unfolding invalid_configurations_message_def j sublist_def
    by (metis append.assoc)
qed

lemma config_error_names_entry:
  "sublist (''Config '' @ show_nat i @ '': Model '' @ apostrophe @ modelId (modelConfig c) @ apostrophe)
     (config_error i c)"
proof -
  have "prefix (''Config '' @ show_nat i @ '': Model '' @ apostrophe @ modelId (modelConfig c) @ apostrophe)
     (config_error i c)"
    unfolding config_error_def Let_def
    by (simp only: prefix_def append.assoc if_distrib [of "\<lambda>s. _ @ s"]) (auto simp: prefix_def)
  then show ?thesis by (rule prefix_imp_sublist)
qed


text \<open>
  C3. If at least one entry of the list has an endpoint kind its model does not support,
  validation raises one error, the constructor ends with that error and produces no
  output, and the message names every invalid entry (its index and its model id), not
  only the first. If no entry is invalid, validation raises no error and the constructor
  goes on to its output.
\<close>

theorem validation_reports_every_invalid_entry:
  "((\<exists>c \<in> set configs. \<not> entry_valid c) \<longrightarrow>
      (\<exists>msg. validateAllDashboardConfigs configs = Inl msg \<and> build_stack configs = Inl msg
         \<and> (\<forall>i < length configs. \<not> entry_valid (configs ! i) \<longrightarrow>
               sublist (''Config '' @ show_nat i @ '': Model '' @ apostrophe
                          @ modelId (modelConfig (configs ! i)) @ apostrophe) msg)))
   \<and> ((\<forall>c \<in> set configs. entry_valid c) \<longrightarrow>
        validateAllDashboardConfigs configs = Inr () \<and> (\<exists>out. build_stack configs = Inr out))"
proof (intro conjI impI)
  assume bad: "\<exists>c \<in> set configs. \<not> entry_valid c"
  define errors where "errors = collect_errors 0 configs []"
  define msg where "msg = invalid_configurations_message errors"
  from bad have "errors \<noteq> []"
    unfolding errors_def by (simp add: collect_errors_empty_iff)
  then have v: "validateAllDashboardConfigs configs = Inl msg"
    by (simp add: validateAllDashboardConfigs_def errors_def msg_def)
  then have b: "build_stack configs = Inl msg"
    by (simp add: build_stack_def)
  have "sublist (''Config '' @ show_nat i @ '': Model '' @ apostrophe
                   @ modelId (modelConfig (configs ! i)) @ apostrophe) msg"
    if "i < length configs" and "\<not> entry_valid (configs ! i)" for i
  proof -
    have "config_error i (configs ! i) \<in> set errors"
      unfolding errors_def using that by (rule collect_errors_member)
    then have "sublist (config_error i (configs ! i)) msg"
      unfolding msg_def by (rule sublist_message)
    with config_error_names_entry [of i "configs ! i"] show ?thesis
      by (rule sublist_order.order_trans)
  qed
  with v b show "\<exists>msg. validateAllDashboardConfigs configs = Inl msg \<and> build_stack configs = Inl msg
         \<and> (\<forall>i < length configs. \<not> entry_valid (configs ! i) \<longrightarrow>
               sublist (''Config '' @ show_nat i @ '': Model '' @ apostrophe
                          @ modelId (modelConfig (configs ! i)) @ apostrophe) msg)"
    by blast
next
  assume "\<forall>c \<in> set configs. entry_valid c"
  then have "collect_errors 0 configs [] = []"
    by (simp add: collect_errors_empty_iff)
  then show "validateAllDashboardConfigs configs = Inr ()"
    by (simp add: validateAllDashboardConfigs_def)
  then show "\<exists>out. build_stack configs = Inr out"
    by (simp add: build_stack_def)
qed

lemma two_violations_invalid:
  "\<not> entry_valid (two_violations ! 0)" "entry_valid (two_violations ! 1)" "\<not> entry_valid (two_violations ! 2)"
  by (simp_all add: two_violations_def entry_valid_def validateModelEndpointSupport_def
        use1_AMAZON_NOVA_PREMIER_V1_def use1_ANTHROPIC_CLAUDE_HAIKU_4_5_def use1_ANTHROPIC_CLAUDE_OPUS_4_1_def)

lemma allDashboardConfigs_valid: "\<forall>c \<in> set allDashboardConfigs. entry_valid c"
  by (simp add: allDashboardConfigs_def entry_valid_def validateModelEndpointSupport_def registry_defs)

text \<open>
  Two simultaneous violations (entries 0 and 2) are both named in the one message; the
  entry list of the stack itself passes.
\<close>

theorem validation_reports_every_invalid_entry_witness:
  "(\<exists>msg. validateAllDashboardConfigs two_violations = Inl msg \<and> build_stack two_violations = Inl msg
      \<and> sublist (''Config 0: Model '' @ apostrophe @ ''amazon.nova-premier-v1:0'' @ apostrophe) msg
      \<and> sublist (''Config 2: Model '' @ apostrophe @ ''anthropic.claude-opus-4-1-20250805-v1:0'' @ apostrophe) msg)
   \<and> validateAllDashboardConfigs allDashboardConfigs = Inr ()"
proof -
  have len: "length two_violations = 3"
    by (simp add: two_violations_def)
  have bad: "\<exists>c \<in> set two_violations. \<not> entry_valid c"
    using two_violations_invalid(1) len by (metis nth_mem zero_less_numeral)
  from validation_reports_every_invalid_entry [of two_violations] bad
  obtain msg where m: "validateAllDashboardConfigs two_violations = Inl msg"
      "build_stack two_violations = Inl msg"
      "\<forall>i < length two_violations. \<not> entry_valid (two_violations ! i) \<longrightarrow>
         sublist (''Config '' @ show_nat i @ '': Model '' @ apostrophe
                    @ modelId (modelConfig (two_violations ! i)) @ apostrophe) msg"
    by blast
  from m(3) [rule_format, of 0] m(3) [rule_format, of 2] two_violations_invalid len
  have "sublist (''Config 0: Model '' @ apostrophe @ ''amazon.nova-premier-v1:0'' @ apostrophe) msg"
       "sublist (''Config 2: Model '' @ apostrophe @ ''anthropic.claude-opus-4-1-20250805-v1:0'' @ apostrophe) msg"
    by (simp_all add: two_violations_def show_nat.simps digit_char_def
          use1_AMAZON_NOVA_PREMIER_V1_def use1_ANTHROPIC_CLAUDE_OPUS_4_1_def)
  moreover have "validateAllDashboardConfigs allDashboardConfigs = Inr ()"
    using validation_reports_every_invalid_entry [of allDashboardConfigs] allDashboardConfigs_valid
    by blast
  ultimately show ?thesis using m(1,2) by blast
qed

section \<open>The model lists of the two fetch triggers\<close>






section \<open>Decimal numerals\<close>

lemma digit_cases: "d < 10 \<Longrightarrow> d \<in> {0, 1, 2, 3, 4, 5, 6, 7, 8, 9 :: nat}"
  by auto

lemma digit_char_props:
  assumes "d < 10"
  shows "digit_val (digit_char d) = d" and "is_digit (digit_char d)"
  using digit_cases [OF assms]
  by (auto simp: digit_val_def digit_char_def is_digit_def)

lemma show_nat_digits: "list_all is_digit (show_nat n)"
proof (induction n rule: show_nat.induct)
  case (1 n)
  show ?case
  proof (cases "n < 10")
    case True
    then show ?thesis by (subst show_nat.simps) (simp add: digit_char_props)
  next
    case False
    with 1 show ?thesis by (subst show_nat.simps) (simp add: digit_char_props)
  qed
qed

lemma show_nat_nonempty: "show_nat n \<noteq> []"
  by (subst show_nat.simps) simp

lemma read_digits_append: "read_digits n (xs @ ys) = read_digits (read_digits n xs) ys"
  by (simp add: read_digits_def)

lemma read_show_nat: "read_digits 0 (show_nat n) = n"
proof (induction n rule: show_nat.induct)
  case (1 n)
  show ?case
  proof (cases "n < 10")
    case True
    then show ?thesis
      by (subst show_nat.simps) (simp add: read_digits_def digit_char_props)
  next
    case False
    with 1 have "read_digits 0 (show_nat (n div 10)) = n div 10" by simp
    with False show ?thesis
      by (subst show_nat.simps) (simp add: read_digits_append, simp add: read_digits_def digit_char_props)
  qed
qed

lemma show_nat_inj: "show_nat m = show_nat n \<Longrightarrow> m = n"
  by (metis read_show_nat)

section \<open>Tokens of the generated expressions\<close>

lemma is_digit_ident_char: "is_digit c \<Longrightarrow> is_ident_char c"
  by (simp add: is_ident_char_def)

lemma start_letter: "is_letter c \<Longrightarrow> start c = Some ([], InIdent [c])"
  by (auto simp: start_def is_letter_def)

lemma start_digit: "is_digit c \<Longrightarrow> start c = Some ([], InNumber (digit_val c))"
  by (auto simp: start_def is_digit_def is_letter_def)

lemma tokenize_Idle_simps:
  "tokenize_from Idle (CHR '' '' # cs) = tokenize_from Idle cs"
  "tokenize_from Idle (CHR ''('' # cs) = map_option ((#) LP) (tokenize_from Idle cs)"
  "tokenize_from Idle (CHR '')'' # cs) = map_option ((#) RP) (tokenize_from Idle cs)"
  "tokenize_from Idle (CHR ''+'' # cs) = map_option ((#) PLUS) (tokenize_from Idle cs)"
  "tokenize_from Idle (CHR ''*'' # cs) = map_option ((#) STAR) (tokenize_from Idle cs)"
  by (simp_all add: start_def split: option.splits)


lemma tokenize_in_ident:
  "list_all is_ident_char xs \<Longrightarrow> ident_boundary rest \<Longrightarrow>
     tokenize_from (InIdent s) (xs @ rest) = map_option ((#) (ID (s @ xs))) (tokenize_from Idle rest)"
proof (induction xs arbitrary: s)
  case Nil
  then show ?case
    by (cases rest) (auto simp: ident_boundary_def split: option.splits)
next
  case (Cons x xs)
  then show ?case by simp
qed

lemma tokenize_ident:
  assumes "ident x" and "ident_boundary rest"
  shows "tokenize_from Idle (x @ rest) = map_option ((#) (ID x)) (tokenize_from Idle rest)"
proof -
  from assms(1) obtain c cs where x: "x = c # cs" and c: "is_letter c" and cs: "list_all is_ident_char cs"
    by (auto simp: ident_def split: list.splits)
  have "tokenize_from Idle (x @ rest) = tokenize_from (InIdent [c]) (cs @ rest)"
    by (simp add: x start_letter [OF c] split: option.splits)
  also have "\<dots> = map_option ((#) (ID ([c] @ cs))) (tokenize_from Idle rest)"
    using cs assms(2) by (rule tokenize_in_ident)
  finally show ?thesis by (simp add: x)
qed


lemma tokenize_in_number:
  "list_all is_digit ds \<Longrightarrow> digit_boundary rest \<Longrightarrow>
     tokenize_from (InNumber n) (ds @ rest) = map_option ((#) (NUM (read_digits n ds))) (tokenize_from Idle rest)"
proof (induction ds arbitrary: n)
  case Nil
  then show ?case
    by (cases rest) (auto simp: digit_boundary_def read_digits_def split: option.splits)
next
  case (Cons d ds)
  then show ?case by (simp add: read_digits_def)
qed

lemma tokenize_number:
  assumes "digit_boundary rest"
  shows "tokenize_from Idle (show_nat n @ rest) = map_option ((#) (NUM n)) (tokenize_from Idle rest)"
proof -
  obtain d ds where sn: "show_nat n = d # ds"
    using show_nat_nonempty [of n] by (cases "show_nat n") auto
  have dig: "is_digit d" "list_all is_digit ds"
    using show_nat_digits [of n] by (simp_all add: sn)
  have "tokenize_from Idle (show_nat n @ rest) = tokenize_from (InNumber (digit_val d)) (ds @ rest)"
    by (simp add: sn start_digit [OF dig(1)] split: option.splits)
  also have "\<dots> = map_option ((#) (NUM (read_digits (digit_val d) ds))) (tokenize_from Idle rest)"
    using dig(2) assms by (rule tokenize_in_number)
  also have "read_digits (digit_val d) ds = read_digits 0 (show_nat n)"
    by (simp add: sn read_digits_def)
  finally show ?thesis by (simp add: read_show_nat)
qed

lemma tokenize_sum:
  assumes "xs \<noteq> []" and "list_all ident xs" and "ident_boundary rest"
  shows "tokenize_from Idle (join '' + '' xs @ rest)
           = map_option ((@) (sum_tokens xs)) (tokenize_from Idle rest)"
  using assms
proof (induction "'' + ''" xs rule: join.induct)
  case 1
  then show ?case by simp
next
  case (2 x)
  then show ?case
    by (cases "tokenize_from Idle rest") (simp_all add: tokenize_ident plus_tail_def)
next
  case (3 x y ys)
  have b: "ident_boundary ('' + '' @ join '' + '' (y # ys) @ rest)"
    by (simp add: ident_boundary_def is_ident_char_def is_letter_def is_digit_def)
  have "tokenize_from Idle (join '' + '' (x # y # ys) @ rest)
          = map_option ((#) (ID x)) (tokenize_from Idle ('' + '' @ join '' + '' (y # ys) @ rest))"
    using 3(3) b by (simp add: tokenize_ident)
  also have "tokenize_from Idle ('' + '' @ join '' + '' (y # ys) @ rest)
          = map_option ((#) PLUS) (tokenize_from Idle (join '' + '' (y # ys) @ rest))"
    by (simp add: tokenize_Idle_simps del: tokenize_from.simps)
  also have "tokenize_from Idle (join '' + '' (y # ys) @ rest)
          = map_option ((@) (sum_tokens (y # ys))) (tokenize_from Idle rest)"
    using 3 by simp
  finally show ?case
    by (cases "tokenize_from Idle rest") (simp_all add: plus_tail_def)
qed

section \<open>Syntax trees of the generated expressions\<close>

lemma shunt_plus_tail_paren:
  "shunt False (SAdd # SParen # ops) (b # a # out) (plus_tail ys @ RP # rest)
     = shunt False ops (add_vars (Add a b) ys # out) rest"
proof (induction ys arbitrary: a b)
  case Nil
  then show ?case by (simp add: plus_tail_def add_vars_def)
next
  case (Cons y ys)
  have "shunt False (SAdd # SParen # ops) (b # a # out) (plus_tail (y # ys) @ RP # rest)
          = shunt False (SAdd # SParen # ops) (Var y # Add a b # out) (plus_tail ys @ RP # rest)"
    by (simp add: plus_tail_def)
  also have "\<dots> = shunt False ops (add_vars (Add (Add a b) (Var y)) ys # out) rest"
    by (rule Cons.IH)
  finally show ?case by (simp add: add_vars_def)
qed

lemma shunt_paren_sum:
  assumes "xs \<noteq> []"
  shows "shunt True (SParen # ops) out (sum_tokens xs @ RP # rest) = shunt False ops (sum_expr xs # out) rest"
proof -
  from assms obtain x ys where xs: "xs = x # ys" by (cases xs) auto
  show ?thesis
  proof (cases ys)
    case Nil
    then show ?thesis by (simp add: xs plus_tail_def add_vars_def)
  next
    case (Cons y zs)
    have "shunt True (SParen # ops) out (sum_tokens xs @ RP # rest)
            = shunt False (SAdd # SParen # ops) (Var y # Var x # out) (plus_tail zs @ RP # rest)"
      by (simp add: xs Cons plus_tail_def)
    also have "\<dots> = shunt False ops (add_vars (Add (Var x) (Var y)) zs # out) rest"
      by (rule shunt_plus_tail_paren)
    finally show ?thesis by (simp add: xs Cons add_vars_def)
  qed
qed

lemma shunt_plus_tail_top:
  "shunt False [SAdd] [b, a] (plus_tail ys) = Some (add_vars (Add a b) ys)"
proof (induction ys arbitrary: a b)
  case Nil
  then show ?case by (simp add: plus_tail_def add_vars_def)
next
  case (Cons y ys)
  have "shunt False [SAdd] [b, a] (plus_tail (y # ys)) = shunt False [SAdd] [Var y, Add a b] (plus_tail ys)"
    by (simp add: plus_tail_def)
  also have "\<dots> = Some (add_vars (Add (Add a b) (Var y)) ys)"
    by (rule Cons.IH)
  finally show ?case by (simp add: add_vars_def)
qed

lemma shunt_top_sum:
  assumes "xs \<noteq> []"
  shows "shunt True [] [] (sum_tokens xs) = Some (sum_expr xs)"
proof -
  from assms obtain x ys where xs: "xs = x # ys" by (cases xs) auto
  show ?thesis
  proof (cases ys)
    case Nil
    then show ?thesis by (simp add: xs plus_tail_def add_vars_def)
  next
    case (Cons y zs)
    have "shunt True [] [] (sum_tokens xs) = shunt False [SAdd] [Var y, Var x] (plus_tail zs)"
      by (simp add: xs Cons plus_tail_def)
    also have "\<dots> = Some (add_vars (Add (Var x) (Var y)) zs)"
      by (rule shunt_plus_tail_top)
    finally show ?thesis by (simp add: xs Cons add_vars_def)
  qed
qed

text \<open>The three aggregated expressions, parsed.\<close>

lemma parse_aggregated_actual:
  assumes "is \<noteq> []" "cs \<noteq> []" "os \<noteq> []"
    and "list_all ident is" "list_all ident cs" "list_all ident os"
  shows "parse_expression (''('' @ join '' + '' is @ '') + ('' @ join '' + '' cs @ '') + ((''
            @ join '' + '' os @ '') * '' @ show_nat r @ '')'')
         = Some (Add (Add (sum_expr is) (sum_expr cs)) (Mul (sum_expr os) (Lit r)))"
proof -
  have b: "ident_boundary ('')'' @ s)" "digit_boundary ('')'' @ s)" for s
    by (simp_all add: ident_boundary_def digit_boundary_def is_ident_char_def is_letter_def is_digit_def)
  have "tokenize (''('' @ join '' + '' is @ '') + ('' @ join '' + '' cs @ '') + ((''
            @ join '' + '' os @ '') * '' @ show_nat r @ '')'')
        = Some (LP # sum_tokens is @ RP # PLUS # LP # sum_tokens cs @ RP # PLUS # LP # LP
                  # sum_tokens os @ RP # STAR # NUM r # [RP])"
    unfolding tokenize_def
    using assms b
    by (simp add: tokenize_Idle_simps tokenize_sum tokenize_number del: tokenize_from.simps(2))
  then show ?thesis
    using assms(1-3)
    by (simp add: parse_expression_def shunt_paren_sum)
qed

lemma parse_aggregated_initial:
  assumes "is \<noteq> []" "cs \<noteq> []" "ms \<noteq> []"
    and "list_all ident is" "list_all ident cs" "list_all ident ms"
  shows "parse_expression (''('' @ join '' + '' is @ '') + ('' @ join '' + '' cs @ '') + (''
            @ join '' + '' ms @ '')'')
         = Some (Add (Add (sum_expr is) (sum_expr cs)) (sum_expr ms))"
proof -
  have b: "ident_boundary ('')'' @ s)" for s
    by (simp add: ident_boundary_def is_ident_char_def is_letter_def is_digit_def)
  have "tokenize (''('' @ join '' + '' is @ '') + ('' @ join '' + '' cs @ '') + (''
            @ join '' + '' ms @ '')'')
        = Some (LP # sum_tokens is @ RP # PLUS # LP # sum_tokens cs @ RP # PLUS # LP
                  # sum_tokens ms @ [RP])"
    unfolding tokenize_def
    using assms b
    by (simp add: tokenize_Idle_simps tokenize_sum del: tokenize_from.simps(2))
  then show ?thesis
    using assms(1-3)
    by (simp add: parse_expression_def shunt_paren_sum)
qed

lemma parse_aggregated_invocations:
  assumes "xs \<noteq> []" and "list_all ident xs"
  shows "parse_expression (join '' + '' xs) = Some (sum_expr xs)"
proof -
  have "tokenize_from Idle (join '' + '' xs @ []) = map_option ((@) (sum_tokens xs)) (tokenize_from Idle [])"
    using assms by (intro tokenize_sum) (simp_all add: ident_boundary_def)
  then have "tokenize (join '' + '' xs) = Some (sum_tokens xs)"
    by (simp add: tokenize_def)
  then show ?thesis
    using assms(1) by (simp add: parse_expression_def shunt_top_sum)
qed

text \<open>The two single-profile expressions, parsed.\<close>

lemma parse_single_actual:
  "parse_expression (''inputTokens + cacheWriteTokens + (outputTokens * '' @ show_nat r @ '')'')
     = Some (Add (Add (Var ''inputTokens'') (Var ''cacheWriteTokens''))
               (Mul (Var ''outputTokens'') (Lit r)))"
proof -
  have b: "digit_boundary ('')'' @ s)" for s
    by (simp add: digit_boundary_def is_digit_def)
  have "tokenize_from Idle (''inputTokens + cacheWriteTokens + (outputTokens * '' @ show_nat r @ '')'')
        = Some [ID ''inputTokens'', PLUS, ID ''cacheWriteTokens'', PLUS, LP, ID ''outputTokens'',
                STAR, NUM r, RP]"
    using b
    by (simp add: start_def is_letter_def is_ident_char_def is_digit_def tokenize_number)
  then show ?thesis
    by (simp add: parse_expression_def tokenize_def)
qed

lemma parse_single_initial:
  "parse_expression ''inputTokens + cacheWriteTokens + maxTokens''
     = Some (Add (Add (Var ''inputTokens'') (Var ''cacheWriteTokens'')) (Var ''maxTokens''))"
  by (simp add: parse_expression_def tokenize_def start_def is_letter_def is_ident_char_def
        is_digit_def)

section \<open>Profiles, variable names and bindings\<close>

lemma allProfileMetrics_eq:
  "allProfileMetrics ids =
     map (\<lambda>(index, pid). \<lparr>profile_id = pid, metrics = createProfileMetrics pid,
                            suffix' = profile_suffix index\<rparr>) (enumerate 0 ids)"
  by (simp add: allProfileMetrics_def profile_suffix_def)

lemma allProfileMetrics_ids: "map profile_id (allProfileMetrics ids) = ids"
proof -
  have "map profile_id (allProfileMetrics ids) = map snd (enumerate 0 ids)"
    by (simp add: allProfileMetrics_eq case_prod_unfold comp_def)
  then show ?thesis by simp
qed

lemma allProfileMetrics_suffixes:
  "map suffix' (allProfileMetrics ids) = map profile_suffix [0..<length ids]"
proof -
  have "map suffix' (allProfileMetrics ids) = map (profile_suffix \<circ> fst) (enumerate 0 ids)"
    by (simp add: allProfileMetrics_eq case_prod_unfold comp_def)
  also have "\<dots> = map profile_suffix (map fst (enumerate 0 ids))"
    by (simp only: map_map)
  also have "map fst (enumerate 0 ids) = [0..<length ids]"
    by simp
  finally show ?thesis .
qed

lemma allProfileMetrics_metrics:
  "pe \<in> set (allProfileMetrics ids) \<Longrightarrow> metrics pe = createProfileMetrics (profile_id pe)"
  by (auto simp: allProfileMetrics_eq)

lemma profile_suffix_inj: "profile_suffix i = profile_suffix j \<Longrightarrow> i = j"
  by (auto simp: profile_suffix_def dest: show_nat_inj split: if_splits)

lemma allProfileMetrics_distinct: "distinct (map suffix' (allProfileMetrics ids))"
  unfolding allProfileMetrics_suffixes
  by (simp add: distinct_map inj_on_def profile_suffix_inj)

lemma ident_key:
  assumes "ident base"
  shows "ident (base @ profile_suffix i)"
proof -
  have "list_all is_ident_char (show_nat i)"
    using show_nat_digits [of i] by (simp add: list_all_iff is_digit_ident_char)
  with assms show ?thesis
    by (auto simp: ident_def profile_suffix_def is_ident_char_def split: list.splits)
qed

lemma ident_bases:
  "ident ''inputTokens''" "ident ''cacheWriteTokens''" "ident ''outputTokens''"
  "ident ''maxTokens''" "ident ''invocations''"
  by (simp_all add: ident_def is_letter_def is_ident_char_def)

lemma allProfileMetrics_ident:
  assumes "ident base"
  shows "list_all ident (map (var_name base) (allProfileMetrics ids))"
proof -
  have "map (var_name base) (allProfileMetrics ids)
          = map (\<lambda>s. base @ s) (map suffix' (allProfileMetrics ids))"
    by (simp add: comp_def var_name_def)
  then show ?thesis
    unfolding allProfileMetrics_suffixes
    by (simp add: list_all_iff ident_key [OF assms])
qed

lemma aggregate_parts:
  "inputParts (fold agg_step pes st) = inputParts st @ map (var_name ''inputTokens'') pes"
  "cacheParts (fold agg_step pes st) = cacheParts st @ map (var_name ''cacheWriteTokens'') pes"
  "outputParts (fold agg_step pes st) = outputParts st @ map (var_name ''outputTokens'') pes"
  "maxTokensParts (fold agg_step pes st) = maxTokensParts st @ map (var_name ''maxTokens'') pes"
  "invocationParts (fold agg_step pes st) = invocationParts st @ map (var_name ''invocations'') pes"
  by (induction pes arbitrary: st; simp add: agg_step_def Let_def var_name_def)+

lemma agg_step_lookup:
  "map_of (agg_usingMetrics (agg_step pe st)) =
     (map_of (agg_usingMetrics st))
       (var_name ''inputTokens'' pe \<mapsto> inputTokens (metrics pe),
        var_name ''cacheWriteTokens'' pe \<mapsto> cacheWriteTokens (metrics pe),
        var_name ''outputTokens'' pe \<mapsto> outputTokens (metrics pe),
        var_name ''maxTokens'' pe \<mapsto> maxTokens (metrics pe),
        var_name ''invocations'' pe \<mapsto> invocations (metrics pe))"
  by (simp add: agg_step_def Let_def update_conv' var_name_def)

lemma aggregate_lookup:
  assumes "distinct (map suffix' pes)" and "pe \<in> set pes"
  shows "map_of (agg_usingMetrics (fold agg_step pes st)) (var_name ''inputTokens'' pe) = Some (inputTokens (metrics pe))
    \<and> map_of (agg_usingMetrics (fold agg_step pes st)) (var_name ''cacheWriteTokens'' pe) = Some (cacheWriteTokens (metrics pe))
    \<and> map_of (agg_usingMetrics (fold agg_step pes st)) (var_name ''outputTokens'' pe) = Some (outputTokens (metrics pe))
    \<and> map_of (agg_usingMetrics (fold agg_step pes st)) (var_name ''maxTokens'' pe) = Some (maxTokens (metrics pe))
    \<and> map_of (agg_usingMetrics (fold agg_step pes st)) (var_name ''invocations'' pe) = Some (invocations (metrics pe))"
  using assms
proof (induction pes rule: rev_induct)
  case Nil
  then show ?case by simp
next
  case (snoc p pes)
  show ?case
  proof (cases "pe = p")
    case True
    then show ?thesis by (simp add: agg_step_lookup var_name_def)
  next
    case False
    with snoc.prems have mem: "pe \<in> set pes"
      by simp
    from snoc.prems have "suffix' p \<notin> suffix' ` set pes"
      by simp
    moreover from mem have "suffix' pe \<in> suffix' ` set pes"
      by (rule imageI)
    ultimately have ne: "suffix' pe \<noteq> suffix' p"
      by metis
    from snoc.prems have "distinct (map suffix' pes)" by simp
    from snoc.IH [OF this mem] ne show ?thesis
      by (simp add: agg_step_lookup var_name_def)
  qed
qed

section \<open>Values of the series\<close>

text \<open>
  A usage metric reads as the sum of its bucket when the bucket has points, and also on a
  bucket without points when such a bucket reads as zero.
\<close>

lemma read_usage_metric:
  assumes "missing = Some 0 \<or> points_of store ns name pid 1 t \<noteq> []"
  shows "read_metric missing store (usage_metric ns name pid) t = Some (bucket_sum store ns name pid t)"
  using assms
  by (cases "points_of store ns name pid 1 t")
     (simp_all add: read_metric_def usage_metric_def bucket_sum_def)

lemma has_points_member:
  "has_points store ns name ids t \<Longrightarrow> pid \<in> set ids \<Longrightarrow> points_of store ns name pid 1 t \<noteq> []"
  by (simp add: has_points_def list_all_iff)

lemma has_points_single [simp]:
  "has_points store ns name [pid] t = (points_of store ns name pid 1 t \<noteq> [])"
  by (simp add: has_points_def)

lemma eval_add_vars:
  assumes "eval_mexpr env e = Some v"
    and "\<forall>pe \<in> set pes. env (key pe) = Some (val pe)"
  shows "eval_mexpr env (add_vars e (map key pes)) = Some (v + sum_list (map val pes))"
  using assms
proof (induction pes arbitrary: e v)
  case Nil
  then show ?case by (simp add: add_vars_def)
next
  case (Cons p pes)
  have "eval_mexpr env (Add e (Var (key p))) = Some (v + val p)"
    using Cons.prems by simp
  from Cons.IH [OF this] Cons.prems(2)
  have "eval_mexpr env (add_vars (Add e (Var (key p))) (map key pes))
          = Some (v + val p + sum_list (map val pes))"
    by simp
  then show ?case by (simp add: add_vars_def add.assoc)
qed

lemma eval_sum_expr:
  assumes "pes \<noteq> []" and "\<forall>pe \<in> set pes. env (key pe) = Some (val pe)"
  shows "eval_mexpr env (sum_expr (map key pes)) = Some (sum_list (map val pes))"
proof -
  from assms(1) obtain p ps where pes: "pes = p # ps" by (cases pes) auto
  have "eval_mexpr env (Var (key p)) = Some (val p)"
    using assms(2) by (simp add: pes)
  from eval_add_vars [OF this, of ps key val] assms(2) show ?thesis
    by (simp add: pes)
qed

lemma allProfileMetrics_nonempty: "ids \<noteq> [] \<Longrightarrow> allProfileMetrics ids \<noteq> []"
  by (cases ids) (simp_all add: allProfileMetrics_def)

text \<open>The value of one of the five per-profile sums inside an aggregated expression.\<close>

lemma eval_profile_sum:
  assumes "ids \<noteq> []"
    and "\<And>pe. pe \<in> set (allProfileMetrics ids) \<Longrightarrow>
            map_of bindings (var_name base pe) = Some (usage_metric ns name (profile_id pe))"
    and "missing = Some 0 \<or> has_points store ns name ids t"
  shows "eval_mexpr (variable_value missing store bindings t)
           (sum_expr (map (var_name base) (allProfileMetrics ids)))
         = Some (profile_sum store ns name ids t)"
proof -
  have "\<forall>pe \<in> set (allProfileMetrics ids).
          variable_value missing store bindings t (var_name base pe)
            = Some (bucket_sum store ns name (profile_id pe) t)"
  proof
    fix pe assume pe: "pe \<in> set (allProfileMetrics ids)"
    then have "profile_id pe \<in> set (map profile_id (allProfileMetrics ids))"
      by simp
    then have "profile_id pe \<in> set ids"
      by (simp only: allProfileMetrics_ids)
    with assms(3) have "missing = Some 0 \<or> points_of store ns name (profile_id pe) 1 t \<noteq> []"
      by (blast dest: has_points_member)
    then show "variable_value missing store bindings t (var_name base pe)
                 = Some (bucket_sum store ns name (profile_id pe) t)"
      by (simp add: variable_value_def assms(2) [OF pe] read_usage_metric)
  qed
  from eval_sum_expr [where key = "var_name base"
         and val = "\<lambda>pe. bucket_sum store ns name (profile_id pe) t",
         OF allProfileMetrics_nonempty [OF assms(1)] this]
  have "eval_mexpr (variable_value missing store bindings t)
           (sum_expr (map (var_name base) (allProfileMetrics ids)))
         = Some (sum_list (map (\<lambda>pe. bucket_sum store ns name (profile_id pe) t) (allProfileMetrics ids)))" .
  also have "map (\<lambda>pe. bucket_sum store ns name (profile_id pe) t) (allProfileMetrics ids)
           = map (\<lambda>pid. bucket_sum store ns name pid t) (map profile_id (allProfileMetrics ids))"
    by (simp add: comp_def)
  finally show ?thesis
    by (simp add: profile_sum_def allProfileMetrics_ids)
qed

lemma aggregate_bindings:
  assumes "pe \<in> set (allProfileMetrics ids)"
  shows "map_of (agg_usingMetrics (aggregate (allProfileMetrics ids))) (var_name ''inputTokens'' pe)
           = Some (usage_metric ''AWS/Bedrock'' ''InputTokenCount'' (profile_id pe))"
    and "map_of (agg_usingMetrics (aggregate (allProfileMetrics ids))) (var_name ''cacheWriteTokens'' pe)
           = Some (usage_metric ''AWS/Bedrock'' ''CacheWriteInputTokenCount'' (profile_id pe))"
    and "map_of (agg_usingMetrics (aggregate (allProfileMetrics ids))) (var_name ''outputTokens'' pe)
           = Some (usage_metric ''AWS/Bedrock'' ''OutputTokenCount'' (profile_id pe))"
    and "map_of (agg_usingMetrics (aggregate (allProfileMetrics ids))) (var_name ''maxTokens'' pe)
           = Some (usage_metric ''Bedrock/Quotas'' ''MaxTokens'' (profile_id pe))"
    and "map_of (agg_usingMetrics (aggregate (allProfileMetrics ids))) (var_name ''invocations'' pe)
           = Some (usage_metric ''AWS/Bedrock'' ''Invocations'' (profile_id pe))"
  using aggregate_lookup [OF allProfileMetrics_distinct assms, of agg_init]
        allProfileMetrics_metrics [OF assms]
  by (simp_all add: aggregate_def createProfileMetrics_def)

lemma aggregate_part_lists:
  "inputParts (aggregate pes) = map (var_name ''inputTokens'') pes"
  "cacheParts (aggregate pes) = map (var_name ''cacheWriteTokens'') pes"
  "outputParts (aggregate pes) = map (var_name ''outputTokens'') pes"
  "maxTokensParts (aggregate pes) = map (var_name ''maxTokens'') pes"
  "invocationParts (aggregate pes) = map (var_name ''invocations'') pes"
  by (simp_all add: aggregate_def aggregate_parts agg_init_def)

text \<open>
  The hypotheses on the store below are of the form: a bucket without points reads as
  zero, or the counter has points in the bucket for every profile id.
\<close>

lemma aggregated_actual_value:
  assumes "ids \<noteq> []"
    and "missing = Some 0 \<or> has_points store ''AWS/Bedrock'' ''InputTokenCount'' ids t"
    and "missing = Some 0 \<or> has_points store ''AWS/Bedrock'' ''CacheWriteInputTokenCount'' ids t"
    and "missing = Some 0 \<or> has_points store ''AWS/Bedrock'' ''OutputTokenCount'' ids t"
  shows "series_value missing store (actualConsumption (aggregated_series r ids)) t
         = Some (profile_sum store ''AWS/Bedrock'' ''InputTokenCount'' ids t
               + profile_sum store ''AWS/Bedrock'' ''CacheWriteInputTokenCount'' ids t
               + profile_sum store ''AWS/Bedrock'' ''OutputTokenCount'' ids t * int r)"
proof -
  let ?pes = "allProfileMetrics ids"
  let ?b = "agg_usingMetrics (aggregate ?pes)"
  let ?E = "''('' @ join '' + '' (map (var_name ''inputTokens'') ?pes) @ '') + (''
             @ join '' + '' (map (var_name ''cacheWriteTokens'') ?pes) @ '') + ((''
             @ join '' + '' (map (var_name ''outputTokens'') ?pes) @ '') * '' @ show_nat r @ '')''"
  have ne: "?pes \<noteq> []"
    using assms(1) by (rule allProfileMetrics_nonempty)
  have "series_value missing store (actualConsumption (aggregated_series r ids)) t
          = (case parse_expression ?E of None \<Rightarrow> None
             | Some e \<Rightarrow> eval_mexpr (variable_value missing store ?b t) e)"
    by (simp only: aggregated_series_def Let_def aggregate_part_lists EntrySeries.select_convs
          series_value.simps eval_expression_def MathExpression.select_convs)
  also have "parse_expression ?E
        = Some (Add (Add (sum_expr (map (var_name ''inputTokens'') ?pes))
                         (sum_expr (map (var_name ''cacheWriteTokens'') ?pes)))
                    (Mul (sum_expr (map (var_name ''outputTokens'') ?pes)) (Lit r)))"
    by (rule parse_aggregated_actual) (simp_all add: ne allProfileMetrics_ident ident_bases)
  finally show ?thesis
    by (simp add: eval_profile_sum [OF assms(1) aggregate_bindings(1) assms(2)]
          eval_profile_sum [OF assms(1) aggregate_bindings(2) assms(3)]
          eval_profile_sum [OF assms(1) aggregate_bindings(3) assms(4)])
qed

lemma aggregated_initial_value:
  assumes "ids \<noteq> []"
    and "missing = Some 0 \<or> has_points store ''AWS/Bedrock'' ''InputTokenCount'' ids t"
    and "missing = Some 0 \<or> has_points store ''AWS/Bedrock'' ''CacheWriteInputTokenCount'' ids t"
    and "missing = Some 0 \<or> has_points store ''Bedrock/Quotas'' ''MaxTokens'' ids t"
  shows "series_value missing store (initialReservation (aggregated_series r ids)) t
         = Some (profile_sum store ''AWS/Bedrock'' ''InputTokenCount'' ids t
               + profile_sum store ''AWS/Bedrock'' ''CacheWriteInputTokenCount'' ids t
               + profile_sum store ''Bedrock/Quotas'' ''MaxTokens'' ids t)"
proof -
  let ?pes = "allProfileMetrics ids"
  let ?b = "agg_usingMetrics (aggregate ?pes)"
  let ?E = "''('' @ join '' + '' (map (var_name ''inputTokens'') ?pes) @ '') + (''
             @ join '' + '' (map (var_name ''cacheWriteTokens'') ?pes) @ '') + (''
             @ join '' + '' (map (var_name ''maxTokens'') ?pes) @ '')''"
  have ne: "?pes \<noteq> []"
    using assms(1) by (rule allProfileMetrics_nonempty)
  have "series_value missing store (initialReservation (aggregated_series r ids)) t
          = (case parse_expression ?E of None \<Rightarrow> None
             | Some e \<Rightarrow> eval_mexpr (variable_value missing store ?b t) e)"
    by (simp only: aggregated_series_def Let_def aggregate_part_lists EntrySeries.select_convs
          series_value.simps eval_expression_def MathExpression.select_convs)
  also have "parse_expression ?E
        = Some (Add (Add (sum_expr (map (var_name ''inputTokens'') ?pes))
                         (sum_expr (map (var_name ''cacheWriteTokens'') ?pes)))
                    (sum_expr (map (var_name ''maxTokens'') ?pes)))"
    by (rule parse_aggregated_initial) (simp_all add: ne allProfileMetrics_ident ident_bases)
  finally show ?thesis
    by (simp add: eval_profile_sum [OF assms(1) aggregate_bindings(1) assms(2)]
          eval_profile_sum [OF assms(1) aggregate_bindings(2) assms(3)]
          eval_profile_sum [OF assms(1) aggregate_bindings(4) assms(4)])
qed

lemma aggregated_invocations_value:
  assumes "ids \<noteq> []"
    and "missing = Some 0 \<or> has_points store ''AWS/Bedrock'' ''Invocations'' ids t"
  shows "series_value missing store (totalInvocations (aggregated_series r ids)) t
         = Some (profile_sum store ''AWS/Bedrock'' ''Invocations'' ids t)"
proof -
  let ?pes = "allProfileMetrics ids"
  let ?b = "agg_usingMetrics (aggregate ?pes)"
  let ?E = "join '' + '' (map (var_name ''invocations'') ?pes)"
  have ne: "?pes \<noteq> []"
    using assms(1) by (rule allProfileMetrics_nonempty)
  have "series_value missing store (totalInvocations (aggregated_series r ids)) t
          = (case parse_expression ?E of None \<Rightarrow> None
             | Some e \<Rightarrow> eval_mexpr (variable_value missing store ?b t) e)"
    by (simp only: aggregated_series_def Let_def aggregate_part_lists EntrySeries.select_convs
          series_value.simps eval_expression_def MathExpression.select_convs)
  also have "parse_expression ?E = Some (sum_expr (map (var_name ''invocations'') ?pes))"
    by (rule parse_aggregated_invocations) (simp_all add: ne allProfileMetrics_ident ident_bases)
  finally show ?thesis
    by (simp add: eval_profile_sum [OF assms(1) aggregate_bindings(5) assms(2)])
qed

lemma single_actual_value:
  assumes "missing = Some 0 \<or> points_of store ''AWS/Bedrock'' ''InputTokenCount'' pid 1 t \<noteq> []"
    and "missing = Some 0 \<or> points_of store ''AWS/Bedrock'' ''CacheWriteInputTokenCount'' pid 1 t \<noteq> []"
    and "missing = Some 0 \<or> points_of store ''AWS/Bedrock'' ''OutputTokenCount'' pid 1 t \<noteq> []"
  shows "series_value missing store (actualConsumption (single_series r (createProfileMetrics pid))) t
     = Some (bucket_sum store ''AWS/Bedrock'' ''InputTokenCount'' pid t
           + bucket_sum store ''AWS/Bedrock'' ''CacheWriteInputTokenCount'' pid t
           + bucket_sum store ''AWS/Bedrock'' ''OutputTokenCount'' pid t * int r)"
proof -
  let ?b = "[(''inputTokens'', inputTokens (createProfileMetrics pid)),
             (''cacheWriteTokens'', cacheWriteTokens (createProfileMetrics pid)),
             (''outputTokens'', outputTokens (createProfileMetrics pid))]"
  have "series_value missing store (actualConsumption (single_series r (createProfileMetrics pid))) t
          = (case parse_expression (''inputTokens + cacheWriteTokens + (outputTokens * '' @ show_nat r @ '')'')
               of None \<Rightarrow> None
             | Some e \<Rightarrow> eval_mexpr (variable_value missing store ?b t) e)"
    by (simp only: single_series_def EntrySeries.select_convs series_value.simps
          eval_expression_def MathExpression.select_convs)
  also have "\<dots> = eval_mexpr (variable_value missing store ?b t)
                     (Add (Add (Var ''inputTokens'') (Var ''cacheWriteTokens''))
                          (Mul (Var ''outputTokens'') (Lit r)))"
    by (simp only: parse_single_actual option.case)
  finally show ?thesis
    by (simp add: variable_value_def createProfileMetrics_def read_usage_metric [OF assms(1)]
          read_usage_metric [OF assms(2)] read_usage_metric [OF assms(3)])
qed

lemma single_initial_value:
  assumes "missing = Some 0 \<or> points_of store ''AWS/Bedrock'' ''InputTokenCount'' pid 1 t \<noteq> []"
    and "missing = Some 0 \<or> points_of store ''AWS/Bedrock'' ''CacheWriteInputTokenCount'' pid 1 t \<noteq> []"
    and "missing = Some 0 \<or> points_of store ''Bedrock/Quotas'' ''MaxTokens'' pid 1 t \<noteq> []"
  shows "series_value missing store (initialReservation (single_series r (createProfileMetrics pid))) t
     = Some (bucket_sum store ''AWS/Bedrock'' ''InputTokenCount'' pid t
           + bucket_sum store ''AWS/Bedrock'' ''CacheWriteInputTokenCount'' pid t
           + bucket_sum store ''Bedrock/Quotas'' ''MaxTokens'' pid t)"
proof -
  let ?b = "[(''inputTokens'', inputTokens (createProfileMetrics pid)),
             (''cacheWriteTokens'', cacheWriteTokens (createProfileMetrics pid)),
             (''maxTokens'', maxTokens (createProfileMetrics pid))]"
  have "series_value missing store (initialReservation (single_series r (createProfileMetrics pid))) t
          = (case parse_expression ''inputTokens + cacheWriteTokens + maxTokens''
               of None \<Rightarrow> None
             | Some e \<Rightarrow> eval_mexpr (variable_value missing store ?b t) e)"
    by (simp only: single_series_def EntrySeries.select_convs series_value.simps
          eval_expression_def MathExpression.select_convs)
  also have "\<dots> = eval_mexpr (variable_value missing store ?b t)
                     (Add (Add (Var ''inputTokens'') (Var ''cacheWriteTokens'')) (Var ''maxTokens''))"
    by (simp only: parse_single_initial option.case)
  finally show ?thesis
    by (simp add: variable_value_def createProfileMetrics_def read_usage_metric [OF assms(1)]
          read_usage_metric [OF assms(2)] read_usage_metric [OF assms(3)])
qed

lemma single_invocations_value:
  assumes "missing = Some 0 \<or> points_of store ''AWS/Bedrock'' ''Invocations'' pid 1 t \<noteq> []"
  shows "series_value missing store (totalInvocations (single_series r (createProfileMetrics pid))) t
     = Some (bucket_sum store ''AWS/Bedrock'' ''Invocations'' pid t)"
  by (simp add: single_series_def createProfileMetrics_def read_usage_metric [OF assms])

lemma entry_series_single:
  "\<not> hasApplicationProfiles config \<Longrightarrow>
     entry_series config = single_series (outputTokenBurndownRate (modelConfig config))
       (createProfileMetrics (getFullModelId (modelConfig config) (endpointType config)))"
  by (simp add: entry_series_def Let_def allProfileIds_def allProfileMetrics_def)

lemma entry_series_aggregated:
  "hasApplicationProfiles config \<Longrightarrow>
     entry_series config = aggregated_series (outputTokenBurndownRate (modelConfig config))
       (allProfileIds (getFullModelId (modelConfig config) (endpointType config)) config)"
  by (simp add: entry_series_def Let_def)

lemma allProfileIds_nonempty: "allProfileIds fullModelId config \<noteq> []"
  by (simp add: allProfileIds_def)

lemma allProfileIds_single:
  "\<not> hasApplicationProfiles config \<Longrightarrow> allProfileIds fullModelId config = [fullModelId]"
  by (simp add: allProfileIds_def)

lemma profile_sum_single [simp]: "profile_sum store ns name [pid] t = bucket_sum store ns name pid t"
  by (simp add: profile_sum_def)

text \<open>The three series of any entry, over all its profile ids.\<close>

lemma entry_actual_value:
  assumes "missing = Some 0 \<or> has_points store ''AWS/Bedrock'' ''InputTokenCount'' (entry_profile_ids config) t"
    and "missing = Some 0 \<or> has_points store ''AWS/Bedrock'' ''CacheWriteInputTokenCount'' (entry_profile_ids config) t"
    and "missing = Some 0 \<or> has_points store ''AWS/Bedrock'' ''OutputTokenCount'' (entry_profile_ids config) t"
  shows "series_value missing store (actualConsumption (entry_series config)) t
     = Some (profile_sum store ''AWS/Bedrock'' ''InputTokenCount'' (entry_profile_ids config) t
           + profile_sum store ''AWS/Bedrock'' ''CacheWriteInputTokenCount'' (entry_profile_ids config) t
           + profile_sum store ''AWS/Bedrock'' ''OutputTokenCount'' (entry_profile_ids config) t
             * int (entry_burndownRate config))"
proof (cases "hasApplicationProfiles config")
  case True
  show ?thesis
    unfolding entry_series_aggregated [OF True]
    by (rule aggregated_actual_value [OF allProfileIds_nonempty assms])
next
  case False
  from assms show ?thesis
    unfolding entry_series_single [OF False] allProfileIds_single [OF False]
      profile_sum_single has_points_single
    by (rule single_actual_value)
qed

lemma entry_initial_value:
  assumes "missing = Some 0 \<or> has_points store ''AWS/Bedrock'' ''InputTokenCount'' (entry_profile_ids config) t"
    and "missing = Some 0 \<or> has_points store ''AWS/Bedrock'' ''CacheWriteInputTokenCount'' (entry_profile_ids config) t"
    and "missing = Some 0 \<or> has_points store ''Bedrock/Quotas'' ''MaxTokens'' (entry_profile_ids config) t"
  shows "series_value missing store (initialReservation (entry_series config)) t
     = Some (profile_sum store ''AWS/Bedrock'' ''InputTokenCount'' (entry_profile_ids config) t
           + profile_sum store ''AWS/Bedrock'' ''CacheWriteInputTokenCount'' (entry_profile_ids config) t
           + profile_sum store ''Bedrock/Quotas'' ''MaxTokens'' (entry_profile_ids config) t)"
proof (cases "hasApplicationProfiles config")
  case True
  show ?thesis
    unfolding entry_series_aggregated [OF True]
    by (rule aggregated_initial_value [OF allProfileIds_nonempty assms])
next
  case False
  from assms show ?thesis
    unfolding entry_series_single [OF False] allProfileIds_single [OF False]
      profile_sum_single has_points_single
    by (rule single_initial_value)
qed

lemma entry_invocations_value:
  assumes "missing = Some 0 \<or> has_points store ''AWS/Bedrock'' ''Invocations'' (entry_profile_ids config) t"
  shows "series_value missing store (totalInvocations (entry_series config)) t
     = Some (profile_sum store ''AWS/Bedrock'' ''Invocations'' (entry_profile_ids config) t)"
proof (cases "hasApplicationProfiles config")
  case True
  show ?thesis
    unfolding entry_series_aggregated [OF True]
    by (rule aggregated_invocations_value [OF allProfileIds_nonempty assms])
next
  case False
  from assms show ?thesis
    unfolding entry_series_single [OF False] allProfileIds_single [OF False]
      profile_sum_single has_points_single
    by (rule single_invocations_value)
qed
section \<open>Model families and banners\<close>

lemma getModelFamily_find:
  "getModelFamily mid =
     (case find (\<lambda>(p, l). prefix p mid) family_rules of None \<Rightarrow> ''Other Models'' | Some (p, l) \<Rightarrow> l)"
  by (simp add: getModelFamily_def family_rules_def)

lemma family_rules_incomparable: "incomparable_rules family_rules"
  by code_simp

lemma family_rules_distinct: "distinct (map fst family_rules)"
  by code_simp

lemma distinct_singleton:
  assumes "distinct xs" and "set xs = {x}"
  shows "xs = [x]"
proof (cases xs)
  case Nil
  with assms(2) show ?thesis by simp
next
  case (Cons y ys)
  have "y \<in> set xs" by (simp add: Cons)
  with assms(2) have y: "y = x" by simp
  have "x \<notin> set ys"
    using assms(1) by (simp add: Cons y)
  moreover have "set ys \<subseteq> {x}"
    using assms(2) by (simp add: Cons subset_insertI2 flip: assms(2))
  ultimately have "ys = []" by (cases ys) auto
  then show ?thesis by (simp add: Cons y)
qed

lemma single_match:
  assumes i: "incomparable_rules rules" and d: "distinct (map fst rules)"
    and h: "prefix p mid" and r: "(p, l) \<in> set rules"
  shows "filter (\<lambda>(q, m). prefix q mid) rules = [(p, l)]"
proof (rule distinct_singleton)
  from d have "distinct rules" by (rule distinct_map [THEN iffD1, THEN conjunct1])
  then show "distinct (filter (\<lambda>(q, m). prefix q mid) rules)" by simp
next
  have "(q, m) = (p, l)" if qm: "(q, m) \<in> set rules" and pq: "prefix q mid" for q m
  proof -
    from h pq have "prefix p q \<or> prefix q p" by (rule prefix_same_cases)
    moreover have "p = q \<or> (\<not> prefix p q \<and> \<not> prefix q p)"
    proof -
      from i r have "list_all (\<lambda>(q, m). p = q \<or> (\<not> prefix p q \<and> \<not> prefix q p)) rules"
        unfolding incomparable_rules_def list_all_iff by blast
      with qm show ?thesis
        unfolding list_all_iff by blast
    qed
    ultimately have "p = q" by blast
    from qm \<open>p = q\<close> have "(p, m) \<in> set rules" by simp
    with d have "m = l"
      using r by (rule eq_key_imp_eq_value)
    with \<open>p = q\<close> show ?thesis by simp
  qed
  then have "set (filter (\<lambda>(q, m). prefix q mid) rules) \<subseteq> {(p, l)}"
    by auto
  moreover have "(p, l) \<in> set (filter (\<lambda>(q, m). prefix q mid) rules)"
    using h r by simp
  ultimately show "set (filter (\<lambda>(q, m). prefix q mid) rules) = {(p, l)}"
    by blast
qed


lemma getModelFamily_longest: "getModelFamily mid = longest_prefix_family mid"
proof (cases "find (\<lambda>(p, l). prefix p mid) family_rules")
  case None
  then have "filter (\<lambda>(p, l). prefix p mid) family_rules = []"
    unfolding find_None_iff filter_empty_conv by blast
  with None show ?thesis
    by (simp only: getModelFamily_find longest_prefix_family_def option.case list.case)
next
  case (Some r)
  obtain p l where r: "r = (p, l)" by (cases r)
  from Some have "prefix p mid" and "(p, l) \<in> set family_rules"
    unfolding r find_Some_iff by (auto dest: nth_mem)
  from single_match [OF family_rules_incomparable family_rules_distinct this]
  have "filter (\<lambda>(q, m). prefix q mid) family_rules = [(p, l)]" .
  with Some show ?thesis
    by (simp only: getModelFamily_find longest_prefix_family_def r option.case list.case
          prod.case fold_simps id_apply snd_conv)
qed

lemma render_config_skipped:
  "\<not> has_quota_codes config \<Longrightarrow>
     dashboard (render_config st config) = dashboard st
     \<and> currentFamily (render_config st config) = currentFamily st"
  by (simp add: render_config_def has_quota_codes_def Let_def)

lemma render_config_rendered:
  assumes "has_quota_codes config"
  shows "dashboard (render_config st config) =
           dashboard st
           @ (if Some (getModelFamily (modelId (modelConfig config))) \<noteq> currentFamily st
              then [[family_banner (getModelFamily (modelId (modelConfig config)))], entry_widgets config]
              else [entry_widgets config])"
    and "currentFamily (render_config st config) = Some (getModelFamily (modelId (modelConfig config)))"
proof -
  from assms obtain qc where qc: "getQuotaCodes (modelConfig config) (endpointType config) = Some qc"
    by (auto simp: has_quota_codes_def)
  show "dashboard (render_config st config) =
           dashboard st
           @ (if Some (getModelFamily (modelId (modelConfig config))) \<noteq> currentFamily st
              then [[family_banner (getModelFamily (modelId (modelConfig config)))], entry_widgets config]
              else [entry_widgets config])"
    by (simp add: render_config_def Let_def qc)
  show "currentFamily (render_config st config) = Some (getModelFamily (modelId (modelConfig config)))"
    by (auto simp: render_config_def Let_def qc)
qed

lemma render_fold_layout:
  "dashboard (foldl render_config st configs)
     = dashboard st @ banner_layout (currentFamily st) (filter has_quota_codes configs)"
proof (induction configs arbitrary: st)
  case Nil
  then show ?case by simp
next
  case (Cons config configs)
  show ?case
  proof (cases "has_quota_codes config")
    case True
    show ?thesis
      by (simp only: foldl_Cons Cons.IH render_config_rendered [OF True] filter.simps True if_True
            banner_layout.simps getModelFamily_longest append_assoc)
  next
    case False
    show ?thesis
      by (simp only: foldl_Cons Cons.IH render_config_skipped [OF False] filter.simps False if_False)
  qed
qed

lemma render_all_layout:
  "dashboard (render_all configs) = banner_layout None (filter has_quota_codes configs)"
  by (simp add: render_all_def render_fold_layout render_init_def)

section \<open>Actual consumption\<close>

text \<open>
  C1. For every dashboard entry and every time bucket, the value of the Actual
  Consumption series is the input-token count plus the cache-write-token count plus the
  output-token count times the entry's burndown rate, all three read in that same bucket
  under the \<open>Sum\<close> statistic and summed over the entry's profile ids; for an entry
  without application profiles these are the counters of the full model id alone. This
  holds in every bucket when the store reads a bucket without points as zero, and, whatever
  the store reads there, in every bucket in which each of the three counters has a point
  for each profile id.
\<close>

theorem actual_consumption_formula:
  "series_value (Some 0) store (actualConsumption (entry_series config)) t
     = Some (profile_sum store ''AWS/Bedrock'' ''InputTokenCount'' (entry_profile_ids config) t
           + profile_sum store ''AWS/Bedrock'' ''CacheWriteInputTokenCount'' (entry_profile_ids config) t
           + profile_sum store ''AWS/Bedrock'' ''OutputTokenCount'' (entry_profile_ids config) t
             * int (entry_burndownRate config))
   \<and> (\<not> hasApplicationProfiles config \<longrightarrow>
        series_value (Some 0) store (actualConsumption (entry_series config)) t
          = Some (bucket_sum store ''AWS/Bedrock'' ''InputTokenCount'' (entry_fullModelId config) t
                + bucket_sum store ''AWS/Bedrock'' ''CacheWriteInputTokenCount'' (entry_fullModelId config) t
                + bucket_sum store ''AWS/Bedrock'' ''OutputTokenCount'' (entry_fullModelId config) t
                  * int (entry_burndownRate config)))
   \<and> (has_points store ''AWS/Bedrock'' ''InputTokenCount'' (entry_profile_ids config) t
        \<and> has_points store ''AWS/Bedrock'' ''CacheWriteInputTokenCount'' (entry_profile_ids config) t
        \<and> has_points store ''AWS/Bedrock'' ''OutputTokenCount'' (entry_profile_ids config) t \<longrightarrow>
        series_value missing store (actualConsumption (entry_series config)) t
          = Some (profile_sum store ''AWS/Bedrock'' ''InputTokenCount'' (entry_profile_ids config) t
                + profile_sum store ''AWS/Bedrock'' ''CacheWriteInputTokenCount'' (entry_profile_ids config) t
                + profile_sum store ''AWS/Bedrock'' ''OutputTokenCount'' (entry_profile_ids config) t
                  * int (entry_burndownRate config)))"
proof (intro conjI impI)
  show "series_value (Some 0) store (actualConsumption (entry_series config)) t
     = Some (profile_sum store ''AWS/Bedrock'' ''InputTokenCount'' (entry_profile_ids config) t
           + profile_sum store ''AWS/Bedrock'' ''CacheWriteInputTokenCount'' (entry_profile_ids config) t
           + profile_sum store ''AWS/Bedrock'' ''OutputTokenCount'' (entry_profile_ids config) t
             * int (entry_burndownRate config))"
    by (rule entry_actual_value) simp_all
next
  assume single: "\<not> hasApplicationProfiles config"
  show "series_value (Some 0) store (actualConsumption (entry_series config)) t
          = Some (bucket_sum store ''AWS/Bedrock'' ''InputTokenCount'' (entry_fullModelId config) t
                + bucket_sum store ''AWS/Bedrock'' ''CacheWriteInputTokenCount'' (entry_fullModelId config) t
                + bucket_sum store ''AWS/Bedrock'' ''OutputTokenCount'' (entry_fullModelId config) t
                  * int (entry_burndownRate config))"
    unfolding entry_series_single [OF single]
    by (rule single_actual_value) simp_all
next
  assume "has_points store ''AWS/Bedrock'' ''InputTokenCount'' (entry_profile_ids config) t
        \<and> has_points store ''AWS/Bedrock'' ''CacheWriteInputTokenCount'' (entry_profile_ids config) t
        \<and> has_points store ''AWS/Bedrock'' ''OutputTokenCount'' (entry_profile_ids config) t"
  then show "series_value missing store (actualConsumption (entry_series config)) t
          = Some (profile_sum store ''AWS/Bedrock'' ''InputTokenCount'' (entry_profile_ids config) t
                + profile_sum store ''AWS/Bedrock'' ''CacheWriteInputTokenCount'' (entry_profile_ids config) t
                + profile_sum store ''AWS/Bedrock'' ''OutputTokenCount'' (entry_profile_ids config) t
                  * int (entry_burndownRate config))"
    by (intro entry_actual_value) simp_all
qed

lemma single_entry_facts:
  "\<not> hasApplicationProfiles single_entry"
  "entry_fullModelId single_entry = ''global.anthropic.claude-sonnet-4-5-20250929-v1:0''"
  "entry_burndownRate single_entry = 5"
  by (simp_all add: single_entry_def hasApplicationProfiles_def use1_ANTHROPIC_CLAUDE_SONNET_4_5_def)

lemma single_entry_ids:
  "entry_profile_ids single_entry = [''global.anthropic.claude-sonnet-4-5-20250929-v1:0'']"
  using allProfileIds_single [OF single_entry_facts(1)] by (simp add: single_entry_facts(2))

lemma single_store_sums:
  "bucket_sum single_store ''AWS/Bedrock'' ''InputTokenCount'' ''global.anthropic.claude-sonnet-4-5-20250929-v1:0'' 7 = 1000"
  "bucket_sum single_store ''AWS/Bedrock'' ''CacheWriteInputTokenCount'' ''global.anthropic.claude-sonnet-4-5-20250929-v1:0'' 7 = 0"
  "bucket_sum single_store ''AWS/Bedrock'' ''OutputTokenCount'' ''global.anthropic.claude-sonnet-4-5-20250929-v1:0'' 7 = 100"
  "points_of single_store ''Bedrock/Quotas'' ''MaxTokens'' ''global.anthropic.claude-sonnet-4-5-20250929-v1:0'' 1 7 = []"
  by (simp_all add: bucket_sum_def points_of_def single_store_def point_def)

lemma single_store_points:
  "has_points single_store ''AWS/Bedrock'' ''InputTokenCount'' [''global.anthropic.claude-sonnet-4-5-20250929-v1:0''] 7"
  "has_points single_store ''AWS/Bedrock'' ''CacheWriteInputTokenCount'' [''global.anthropic.claude-sonnet-4-5-20250929-v1:0''] 7"
  "has_points single_store ''AWS/Bedrock'' ''OutputTokenCount'' [''global.anthropic.claude-sonnet-4-5-20250929-v1:0''] 7"
  by (simp_all add: has_points_def points_of_def single_store_def point_def)

text \<open>
  Input 1000 (two points, 600 and 400), cache write 0 (one point), output 100, burndown
  rate 5: the series reads 1500, whether a bucket without points reads as zero or has no
  value.
\<close>

theorem actual_consumption_formula_witness:
  "\<not> hasApplicationProfiles single_entry
   \<and> entry_burndownRate single_entry = 5
   \<and> bucket_sum single_store ''AWS/Bedrock'' ''InputTokenCount'' (entry_fullModelId single_entry) 7 = 1000
   \<and> bucket_sum single_store ''AWS/Bedrock'' ''CacheWriteInputTokenCount'' (entry_fullModelId single_entry) 7 = 0
   \<and> bucket_sum single_store ''AWS/Bedrock'' ''OutputTokenCount'' (entry_fullModelId single_entry) 7 = 100
   \<and> has_points single_store ''AWS/Bedrock'' ''InputTokenCount'' (entry_profile_ids single_entry) 7
   \<and> has_points single_store ''AWS/Bedrock'' ''CacheWriteInputTokenCount'' (entry_profile_ids single_entry) 7
   \<and> has_points single_store ''AWS/Bedrock'' ''OutputTokenCount'' (entry_profile_ids single_entry) 7
   \<and> series_value (Some 0) single_store (actualConsumption (entry_series single_entry)) 7 = Some 1500
   \<and> series_value None single_store (actualConsumption (entry_series single_entry)) 7 = Some 1500"
proof -
  note inst = actual_consumption_formula [where store = single_store and config = single_entry
               and t = 7 and missing = None]
  have zero: "series_value (Some 0) single_store (actualConsumption (entry_series single_entry)) 7 = Some 1500"
    using inst [THEN conjunct2, THEN conjunct1, rule_format, OF single_entry_facts(1)]
    by (simp add: single_entry_facts single_store_sums)
  have pts: "has_points single_store ''AWS/Bedrock'' ''InputTokenCount'' (entry_profile_ids single_entry) 7
        \<and> has_points single_store ''AWS/Bedrock'' ''CacheWriteInputTokenCount'' (entry_profile_ids single_entry) 7
        \<and> has_points single_store ''AWS/Bedrock'' ''OutputTokenCount'' (entry_profile_ids single_entry) 7"
    unfolding single_entry_ids by (intro conjI single_store_points)
  have none: "series_value None single_store (actualConsumption (entry_series single_entry)) 7 = Some 1500"
    using inst [THEN conjunct2, THEN conjunct2, rule_format, OF pts]
    unfolding single_entry_ids
    by (simp add: single_entry_facts single_store_sums)
  from zero none pts show ?thesis
    by (simp add: single_entry_facts single_store_sums)
qed
section \<open>Aggregation over application profiles\<close>

lemma sum_list_formula:
  "sum_list (map (\<lambda>pid. f pid + g pid + h pid * r) ids)
     = sum_list (map f ids) + sum_list (map g ids) + sum_list (map h ids) * (r :: int)"
  by (induction ids) (simp_all add: algebra_simps)

text \<open>
  C2. For an entry with a non-empty list of application profile ids, in every time
  bucket: Actual Consumption is the input-token sum plus the cache-write sum plus the
  output-token sum times the entry's one burndown rate, each sum taken over the full
  model id and all the application profile ids (equivalently, the sum over these
  identities of input + cache write + output times the rate); Initial Reservation is the
  input sum plus the cache-write sum plus the requested-maximum sum; and the request
  series is the sum of the invocation counts. This holds in every bucket when the store
  reads a bucket without points as zero, and, whatever the store reads there, for each
  series in every bucket in which each counter of the series has a point for each of the
  identities.
\<close>

theorem aggregated_series_formula:
  assumes "applicationProfileIds config = Some aux" and "aux \<noteq> []"
  shows "series_value (Some 0) store (actualConsumption (entry_series config)) t
           = Some (profile_sum store ''AWS/Bedrock'' ''InputTokenCount'' (entry_fullModelId config # aux) t
                 + profile_sum store ''AWS/Bedrock'' ''CacheWriteInputTokenCount'' (entry_fullModelId config # aux) t
                 + profile_sum store ''AWS/Bedrock'' ''OutputTokenCount'' (entry_fullModelId config # aux) t
                   * int (entry_burndownRate config))
       \<and> series_value (Some 0) store (actualConsumption (entry_series config)) t
           = Some (sum_list (map (\<lambda>pid. bucket_sum store ''AWS/Bedrock'' ''InputTokenCount'' pid t
                                      + bucket_sum store ''AWS/Bedrock'' ''CacheWriteInputTokenCount'' pid t
                                      + bucket_sum store ''AWS/Bedrock'' ''OutputTokenCount'' pid t
                                        * int (entry_burndownRate config))
                             (entry_fullModelId config # aux)))
       \<and> series_value (Some 0) store (initialReservation (entry_series config)) t
           = Some (profile_sum store ''AWS/Bedrock'' ''InputTokenCount'' (entry_fullModelId config # aux) t
                 + profile_sum store ''AWS/Bedrock'' ''CacheWriteInputTokenCount'' (entry_fullModelId config # aux) t
                 + profile_sum store ''Bedrock/Quotas'' ''MaxTokens'' (entry_fullModelId config # aux) t)
       \<and> series_value (Some 0) store (totalInvocations (entry_series config)) t
           = Some (profile_sum store ''AWS/Bedrock'' ''Invocations'' (entry_fullModelId config # aux) t)
       \<and> (has_points store ''AWS/Bedrock'' ''InputTokenCount'' (entry_fullModelId config # aux) t
            \<and> has_points store ''AWS/Bedrock'' ''CacheWriteInputTokenCount'' (entry_fullModelId config # aux) t
            \<and> has_points store ''AWS/Bedrock'' ''OutputTokenCount'' (entry_fullModelId config # aux) t \<longrightarrow>
            series_value missing store (actualConsumption (entry_series config)) t
              = Some (sum_list (map (\<lambda>pid. bucket_sum store ''AWS/Bedrock'' ''InputTokenCount'' pid t
                                         + bucket_sum store ''AWS/Bedrock'' ''CacheWriteInputTokenCount'' pid t
                                         + bucket_sum store ''AWS/Bedrock'' ''OutputTokenCount'' pid t
                                           * int (entry_burndownRate config))
                                (entry_fullModelId config # aux))))
       \<and> (has_points store ''AWS/Bedrock'' ''InputTokenCount'' (entry_fullModelId config # aux) t
            \<and> has_points store ''AWS/Bedrock'' ''CacheWriteInputTokenCount'' (entry_fullModelId config # aux) t
            \<and> has_points store ''Bedrock/Quotas'' ''MaxTokens'' (entry_fullModelId config # aux) t \<longrightarrow>
            series_value missing store (initialReservation (entry_series config)) t
              = Some (profile_sum store ''AWS/Bedrock'' ''InputTokenCount'' (entry_fullModelId config # aux) t
                    + profile_sum store ''AWS/Bedrock'' ''CacheWriteInputTokenCount'' (entry_fullModelId config # aux) t
                    + profile_sum store ''Bedrock/Quotas'' ''MaxTokens'' (entry_fullModelId config # aux) t))
       \<and> (has_points store ''AWS/Bedrock'' ''Invocations'' (entry_fullModelId config # aux) t \<longrightarrow>
            series_value missing store (totalInvocations (entry_series config)) t
              = Some (profile_sum store ''AWS/Bedrock'' ''Invocations'' (entry_fullModelId config # aux) t))"
proof -
  have has: "hasApplicationProfiles config"
    using assms by (simp add: hasApplicationProfiles_def)
  have ids: "entry_profile_ids config = entry_fullModelId config # aux"
    using assms has by (simp add: allProfileIds_def)
  have a: "series_value m store (actualConsumption (entry_series config)) t
           = Some (profile_sum store ''AWS/Bedrock'' ''InputTokenCount'' (entry_fullModelId config # aux) t
                 + profile_sum store ''AWS/Bedrock'' ''CacheWriteInputTokenCount'' (entry_fullModelId config # aux) t
                 + profile_sum store ''AWS/Bedrock'' ''OutputTokenCount'' (entry_fullModelId config # aux) t
                   * int (entry_burndownRate config))"
    if "m = Some 0 \<or> has_points store ''AWS/Bedrock'' ''InputTokenCount'' (entry_fullModelId config # aux) t"
      and "m = Some 0 \<or> has_points store ''AWS/Bedrock'' ''CacheWriteInputTokenCount'' (entry_fullModelId config # aux) t"
      and "m = Some 0 \<or> has_points store ''AWS/Bedrock'' ''OutputTokenCount'' (entry_fullModelId config # aux) t"
    for m
    using entry_actual_value [of m store config t] that unfolding ids by blast
  have i: "series_value m store (initialReservation (entry_series config)) t
           = Some (profile_sum store ''AWS/Bedrock'' ''InputTokenCount'' (entry_fullModelId config # aux) t
                 + profile_sum store ''AWS/Bedrock'' ''CacheWriteInputTokenCount'' (entry_fullModelId config # aux) t
                 + profile_sum store ''Bedrock/Quotas'' ''MaxTokens'' (entry_fullModelId config # aux) t)"
    if "m = Some 0 \<or> has_points store ''AWS/Bedrock'' ''InputTokenCount'' (entry_fullModelId config # aux) t"
      and "m = Some 0 \<or> has_points store ''AWS/Bedrock'' ''CacheWriteInputTokenCount'' (entry_fullModelId config # aux) t"
      and "m = Some 0 \<or> has_points store ''Bedrock/Quotas'' ''MaxTokens'' (entry_fullModelId config # aux) t"
    for m
    using entry_initial_value [of m store config t] that unfolding ids by blast
  have n: "series_value m store (totalInvocations (entry_series config)) t
           = Some (profile_sum store ''AWS/Bedrock'' ''Invocations'' (entry_fullModelId config # aux) t)"
    if "m = Some 0 \<or> has_points store ''AWS/Bedrock'' ''Invocations'' (entry_fullModelId config # aux) t"
    for m
    using entry_invocations_value [of m store config t] that unfolding ids by blast
  have a': "series_value m store (actualConsumption (entry_series config)) t
           = Some (sum_list (map (\<lambda>pid. bucket_sum store ''AWS/Bedrock'' ''InputTokenCount'' pid t
                                      + bucket_sum store ''AWS/Bedrock'' ''CacheWriteInputTokenCount'' pid t
                                      + bucket_sum store ''AWS/Bedrock'' ''OutputTokenCount'' pid t
                                        * int (entry_burndownRate config))
                             (entry_fullModelId config # aux)))"
    if "m = Some 0 \<or> has_points store ''AWS/Bedrock'' ''InputTokenCount'' (entry_fullModelId config # aux) t"
      and "m = Some 0 \<or> has_points store ''AWS/Bedrock'' ''CacheWriteInputTokenCount'' (entry_fullModelId config # aux) t"
      and "m = Some 0 \<or> has_points store ''AWS/Bedrock'' ''OutputTokenCount'' (entry_fullModelId config # aux) t"
    for m
    by (simp only: a [OF that] profile_sum_def sum_list_formula)
  show ?thesis
  proof (intro conjI impI)
    show "series_value (Some 0) store (actualConsumption (entry_series config)) t
           = Some (profile_sum store ''AWS/Bedrock'' ''InputTokenCount'' (entry_fullModelId config # aux) t
                 + profile_sum store ''AWS/Bedrock'' ''CacheWriteInputTokenCount'' (entry_fullModelId config # aux) t
                 + profile_sum store ''AWS/Bedrock'' ''OutputTokenCount'' (entry_fullModelId config # aux) t
                   * int (entry_burndownRate config))"
      by (rule a) simp_all
    show "series_value (Some 0) store (actualConsumption (entry_series config)) t
           = Some (sum_list (map (\<lambda>pid. bucket_sum store ''AWS/Bedrock'' ''InputTokenCount'' pid t
                                      + bucket_sum store ''AWS/Bedrock'' ''CacheWriteInputTokenCount'' pid t
                                      + bucket_sum store ''AWS/Bedrock'' ''OutputTokenCount'' pid t
                                        * int (entry_burndownRate config))
                             (entry_fullModelId config # aux)))"
      by (rule a') simp_all
    show "series_value (Some 0) store (initialReservation (entry_series config)) t
           = Some (profile_sum store ''AWS/Bedrock'' ''InputTokenCount'' (entry_fullModelId config # aux) t
                 + profile_sum store ''AWS/Bedrock'' ''CacheWriteInputTokenCount'' (entry_fullModelId config # aux) t
                 + profile_sum store ''Bedrock/Quotas'' ''MaxTokens'' (entry_fullModelId config # aux) t)"
      by (rule i) simp_all
    show "series_value (Some 0) store (totalInvocations (entry_series config)) t
           = Some (profile_sum store ''AWS/Bedrock'' ''Invocations'' (entry_fullModelId config # aux) t)"
      by (rule n) simp
  next
    assume "has_points store ''AWS/Bedrock'' ''InputTokenCount'' (entry_fullModelId config # aux) t
            \<and> has_points store ''AWS/Bedrock'' ''CacheWriteInputTokenCount'' (entry_fullModelId config # aux) t
            \<and> has_points store ''AWS/Bedrock'' ''OutputTokenCount'' (entry_fullModelId config # aux) t"
    then show "series_value missing store (actualConsumption (entry_series config)) t
              = Some (sum_list (map (\<lambda>pid. bucket_sum store ''AWS/Bedrock'' ''InputTokenCount'' pid t
                                         + bucket_sum store ''AWS/Bedrock'' ''CacheWriteInputTokenCount'' pid t
                                         + bucket_sum store ''AWS/Bedrock'' ''OutputTokenCount'' pid t
                                           * int (entry_burndownRate config))
                                (entry_fullModelId config # aux)))"
      by (intro a') simp_all
  next
    assume "has_points store ''AWS/Bedrock'' ''InputTokenCount'' (entry_fullModelId config # aux) t
            \<and> has_points store ''AWS/Bedrock'' ''CacheWriteInputTokenCount'' (entry_fullModelId config # aux) t
            \<and> has_points store ''Bedrock/Quotas'' ''MaxTokens'' (entry_fullModelId config # aux) t"
    then show "series_value missing store (initialReservation (entry_series config)) t
              = Some (profile_sum store ''AWS/Bedrock'' ''InputTokenCount'' (entry_fullModelId config # aux) t
                    + profile_sum store ''AWS/Bedrock'' ''CacheWriteInputTokenCount'' (entry_fullModelId config # aux) t
                    + profile_sum store ''Bedrock/Quotas'' ''MaxTokens'' (entry_fullModelId config # aux) t)"
      by (intro i) simp_all
  next
    assume "has_points store ''AWS/Bedrock'' ''Invocations'' (entry_fullModelId config # aux) t"
    then show "series_value missing store (totalInvocations (entry_series config)) t
              = Some (profile_sum store ''AWS/Bedrock'' ''Invocations'' (entry_fullModelId config # aux) t)"
      by (intro n) simp
  qed
qed

lemma aggregated_entry_facts:
  "applicationProfileIds aggregated_entry = Some [''grjihoh0los8'']"
  "entry_fullModelId aggregated_entry = ''us.amazon.nova-lite-v1:0''"
  "entry_burndownRate aggregated_entry = 1"
  by (simp_all add: aggregated_entry_def use1_AMAZON_NOVA_LITE_V1_def)

lemma aggregated_store_sums:
  "bucket_sum aggregated_store ''AWS/Bedrock'' ''InputTokenCount'' ''us.amazon.nova-lite-v1:0'' 3 = 500"
  "bucket_sum aggregated_store ''AWS/Bedrock'' ''CacheWriteInputTokenCount'' ''us.amazon.nova-lite-v1:0'' 3 = 0"
  "bucket_sum aggregated_store ''AWS/Bedrock'' ''OutputTokenCount'' ''us.amazon.nova-lite-v1:0'' 3 = 50"
  "bucket_sum aggregated_store ''AWS/Bedrock'' ''Invocations'' ''us.amazon.nova-lite-v1:0'' 3 = 2"
  "bucket_sum aggregated_store ''AWS/Bedrock'' ''InputTokenCount'' ''grjihoh0los8'' 3 = 300"
  "bucket_sum aggregated_store ''AWS/Bedrock'' ''CacheWriteInputTokenCount'' ''grjihoh0los8'' 3 = 0"
  "bucket_sum aggregated_store ''AWS/Bedrock'' ''OutputTokenCount'' ''grjihoh0los8'' 3 = 20"
  "bucket_sum aggregated_store ''AWS/Bedrock'' ''Invocations'' ''grjihoh0los8'' 3 = 2"
  "bucket_sum aggregated_store ''Bedrock/Quotas'' ''MaxTokens'' ''us.amazon.nova-lite-v1:0'' 3 = 1000"
  "bucket_sum aggregated_store ''Bedrock/Quotas'' ''MaxTokens'' ''grjihoh0los8'' 3 = 500"
  by (simp_all add: bucket_sum_def points_of_def aggregated_store_def point_def)

lemma aggregated_store_points:
  "has_points aggregated_store ''AWS/Bedrock'' ''InputTokenCount'' [''us.amazon.nova-lite-v1:0'', ''grjihoh0los8''] 3"
  "has_points aggregated_store ''AWS/Bedrock'' ''CacheWriteInputTokenCount'' [''us.amazon.nova-lite-v1:0'', ''grjihoh0los8''] 3"
  "has_points aggregated_store ''AWS/Bedrock'' ''OutputTokenCount'' [''us.amazon.nova-lite-v1:0'', ''grjihoh0los8''] 3"
  "has_points aggregated_store ''Bedrock/Quotas'' ''MaxTokens'' [''us.amazon.nova-lite-v1:0'', ''grjihoh0los8''] 3"
  "has_points aggregated_store ''AWS/Bedrock'' ''Invocations'' [''us.amazon.nova-lite-v1:0'', ''grjihoh0los8''] 3"
  by (simp_all add: has_points_def points_of_def aggregated_store_def point_def)

text \<open>
  A system profile with (500, 0, 50) and one application profile with (300, 0, 20) at
  burndown rate 1, every counter with a point for both: Actual Consumption reads 870
  whether a bucket without points reads as zero or has no value. With requested maxima
  of 1000 and 500, Initial Reservation reads 2300; the four invocations give 4.
\<close>

theorem aggregated_series_formula_witness:
  "applicationProfileIds aggregated_entry = Some [''grjihoh0los8'']
   \<and> entry_burndownRate aggregated_entry = 1
   \<and> series_value (Some 0) aggregated_store (actualConsumption (entry_series aggregated_entry)) 3 = Some 870
   \<and> series_value (Some 0) aggregated_store (initialReservation (entry_series aggregated_entry)) 3 = Some 2300
   \<and> series_value (Some 0) aggregated_store (totalInvocations (entry_series aggregated_entry)) 3 = Some 4
   \<and> series_value None aggregated_store (actualConsumption (entry_series aggregated_entry)) 3 = Some 870
   \<and> series_value None aggregated_store (initialReservation (entry_series aggregated_entry)) 3 = Some 2300
   \<and> series_value None aggregated_store (totalInvocations (entry_series aggregated_entry)) 3 = Some 4"
  using aggregated_series_formula [where config = aggregated_entry and aux = "[''grjihoh0los8'']"
          and store = aggregated_store and t = 3 and missing = None,
          OF aggregated_entry_facts(1)]
  by (simp add: aggregated_entry_facts aggregated_store_sums aggregated_store_points profile_sum_def)

section \<open>A bucket without requested-maximum points\<close>

text \<open>
  The stack composes Initial Reservation as \<open>inputTokens + cacheWriteTokens + maxTokens\<close>
  over three \<open>Sum\<close> metrics, with no fill and no guard on \<open>maxTokens\<close>. In a bucket in
  which the requested-maximum counter has no point, the value of the series is therefore
  whatever the store makes of such a bucket: input plus cache write when it reads the
  bucket as zero, and no value when it has no value for the bucket. The code of the stack
  does not choose between the two.
\<close>

lemma initial_reservation_follows_reading:
  assumes "\<not> hasApplicationProfiles config"
    and "points_of store ''Bedrock/Quotas'' ''MaxTokens'' (entry_fullModelId config) 1 t = []"
  shows "series_value (Some 0) store (initialReservation (entry_series config)) t
           = Some (bucket_sum store ''AWS/Bedrock'' ''InputTokenCount'' (entry_fullModelId config) t
                 + bucket_sum store ''AWS/Bedrock'' ''CacheWriteInputTokenCount'' (entry_fullModelId config) t)"
    and "series_value None store (initialReservation (entry_series config)) t = None"
proof -
  have zero: "bucket_sum store ''Bedrock/Quotas'' ''MaxTokens'' (entry_fullModelId config) t = 0"
    using assms(2) by (simp add: bucket_sum_def)
  have "series_value (Some 0) store (initialReservation (entry_series config)) t
          = Some (bucket_sum store ''AWS/Bedrock'' ''InputTokenCount'' (entry_fullModelId config) t
                + bucket_sum store ''AWS/Bedrock'' ''CacheWriteInputTokenCount'' (entry_fullModelId config) t
                + bucket_sum store ''Bedrock/Quotas'' ''MaxTokens'' (entry_fullModelId config) t)"
    unfolding entry_series_single [OF assms(1)]
    by (rule single_initial_value) simp_all
  then show "series_value (Some 0) store (initialReservation (entry_series config)) t
           = Some (bucket_sum store ''AWS/Bedrock'' ''InputTokenCount'' (entry_fullModelId config) t
                 + bucket_sum store ''AWS/Bedrock'' ''CacheWriteInputTokenCount'' (entry_fullModelId config) t)"
    by (simp add: zero)
  let ?pid = "entry_fullModelId config"
  let ?b = "[(''inputTokens'', inputTokens (createProfileMetrics ?pid)),
             (''cacheWriteTokens'', cacheWriteTokens (createProfileMetrics ?pid)),
             (''maxTokens'', maxTokens (createProfileMetrics ?pid))]"
  have none: "variable_value None store ?b t ''maxTokens'' = None"
    using assms(2)
    by (simp add: variable_value_def createProfileMetrics_def read_metric_def usage_metric_def)
  have "series_value None store (initialReservation (entry_series config)) t
          = (case parse_expression ''inputTokens + cacheWriteTokens + maxTokens''
               of None \<Rightarrow> None
             | Some e \<Rightarrow> eval_mexpr (variable_value None store ?b t) e)"
    by (simp only: entry_series_single [OF assms(1)] single_series_def EntrySeries.select_convs
          series_value.simps eval_expression_def MathExpression.select_convs)
  also have "\<dots> = eval_mexpr (variable_value None store ?b t)
                     (Add (Add (Var ''inputTokens'') (Var ''cacheWriteTokens'')) (Var ''maxTokens''))"
    by (simp only: parse_single_initial option.case)
  also have "\<dots> = None"
    by (simp add: none split: option.splits)
  finally show "series_value None store (initialReservation (entry_series config)) t = None" .
qed

text \<open>
  Minute 7 of the example store has input 1000, cache write 0 and no requested maximum:
  Initial Reservation reads 1000 under the zero reading and has no value under the other.
\<close>

lemma initial_reservation_follows_reading_example:
  "points_of single_store ''Bedrock/Quotas'' ''MaxTokens'' (entry_fullModelId single_entry) 1 7 = []
   \<and> series_value (Some 0) single_store (initialReservation (entry_series single_entry)) 7 = Some 1000
   \<and> series_value None single_store (initialReservation (entry_series single_entry)) 7 = None"
proof -
  have empty: "points_of single_store ''Bedrock/Quotas'' ''MaxTokens'' (entry_fullModelId single_entry) 1 7 = []"
    unfolding single_entry_facts(2) by (rule single_store_sums(4))
  from initial_reservation_follows_reading [OF single_entry_facts(1) empty] empty show ?thesis
    by (simp add: single_entry_facts single_store_sums)
qed
section \<open>Declaration order and family banners\<close>

lemma banner_layout_getModelFamily:
  "banner_layout prev (config # configs) =
     (if Some (getModelFamily (modelId (modelConfig config))) \<noteq> prev
      then [[family_banner (getModelFamily (modelId (modelConfig config)))], entry_widgets config]
      else [entry_widgets config])
     @ banner_layout (Some (getModelFamily (modelId (modelConfig config)))) configs"
  by (simp only: banner_layout.simps getModelFamily_longest)

lemma banner_layout_same_family:
  "\<forall>c \<in> set configs. getModelFamily (modelId (modelConfig c)) = family \<Longrightarrow>
     banner_layout (Some family) configs = map entry_widgets configs"
  by (induction configs) (simp_all add: banner_layout_getModelFamily del: banner_layout.simps(2))

lemma skipped_between_entries:
  "has_quota_codes nova_lite_entry" "\<not> has_quota_codes no_codes_entry"
  "has_quota_codes nova_pro_entry"
  "getModelFamily (modelId (modelConfig nova_lite_entry)) = ''Amazon Nova''"
  "getModelFamily (modelId (modelConfig no_codes_entry)) = ''Anthropic Claude''"
  "getModelFamily (modelId (modelConfig nova_pro_entry)) = ''Amazon Nova''"
  by (simp_all add: nova_lite_entry_def no_codes_entry_def nova_pro_entry_def has_quota_codes_def
        no_codes_model_def getModelFamily_def use1_AMAZON_NOVA_LITE_V1_def use1_AMAZON_NOVA_PRO_V1_def)

lemma skipped_between_valid: "validateAllDashboardConfigs skipped_between = Inr ()"
  by (simp add: validateAllDashboardConfigs_def skipped_between_def validateModelEndpointSupport_def
        nova_lite_entry_def no_codes_entry_def nova_pro_entry_def
        no_codes_model_def use1_AMAZON_NOVA_LITE_V1_def use1_AMAZON_NOVA_PRO_V1_def)

lemma skipped_between_rendered:
  "banner_layout None (filter has_quota_codes skipped_between)
     = [[family_banner ''Amazon Nova''], entry_widgets nova_lite_entry, entry_widgets nova_pro_entry]"
  by (simp add: skipped_between_def banner_layout_getModelFamily skipped_between_entries
        del: banner_layout.simps(2))

text \<open>
  C7 as stated fails on a list with an entry the loop skips. The middle entry of
  \<open>skipped_between\<close> passes validation (its endpoint kind is in the supported list)
  but has no quota codes, so the loop returns before the banner logic: it gets no row
  and no banner, and the family tracking keeps the family of the entry before it. The
  third entry's family differs from the second's, yet no banner precedes it.
\<close>

theorem banner_after_skipped_entry_counterexample:
  "validateAllDashboardConfigs skipped_between = Inr ()
   \<and> getModelFamily (modelId (modelConfig nova_pro_entry))
       \<noteq> getModelFamily (modelId (modelConfig no_codes_entry))
   \<and> dashboard (render_all skipped_between)
       = [[family_banner ''Amazon Nova''], entry_widgets nova_lite_entry, entry_widgets nova_pro_entry]
   \<and> banner_layout None skipped_between
       = [[family_banner ''Amazon Nova''], entry_widgets nova_lite_entry,
          [family_banner ''Anthropic Claude''], entry_widgets no_codes_entry,
          [family_banner ''Amazon Nova''], entry_widgets nova_pro_entry]
   \<and> dashboard (render_all skipped_between) \<noteq> banner_layout None skipped_between"
proof -
  have d: "dashboard (render_all skipped_between)
       = [[family_banner ''Amazon Nova''], entry_widgets nova_lite_entry, entry_widgets nova_pro_entry]"
    by (simp only: render_all_layout skipped_between_rendered)
  have b: "banner_layout None skipped_between
       = [[family_banner ''Amazon Nova''], entry_widgets nova_lite_entry,
          [family_banner ''Anthropic Claude''], entry_widgets no_codes_entry,
          [family_banner ''Amazon Nova''], entry_widgets nova_pro_entry]"
    by (simp add: skipped_between_def banner_layout_getModelFamily skipped_between_entries
          del: banner_layout.simps(2))
  have "length (dashboard (render_all skipped_between)) \<noteq> length (banner_layout None skipped_between)"
    unfolding d b by simp
  then have n: "dashboard (render_all skipped_between) \<noteq> banner_layout None skipped_between"
    by auto
  from skipped_between_valid d b n show ?thesis
    by (simp add: skipped_between_entries)
qed

text \<open>
  C7, amended. The rows of the dashboard are those of the entries that have quota codes,
  in declaration order (an entry without quota codes is skipped and does not affect the
  banners), and a family banner comes immediately before an entry's row exactly when
  the entry's family differs from the family of the previous entry that was rendered
  (always before the first one). The family is the label of the longest matching prefix
  of the model id among the fifteen rules, with \<open>Other Models\<close> as the catch-all.
  The grouping follows the order of the list; nothing is sorted. When every entry has
  quota codes this is the layout over the whole list.
\<close>

theorem family_banners_follow_rendered_entries:
  "dashboard (render_all configs) = banner_layout None (filter has_quota_codes configs)
   \<and> getModelFamily mid = longest_prefix_family mid
   \<and> ((\<forall>c \<in> set configs. has_quota_codes c) \<longrightarrow>
        dashboard (render_all configs) = banner_layout None configs)"
proof (intro conjI impI)
  show "dashboard (render_all configs) = banner_layout None (filter has_quota_codes configs)"
    by (rule render_all_layout)
  show "getModelFamily mid = longest_prefix_family mid"
    by (rule getModelFamily_longest)
next
  assume "\<forall>c \<in> set configs. has_quota_codes c"
  then have "filter has_quota_codes configs = configs"
    by (simp add: filter_id_conv)
  with render_all_layout [of configs]
  show "dashboard (render_all configs) = banner_layout None configs"
    by simp
qed

lemma allDashboardConfigs_families:
  "\<forall>c \<in> set allDashboardConfigs. has_quota_codes c"
  "getModelFamily (modelId (modelConfig (hd allDashboardConfigs))) = ''Amazon Nova''"
  "\<forall>c \<in> set (tl allDashboardConfigs). getModelFamily (modelId (modelConfig c)) = ''Anthropic Claude''"
  "allDashboardConfigs = hd allDashboardConfigs # hd (tl allDashboardConfigs) # tl (tl allDashboardConfigs)"
  "tl allDashboardConfigs = hd (tl allDashboardConfigs) # tl (tl allDashboardConfigs)"
  "getModelFamily (modelId (modelConfig (hd (tl allDashboardConfigs)))) = ''Anthropic Claude''"
  "\<forall>c \<in> set (tl (tl allDashboardConfigs)). getModelFamily (modelId (modelConfig c)) = ''Anthropic Claude''"
  by (simp_all add: allDashboardConfigs_def has_quota_codes_def getModelFamily_def registry_defs)

text \<open>
  The entry list of the stack: one Amazon Nova banner, the first entry, one Anthropic
  Claude banner, the seven other entries. And the list with the skipped entry.
\<close>

theorem family_banners_follow_rendered_entries_witness:
  "dashboard (render_all allDashboardConfigs)
     = [family_banner ''Amazon Nova''] # entry_widgets (hd allDashboardConfigs)
       # [family_banner ''Anthropic Claude''] # map entry_widgets (tl allDashboardConfigs)
   \<and> dashboard (render_all skipped_between)
     = [[family_banner ''Amazon Nova''], entry_widgets nova_lite_entry, entry_widgets nova_pro_entry]"
proof -
  let ?c0 = "hd allDashboardConfigs" and ?c1 = "hd (tl allDashboardConfigs)"
    and ?rest = "tl (tl allDashboardConfigs)"
  note tl = allDashboardConfigs_families(5) and c1 = allDashboardConfigs_families(6)
    and rest = allDashboardConfigs_families(7)
  have "dashboard (render_all allDashboardConfigs) = banner_layout None allDashboardConfigs"
    using family_banners_follow_rendered_entries [of allDashboardConfigs] allDashboardConfigs_families(1)
    by blast
  also have "\<dots> = banner_layout None (?c0 # ?c1 # ?rest)"
    by (subst allDashboardConfigs_families(4)) (rule refl)
  also have "\<dots> = [family_banner ''Amazon Nova''] # entry_widgets ?c0
       # [family_banner ''Anthropic Claude''] # entry_widgets ?c1 # map entry_widgets ?rest"
    by (simp add: banner_layout_getModelFamily allDashboardConfigs_families(2) c1
          banner_layout_same_family [OF rest] del: banner_layout.simps(2))
  also have "entry_widgets ?c1 # map entry_widgets ?rest = map entry_widgets (tl allDashboardConfigs)"
    by (subst (2) tl) simp
  finally have a: "dashboard (render_all allDashboardConfigs)
     = [family_banner ''Amazon Nova''] # entry_widgets (hd allDashboardConfigs)
       # [family_banner ''Anthropic Claude''] # map entry_widgets (tl allDashboardConfigs)" .
  have "dashboard (render_all skipped_between) = banner_layout None (filter has_quota_codes skipped_between)"
    using family_banners_follow_rendered_entries [of skipped_between] by blast
  then have b: "dashboard (render_all skipped_between)
     = [[family_banner ''Amazon Nova''], entry_widgets nova_lite_entry, entry_widgets nova_pro_entry]"
    by (simp only: skipped_between_rendered)
  from a b show ?thesis by (rule conjI)
qed

section \<open>The full model id\<close>

lemma set_alist_update: "set (AList.update k v al) \<subseteq> insert (k, v) (set al)"
  by (induction al) auto

lemma agg_step_dimensions:
  assumes "\<forall>(x, m) \<in> set (agg_usingMetrics st). dimensionsMap_ModelId m \<in> S"
    and "metrics pe = createProfileMetrics pid" and "pid \<in> S"
  shows "\<forall>(x, m) \<in> set (agg_usingMetrics (agg_step pe st)). dimensionsMap_ModelId m \<in> S"
proof -
  have step: "\<forall>(x, m) \<in> set (AList.update k (usage_metric ns name pid) al). dimensionsMap_ModelId m \<in> S"
    if "\<forall>(x, m) \<in> set al. dimensionsMap_ModelId m \<in> S" for k ns name al
    using that set_alist_update [of k "usage_metric ns name pid" al] assms(3)
    by (auto simp: usage_metric_def)
  show ?thesis
    unfolding agg_step_def Let_def AggState.select_convs assms(2) createProfileMetrics_def
      ProfileMetrics.select_convs
    by (intro step assms(1))
qed

lemma aggregate_dimensions_subset:
  assumes "\<forall>(x, m) \<in> set (agg_usingMetrics st). dimensionsMap_ModelId m \<in> S"
    and "\<forall>pe \<in> set pes. metrics pe = createProfileMetrics (profile_id pe) \<and> profile_id pe \<in> S"
  shows "\<forall>(x, m) \<in> set (agg_usingMetrics (fold agg_step pes st)). dimensionsMap_ModelId m \<in> S"
  using assms
proof (induction pes arbitrary: st)
  case Nil
  then show ?case by simp
next
  case (Cons pe pes)
  from Cons.prems have "\<forall>(x, m) \<in> set (agg_usingMetrics (agg_step pe st)). dimensionsMap_ModelId m \<in> S"
    by (intro agg_step_dimensions [where pid = "profile_id pe"]) simp_all
  with Cons.IH [of "agg_step pe st"] Cons.prems(2) show ?case
    by simp
qed

lemma aggregate_dimensions:
  assumes "ids \<noteq> []"
  shows "set (map (\<lambda>(x, m). dimensionsMap_ModelId m) (agg_usingMetrics (aggregate (allProfileMetrics ids))))
           = set ids"
proof
  have "\<forall>pe \<in> set (allProfileMetrics ids).
          metrics pe = createProfileMetrics (profile_id pe) \<and> profile_id pe \<in> set ids"
    using allProfileMetrics_ids [of ids] allProfileMetrics_metrics [of _ ids]
    by (metis image_eqI set_map)
  from aggregate_dimensions_subset [of agg_init "set ids", OF _ this]
  show "set (map (\<lambda>(x, m). dimensionsMap_ModelId m) (agg_usingMetrics (aggregate (allProfileMetrics ids))))
           \<subseteq> set ids"
    by (auto simp: aggregate_def agg_init_def)
next
  show "set ids \<subseteq> set (map (\<lambda>(x, m). dimensionsMap_ModelId m)
                         (agg_usingMetrics (aggregate (allProfileMetrics ids))))"
  proof
    fix pid assume "pid \<in> set ids"
    then obtain pe where pe: "pe \<in> set (allProfileMetrics ids)" and pid: "profile_id pe = pid"
      using allProfileMetrics_ids [of ids] by (metis (no_types, lifting) image_iff set_map)
    from aggregate_bindings(1) [OF pe]
    have "(var_name ''inputTokens'' pe, usage_metric ''AWS/Bedrock'' ''InputTokenCount'' pid)
            \<in> set (agg_usingMetrics (aggregate (allProfileMetrics ids)))"
      unfolding pid by (rule map_of_SomeD)
    then have "(\<lambda>(x, m). dimensionsMap_ModelId m)
                 (var_name ''inputTokens'' pe, usage_metric ''AWS/Bedrock'' ''InputTokenCount'' pid)
            \<in> (\<lambda>(x, m). dimensionsMap_ModelId m) ` set (agg_usingMetrics (aggregate (allProfileMetrics ids)))"
      by (rule imageI)
    then show "pid \<in> set (map (\<lambda>(x, m). dimensionsMap_ModelId m)
                            (agg_usingMetrics (aggregate (allProfileMetrics ids))))"
      by (simp add: usage_metric_def)
  qed
qed

text \<open>The series of an entry's three widgets, and the model ids each of them reads.\<close>

lemma entry_widget_series:
  "map widget_series (entry_widgets config)
     = [[initialReservation (entry_series config), tokenQuotaLine (entry_fullModelId config)],
        [actualConsumption (entry_series config), tokenQuotaLine (entry_fullModelId config)],
        [totalInvocations (entry_series config), requestQuotaLine (entry_fullModelId config)]]"
  by (simp add: entry_widgets_def Let_def)

lemma quota_line_dimensions:
  "series_dimensions (tokenQuotaLine fullModelId) = [fullModelId]"
  "series_dimensions (requestQuotaLine fullModelId) = [fullModelId]"
  by (simp_all add: tokenQuotaLine_def requestQuotaLine_def tokenQuotaMetric_def
        requestQuotaMetric_def quota_metric_def)

lemma single_series_dimensions:
  "series_dimensions (initialReservation (single_series r (createProfileMetrics pid))) = [pid, pid, pid]"
  "series_dimensions (actualConsumption (single_series r (createProfileMetrics pid))) = [pid, pid, pid]"
  "series_dimensions (totalInvocations (single_series r (createProfileMetrics pid))) = [pid]"
  by (simp_all add: single_series_def createProfileMetrics_def usage_metric_def)

lemma aggregated_series_dimensions:
  assumes "ids \<noteq> []"
  shows "set (series_dimensions (initialReservation (aggregated_series r ids))) = set ids"
    and "set (series_dimensions (actualConsumption (aggregated_series r ids))) = set ids"
    and "set (series_dimensions (totalInvocations (aggregated_series r ids))) = set ids"
  using aggregate_dimensions [OF assms]
  by (simp_all add: aggregated_series_def Let_def)

lemma entry_series_dimensions:
  "set (series_dimensions (initialReservation (entry_series config))) = set (entry_profile_ids config)"
  "set (series_dimensions (actualConsumption (entry_series config))) = set (entry_profile_ids config)"
  "set (series_dimensions (totalInvocations (entry_series config))) = set (entry_profile_ids config)"
proof -
  show "set (series_dimensions (initialReservation (entry_series config))) = set (entry_profile_ids config)"
  proof (cases "hasApplicationProfiles config")
    case True
    show ?thesis
      unfolding entry_series_aggregated [OF True]
      by (rule aggregated_series_dimensions(1) [OF allProfileIds_nonempty])
  next
    case False
    show ?thesis
      unfolding entry_series_single [OF False] allProfileIds_single [OF False]
      by (simp add: single_series_dimensions)
  qed
  show "set (series_dimensions (actualConsumption (entry_series config))) = set (entry_profile_ids config)"
  proof (cases "hasApplicationProfiles config")
    case True
    show ?thesis
      unfolding entry_series_aggregated [OF True]
      by (rule aggregated_series_dimensions(2) [OF allProfileIds_nonempty])
  next
    case False
    show ?thesis
      unfolding entry_series_single [OF False] allProfileIds_single [OF False]
      by (simp add: single_series_dimensions)
  qed
  show "set (series_dimensions (totalInvocations (entry_series config))) = set (entry_profile_ids config)"
  proof (cases "hasApplicationProfiles config")
    case True
    show ?thesis
      unfolding entry_series_aggregated [OF True]
      by (rule aggregated_series_dimensions(3) [OF allProfileIds_nonempty])
  next
    case False
    show ?thesis
      unfolding entry_series_single [OF False] allProfileIds_single [OF False]
      by (simp add: single_series_dimensions)
  qed
qed

lemma fullModelId_first: "hd (entry_profile_ids config) = entry_fullModelId config"
  by (simp add: allProfileIds_def)

text \<open>
  C10. The full model id of a model configuration is the bare model id for the regional
  endpoint kind, the model id prefixed with \<open>us.\<close> for cross-region and prefixed with
  \<open>global.\<close> for global cross-region. It is the first of the entry's profile ids. Each
  of an entry's three widgets plots a usage series and a quota line. For an entry
  without application profiles the full model id is the \<open>ModelId\<close> dimension of every
  metric of every series: three metrics behind Initial Reservation and behind Actual
  Consumption, one behind the invocations series and one behind each quota line. For
  any entry, the dimensions behind each usage series are exactly the entry's profile
  ids, and the dimension behind each quota line is the full model id.
\<close>

theorem full_model_id_by_endpoint_kind:
  "getFullModelId mc Regional = modelId mc
   \<and> getFullModelId mc CrossRegion = ''us.'' @ modelId mc
   \<and> getFullModelId mc GlobalCrossRegion = ''global.'' @ modelId mc
   \<and> hd (entry_profile_ids config) = entry_fullModelId config
   \<and> (\<not> hasApplicationProfiles config \<longrightarrow>
         map (map series_dimensions \<circ> widget_series) (entry_widgets config)
           = [[[entry_fullModelId config, entry_fullModelId config, entry_fullModelId config],
               [entry_fullModelId config]],
              [[entry_fullModelId config, entry_fullModelId config, entry_fullModelId config],
               [entry_fullModelId config]],
              [[entry_fullModelId config], [entry_fullModelId config]]])
   \<and> map (map (set \<circ> series_dimensions) \<circ> widget_series) (entry_widgets config)
       = [[set (entry_profile_ids config), {entry_fullModelId config}],
          [set (entry_profile_ids config), {entry_fullModelId config}],
          [set (entry_profile_ids config), {entry_fullModelId config}]]"
proof (intro conjI impI)
  show "hd (entry_profile_ids config) = entry_fullModelId config"
    by (rule fullModelId_first)
  show "map (map (set \<circ> series_dimensions) \<circ> widget_series) (entry_widgets config)
       = [[set (entry_profile_ids config), {entry_fullModelId config}],
          [set (entry_profile_ids config), {entry_fullModelId config}],
          [set (entry_profile_ids config), {entry_fullModelId config}]]"
  proof -
    have "map (map (set \<circ> series_dimensions) \<circ> widget_series) (entry_widgets config)
            = map (map (set \<circ> series_dimensions)) (map widget_series (entry_widgets config))"
      by simp
    then show ?thesis
      unfolding entry_widget_series
      by (simp add: entry_series_dimensions quota_line_dimensions)
  qed
next
  assume single: "\<not> hasApplicationProfiles config"
  show "map (map series_dimensions \<circ> widget_series) (entry_widgets config)
           = [[[entry_fullModelId config, entry_fullModelId config, entry_fullModelId config],
               [entry_fullModelId config]],
              [[entry_fullModelId config, entry_fullModelId config, entry_fullModelId config],
               [entry_fullModelId config]],
              [[entry_fullModelId config], [entry_fullModelId config]]]"
  proof -
    have "map (map series_dimensions \<circ> widget_series) (entry_widgets config)
            = map (map series_dimensions) (map widget_series (entry_widgets config))"
      by simp
    then show ?thesis
      unfolding entry_widget_series entry_series_single [OF single]
      by (simp add: single_series_dimensions quota_line_dimensions)
  qed
qed simp_all

text \<open>
  The three endpoint kinds on one model; the dimensions of every series of the entry
  without application profiles, widget by widget; and those of the entry with one
  application profile.
\<close>

theorem full_model_id_by_endpoint_kind_witness:
  "getFullModelId use1_COHERE_EMBED_V4 Regional = ''cohere.embed-v4:0''
   \<and> getFullModelId use1_COHERE_EMBED_V4 CrossRegion = ''us.cohere.embed-v4:0''
   \<and> getFullModelId use1_COHERE_EMBED_V4 GlobalCrossRegion = ''global.cohere.embed-v4:0''
   \<and> \<not> hasApplicationProfiles single_entry
   \<and> map (map series_dimensions \<circ> widget_series) (entry_widgets single_entry)
       = [[[''global.anthropic.claude-sonnet-4-5-20250929-v1:0'',
            ''global.anthropic.claude-sonnet-4-5-20250929-v1:0'',
            ''global.anthropic.claude-sonnet-4-5-20250929-v1:0''],
           [''global.anthropic.claude-sonnet-4-5-20250929-v1:0'']],
          [[''global.anthropic.claude-sonnet-4-5-20250929-v1:0'',
            ''global.anthropic.claude-sonnet-4-5-20250929-v1:0'',
            ''global.anthropic.claude-sonnet-4-5-20250929-v1:0''],
           [''global.anthropic.claude-sonnet-4-5-20250929-v1:0'']],
          [[''global.anthropic.claude-sonnet-4-5-20250929-v1:0''],
           [''global.anthropic.claude-sonnet-4-5-20250929-v1:0'']]]
   \<and> map (map (set \<circ> series_dimensions) \<circ> widget_series) (entry_widgets aggregated_entry)
       = [[{''us.amazon.nova-lite-v1:0'', ''grjihoh0los8''}, {''us.amazon.nova-lite-v1:0''}],
          [{''us.amazon.nova-lite-v1:0'', ''grjihoh0los8''}, {''us.amazon.nova-lite-v1:0''}],
          [{''us.amazon.nova-lite-v1:0'', ''grjihoh0los8''}, {''us.amazon.nova-lite-v1:0''}]]"
proof -
  have ids: "allProfileIds ''us.amazon.nova-lite-v1:0'' aggregated_entry
               = [''us.amazon.nova-lite-v1:0'', ''grjihoh0los8'']"
    by (simp add: allProfileIds_def hasApplicationProfiles_def aggregated_entry_facts)
  have kinds: "getFullModelId use1_COHERE_EMBED_V4 Regional = ''cohere.embed-v4:0''
      \<and> getFullModelId use1_COHERE_EMBED_V4 CrossRegion = ''us.cohere.embed-v4:0''
      \<and> getFullModelId use1_COHERE_EMBED_V4 GlobalCrossRegion = ''global.cohere.embed-v4:0''"
    using full_model_id_by_endpoint_kind [of use1_COHERE_EMBED_V4 single_entry]
    by (simp add: use1_COHERE_EMBED_V4_def)
  have single: "map (map series_dimensions \<circ> widget_series) (entry_widgets single_entry)
       = [[[entry_fullModelId single_entry, entry_fullModelId single_entry, entry_fullModelId single_entry],
           [entry_fullModelId single_entry]],
          [[entry_fullModelId single_entry, entry_fullModelId single_entry, entry_fullModelId single_entry],
           [entry_fullModelId single_entry]],
          [[entry_fullModelId single_entry], [entry_fullModelId single_entry]]]"
    using full_model_id_by_endpoint_kind [of use1_COHERE_EMBED_V4 single_entry] single_entry_facts(1)
    by blast
  have aggregated: "map (map (set \<circ> series_dimensions) \<circ> widget_series) (entry_widgets aggregated_entry)
       = [[set (entry_profile_ids aggregated_entry), {entry_fullModelId aggregated_entry}],
          [set (entry_profile_ids aggregated_entry), {entry_fullModelId aggregated_entry}],
          [set (entry_profile_ids aggregated_entry), {entry_fullModelId aggregated_entry}]]"
    using full_model_id_by_endpoint_kind [of use1_COHERE_EMBED_V4 aggregated_entry]
    by blast
  from kinds single_entry_facts(1) single aggregated show ?thesis
    unfolding single_entry_facts(2) aggregated_entry_facts(2)
    by (simp add: ids)
qed
section \<open>Isolation of query failures in the fetcher\<close>

lemma refresh_identifier_append:
  "published (refresh_identifier service kind mid code res)
     = published res @ published (refresh_identifier service kind mid code refresh_empty)
   \<and> failures (refresh_identifier service kind mid code res)
     = failures res @ failures (refresh_identifier service kind mid code refresh_empty)"
  by (simp add: refresh_identifier_def refresh_empty_def split: option.splits sum.splits)

lemma refresh_tuple_append:
  "published (refresh_tuple service res m)
     = published res @ published (refresh_tuple service refresh_empty m)
   \<and> failures (refresh_tuple service res m)
     = failures res @ failures (refresh_tuple service refresh_empty m)"
proof -
  let ?t = "refresh_identifier service ''TokenQuota'' (fetch_modelId m) (fetch_tokenQuotaCode m)"
  let ?r = "refresh_identifier service ''RequestQuota'' (fetch_modelId m) (fetch_requestQuotaCode m)"
  have "published (?r (?t res)) = published res @ published (?t refresh_empty) @ published (?r refresh_empty)"
    by (subst refresh_identifier_append [THEN conjunct1], subst refresh_identifier_append [THEN conjunct1])
       simp
  moreover have "published (?r (?t refresh_empty)) = published (?t refresh_empty) @ published (?r refresh_empty)"
    by (subst refresh_identifier_append [THEN conjunct1]) simp
  moreover have "failures (?r (?t res)) = failures res @ failures (?t refresh_empty) @ failures (?r refresh_empty)"
    by (subst refresh_identifier_append [THEN conjunct2], subst refresh_identifier_append [THEN conjunct2])
       simp
  moreover have "failures (?r (?t refresh_empty)) = failures (?t refresh_empty) @ failures (?r refresh_empty)"
    by (subst refresh_identifier_append [THEN conjunct2]) simp
  ultimately show ?thesis
    by (simp add: refresh_tuple_def)
qed

lemma refresh_fold:
  "published (foldl (refresh_tuple service) res ms)
     = published res @ concat (map (\<lambda>m. published (refresh service [m])) ms)
   \<and> failures (foldl (refresh_tuple service) res ms)
     = failures res @ concat (map (\<lambda>m. failures (refresh service [m])) ms)"
proof (induction ms arbitrary: res)
  case Nil
  then show ?case by simp
next
  case (Cons m ms)
  from Cons [of "refresh_tuple service res m"] refresh_tuple_append [of service res m]
  show ?case by (simp add: refresh_def)
qed

text \<open>
  C9. In a batch handled by \<open>refresh\<close>, what a tuple publishes and what is logged for
  it do not depend on the other tuples: the published points of the batch are, tuple by
  tuple and in order, the points each tuple publishes when refreshed alone, and likewise
  the logged failures; and a tuple whose two queries succeed publishes its two limit
  points and logs nothing. So a tuple whose query fails takes nothing away from the
  others, and only its own failure is logged.
\<close>

theorem refresh_isolates_failures:
  "published (refresh service ms) = concat (map (\<lambda>m. published (refresh service [m])) ms)
   \<and> failures (refresh service ms) = concat (map (\<lambda>m. failures (refresh service [m])) ms)
   \<and> (fetch_tokenQuotaCode m = Some c \<and> fetch_requestQuotaCode m = Some c'
        \<and> service c = Inr v \<and> service c' = Inr v' \<longrightarrow>
        published (refresh service [m])
          = [\<lparr>limit_kind = ''TokenQuota'', limit_ModelId = fetch_modelId m, limit_value = v\<rparr>,
             \<lparr>limit_kind = ''RequestQuota'', limit_ModelId = fetch_modelId m, limit_value = v'\<rparr>]
        \<and> failures (refresh service [m]) = [])"
proof (intro conjI impI)
  show "published (refresh service ms) = concat (map (\<lambda>m. published (refresh service [m])) ms)"
    using refresh_fold [of service refresh_empty ms]
    by (simp add: refresh_def refresh_empty_def)
  show "failures (refresh service ms) = concat (map (\<lambda>m. failures (refresh service [m])) ms)"
    using refresh_fold [of service refresh_empty ms]
    by (simp add: refresh_def refresh_empty_def)
next
  assume ok: "fetch_tokenQuotaCode m = Some c \<and> fetch_requestQuotaCode m = Some c'
        \<and> service c = Inr v \<and> service c' = Inr v'"
  then show "published (refresh service [m])
          = [\<lparr>limit_kind = ''TokenQuota'', limit_ModelId = fetch_modelId m, limit_value = v\<rparr>,
             \<lparr>limit_kind = ''RequestQuota'', limit_ModelId = fetch_modelId m, limit_value = v'\<rparr>]"
    by (simp add: refresh_def refresh_tuple_def refresh_identifier_def refresh_empty_def)
  from ok show "failures (refresh service [m]) = []"
    by (simp add: refresh_def refresh_tuple_def refresh_identifier_def refresh_empty_def)
qed

text \<open>
  Three tuples, the query for the second one's token identifier failing: the first and
  the third still publish both of their points, the second publishes its request limit,
  and the one logged failure is the second tuple's.
\<close>

theorem refresh_isolates_failures_witness:
  "published (refresh example_service example_batch)
     = [\<lparr>limit_kind = ''TokenQuota'', limit_ModelId = ''us.amazon.nova-lite-v1:0'', limit_value = 100000\<rparr>,
        \<lparr>limit_kind = ''RequestQuota'', limit_ModelId = ''us.amazon.nova-lite-v1:0'', limit_value = 200\<rparr>,
        \<lparr>limit_kind = ''RequestQuota'', limit_ModelId = ''us.amazon.nova-pro-v1:0'', limit_value = 200\<rparr>,
        \<lparr>limit_kind = ''TokenQuota'', limit_ModelId = ''us.amazon.nova-premier-v1:0'', limit_value = 100000\<rparr>,
        \<lparr>limit_kind = ''RequestQuota'', limit_ModelId = ''us.amazon.nova-premier-v1:0'', limit_value = 200\<rparr>]
   \<and> failures (refresh example_service example_batch)
     = [''Failed to fetch TokenQuota L-C0326783 for us.amazon.nova-pro-v1:0: ServiceException'']"
  using refresh_isolates_failures [of example_service example_batch, THEN conjunct1]
        refresh_isolates_failures [of example_service example_batch, THEN conjunct2, THEN conjunct1]
  by (simp add: example_batch_def example_service_def refresh_def refresh_tuple_def
        refresh_identifier_def refresh_empty_def)


end
